theory Spec2Isabelle
  imports Complex_Main
begin

section \<open>JSON values as the forecast API delivers them\<close>

text \<open>
  The value \<open>res.json()\<close> resolves to. A JavaScript number is modelled by the real
  number it denotes (rounding to binary64 is not modelled). An object is the list of
  its own properties, one pair per key. \<open>undefined\<close> is \<open>None\<close> of \<open>json option\<close>.
\<close>

datatype json =
    JNull
  | JBool bool
  | JNum real
  | JStr string
  | JArr "json list"
  | JObj "(string \<times> json) list"

type_synonym jsval = "json option"

text \<open>Optional chaining \<open>v?.k\<close>: only an object has one of the properties read here.\<close>

fun getProp :: "jsval \<Rightarrow> string \<Rightarrow> jsval" where
  "getProp (Some (JObj kvs)) k = map_of kvs k"
| "getProp _ k = None"

text \<open>Nullish coalescing \<open>v ?? d\<close>.\<close>

fun orElse :: "jsval \<Rightarrow> jsval \<Rightarrow> jsval" where
  "orElse None d = d"
| "orElse (Some JNull) d = d"
| "orElse (Some v) d = Some v"

text \<open>JavaScript truthiness, as \<open>!time\<close> and \<open>updatedAt || ...\<close> test it.\<close>

fun truthy :: "jsval \<Rightarrow> bool" where
  "truthy None = False"
| "truthy (Some JNull) = False"
| "truthy (Some (JBool b)) = b"
| "truthy (Some (JNum r)) = (r \<noteq> 0)"
| "truthy (Some (JStr s)) = (s \<noteq> [])"
| "truthy (Some (JArr xs)) = True"
| "truthy (Some (JObj kvs)) = True"

text \<open>\<open>typeof v === 'number'\<close>.\<close>

fun isNumber :: "jsval \<Rightarrow> bool" where
  "isNumber (Some (JNum r)) = True"
| "isNumber v = False"

text \<open>The number a value is, when it is one.\<close>

fun numberOf :: "jsval \<Rightarrow> real option" where
  "numberOf (Some (JNum r)) = Some r"
| "numberOf v = None"

section \<open>transformForecast\<close>

record ForecastPoint =
  time :: json
  temperature :: real
  windSpeed :: real
  windGust :: "real option"
  precipitation :: "real option"

record ForecastPayload =
  updatedAt :: json
  points :: "ForecastPoint list"

text \<open>
  The body of the \<open>for\<close> loop of \<open>transformForecast\<close> on one entry: \<open>None\<close> is the
  \<open>continue\<close>, \<open>Some p\<close> the point pushed.
\<close>

definition entryPoint :: "json \<Rightarrow> ForecastPoint option" where
  "entryPoint entry =
     (let time = getProp (Some entry) ''time'';
          instant = orElse (getProp (getProp (getProp (Some entry) ''data'') ''instant'') ''details'')
                      (Some (JObj []))
      in if \<not> truthy time \<or> \<not> isNumber (getProp instant ''air_temperature'')
            \<or> \<not> isNumber (getProp instant ''wind_speed'')
         then None
         else
           let next1 = orElse (getProp (getProp (getProp (Some entry) ''data'') ''next_1_hours'') ''details'')
                         (Some JNull);
               next6 = orElse (getProp (getProp (getProp (Some entry) ''data'') ''next_6_hours'') ''details'')
                         (Some JNull)
           in case (time, numberOf (getProp instant ''air_temperature''),
                    numberOf (getProp instant ''wind_speed'')) of
                (Some t, Some temp, Some wind) \<Rightarrow>
                  Some \<lparr> time = t,
                         temperature = temp,
                         windSpeed = wind,
                         windGust =
                           (if isNumber (getProp instant ''wind_speed_of_gust'')
                            then numberOf (getProp instant ''wind_speed_of_gust'')
                            else if isNumber (getProp next1 ''wind_speed_of_gust'')
                            then numberOf (getProp next1 ''wind_speed_of_gust'')
                            else if isNumber (getProp next6 ''wind_speed_of_gust'')
                            then numberOf (getProp next6 ''wind_speed_of_gust'')
                            else None),
                         precipitation =
                           (if isNumber (getProp next1 ''precipitation_amount'')
                            then numberOf (getProp next1 ''precipitation_amount'')
                            else if isNumber (getProp next6 ''precipitation_amount'')
                            then map_option (\<lambda>a. a / 6) (numberOf (getProp next6 ''precipitation_amount''))
                            else None) \<rparr>
              | _ \<Rightarrow> None)"

text \<open>The loop over \<open>series.slice(0, 48)\<close>, pushing onto \<open>points\<close>.\<close>

fun collectPoints :: "json list \<Rightarrow> ForecastPoint list \<Rightarrow> ForecastPoint list" where
  "collectPoints [] pts = pts"
| "collectPoints (entry # rest) pts =
     (case entryPoint entry of
        None \<Rightarrow> collectPoints rest pts
      | Some p \<Rightarrow> collectPoints rest (pts @ [p]))"

text \<open>\<open>Array.isArray(data?.properties?.timeseries) ? data.properties.timeseries : []\<close>.\<close>

definition timeseries :: "json \<Rightarrow> json list" where
  "timeseries data =
     (case getProp (getProp (Some data) ''properties'') ''timeseries'' of
        Some (JArr xs) \<Rightarrow> xs
      | _ \<Rightarrow> [])"

text \<open>
  \<open>now\<close> is \<open>new Date().toISOString()\<close> at the time of the call; \<open>None\<close> is the
  \<open>null\<close> the function returns.
\<close>

definition transformForecast :: "string \<Rightarrow> json \<Rightarrow> ForecastPayload option" where
  "transformForecast now data =
     (let updated = getProp (getProp (getProp (Some data) ''properties'') ''meta'') ''updated_at'';
          series = timeseries data
      in if series = [] then None
         else
           let pts = collectPoints (take 48 series) []
           in if pts = [] then None
              else Some \<lparr> updatedAt = (case updated of
                                          Some u \<Rightarrow> if truthy (Some u) then u else JStr now
                                        | None \<Rightarrow> JStr now),
                          points = pts \<rparr>)"

text \<open>
  The specification's words for one entry, to compare with the loop body: an entry is
  usable when it has a timestamp and numeric instantaneous temperature and wind speed;
  a reading is resolved as the first numeric candidate of a list, in order.
\<close>

definition instantDetails :: "json \<Rightarrow> jsval" where
  "instantDetails entry = getProp (getProp (getProp (Some entry) ''data'') ''instant'') ''details''"

definition next1Details :: "json \<Rightarrow> jsval" where
  "next1Details entry = getProp (getProp (getProp (Some entry) ''data'') ''next_1_hours'') ''details''"

definition next6Details :: "json \<Rightarrow> jsval" where
  "next6Details entry = getProp (getProp (getProp (Some entry) ''data'') ''next_6_hours'') ''details''"

definition usable :: "json \<Rightarrow> bool" where
  "usable entry =
     (truthy (getProp (Some entry) ''time'')
      \<and> isNumber (getProp (instantDetails entry) ''air_temperature'')
      \<and> isNumber (getProp (instantDetails entry) ''wind_speed''))"

fun firstPresent :: "real option list \<Rightarrow> real option" where
  "firstPresent [] = None"
| "firstPresent (Some r # rest) = Some r"
| "firstPresent (None # rest) = firstPresent rest"

definition specGust :: "json \<Rightarrow> real option" where
  "specGust entry =
     firstPresent [numberOf (getProp (instantDetails entry) ''wind_speed_of_gust''),
                   numberOf (getProp (next1Details entry) ''wind_speed_of_gust''),
                   numberOf (getProp (next6Details entry) ''wind_speed_of_gust'')]"

definition specPrecipitation :: "json \<Rightarrow> real option" where
  "specPrecipitation entry =
     firstPresent [numberOf (getProp (next1Details entry) ''precipitation_amount''),
                   map_option (\<lambda>a. a / 6) (numberOf (getProp (next6Details entry) ''precipitation_amount''))]"

text \<open>A forecast document around a time series, and a complete hourly entry.\<close>

definition forecastDoc :: "json list \<Rightarrow> json" where
  "forecastDoc series = JObj [(''properties'', JObj [(''timeseries'', JArr series)])]"

definition hourEntry :: "string \<Rightarrow> real \<Rightarrow> real \<Rightarrow> json" where
  "hourEntry t temp wind =
     JObj [(''time'', JStr t),
           (''data'', JObj [(''instant'', JObj [(''details'',
              JObj [(''air_temperature'', JNum temp), (''wind_speed'', JNum wind)])])])]"

definition noTemperatureEntry :: "string \<Rightarrow> real \<Rightarrow> json" where
  "noTemperatureEntry t wind =
     JObj [(''time'', JStr t),
           (''data'', JObj [(''instant'', JObj [(''details'',
              JObj [(''wind_speed'', JNum wind)])])])]"

definition sixHourEntry :: "string \<Rightarrow> real \<Rightarrow> json" where
  "sixHourEntry t amount =
     JObj [(''time'', JStr t),
           (''data'', JObj [(''instant'', JObj [(''details'',
                               JObj [(''air_temperature'', JNum 4), (''wind_speed'', JNum 3)])]),
                            (''next_6_hours'', JObj [(''details'',
                               JObj [(''precipitation_amount'', JNum amount)])])])]"

section \<open>Strings\<close>

text \<open>
  A string is a list of code units; the model covers the code units below 256. The white
  space of \<open>trim\<close>, \<open>\s\<close> and \<open>parseFloat\<close> in that range is tab, line feed, vertical
  tab, form feed, carriage return, space and no-break space.
\<close>

definition isSpace :: "char \<Rightarrow> bool" where
  "isSpace c = (of_char c \<in> {9, 10, 11, 12, 13, 32, 160 :: nat})"

definition isDigit :: "char \<Rightarrow> bool" where
  "isDigit c = (c \<in> set ''0123456789'')"

definition digitValue :: "char \<Rightarrow> nat" where
  "digitValue c = of_char c - 48"

definition trimStart :: "string \<Rightarrow> string" where
  "trimStart s = dropWhile isSpace s"

definition trim :: "string \<Rightarrow> string" where
  "trim s = rev (dropWhile isSpace (rev (dropWhile isSpace s)))"

definition startsWith :: "string \<Rightarrow> string \<Rightarrow> bool" where
  "startsWith s p = (take (length p) s = p)"

text \<open>\<open>s.split(c)\<close> for a one-character separator.\<close>

fun splitOn :: "char \<Rightarrow> string \<Rightarrow> string list" where
  "splitOn c [] = [[]]"
| "splitOn c (x # xs) =
     (if x = c then [] # splitOn c xs
      else (case splitOn c xs of
              w # ws \<Rightarrow> (x # w) # ws
            | [] \<Rightarrow> [[x]]))"

section \<open>Numbers read from text\<close>

text \<open>
  The result of \<open>parseFloat\<close>: \<open>NaN\<close>, an infinity (negative when the flag is set), or a
  finite number, kept as the exact decimal value read (the rounding to the nearest
  binary64 value is not modelled). A decimal value rounds to an infinity from
  \<open>2^1024 - 2^970\<close> on.
\<close>

datatype number = NaN | Infinity bool | Finite real

definition toNumber :: "real \<Rightarrow> number" where
  "toNumber v = (if 2 ^ 1024 - 2 ^ 970 \<le> \<bar>v\<bar> then Infinity (v < 0) else Finite v)"

definition digitsValue :: "string \<Rightarrow> nat" where
  "digitsValue ds = foldl (\<lambda>a d. 10 * a + digitValue d) 0 ds"

text \<open>The exponent part \<open>e\<close>, \<open>E\<close> with a signed integer, when it is complete; else 0.\<close>

definition exponentPart :: "string \<Rightarrow> int" where
  "exponentPart s =
     (case s of
        [] \<Rightarrow> 0
      | e # r \<Rightarrow>
          if e = CHR ''e'' \<or> e = CHR ''E'' then
            (case r of
               [] \<Rightarrow> 0
             | sg # r' \<Rightarrow>
                 if sg = CHR ''-'' then
                   (if takeWhile isDigit r' = [] then 0 else - int (digitsValue (takeWhile isDigit r')))
                 else if sg = CHR ''+'' then
                   (if takeWhile isDigit r' = [] then 0 else int (digitsValue (takeWhile isDigit r')))
                 else int (digitsValue (takeWhile isDigit r)))
          else 0)"

definition scale10 :: "real \<Rightarrow> int \<Rightarrow> real" where
  "scale10 m k = (if 0 \<le> k then m * 10 ^ nat k else m / 10 ^ nat (- k))"

definition parseFloat :: "string \<Rightarrow> number" where
  "parseFloat s =
     (let t = trimStart s;
          neg = (t \<noteq> [] \<and> hd t = CHR ''-'');
          u = (if t \<noteq> [] \<and> (hd t = CHR ''-'' \<or> hd t = CHR ''+'') then tl t else t)
      in if startsWith u ''Infinity'' then Infinity neg
         else
           let ip = takeWhile isDigit u;
               r1 = dropWhile isDigit u;
               dot = (r1 \<noteq> [] \<and> hd r1 = CHR ''.'');
               fp = (if dot then takeWhile isDigit (tl r1) else []);
               r2 = (if dot then dropWhile isDigit (tl r1) else r1)
           in if ip = [] \<and> fp = [] then NaN
              else
                let v = scale10 (real (digitsValue (ip @ fp))) (exponentPart r2 - int (length fp))
                in toNumber (if neg then - v else v))"

fun isFinite :: "number \<Rightarrow> bool" where
  "isFinite (Finite v) = True"
| "isFinite n = False"

section \<open>Arithmetic on binary64 values\<close>

text \<open>
  The operations of the code on numbers, where a property depends on overflow. The
  result of an operation on finite values is the exact one (the rounding to the nearest
  binary64 value is not modelled) unless its magnitude reaches \<open>2^1024 - 2^970\<close>, from
  where it is an infinity; the infinities and \<open>NaN\<close> follow IEEE 754. The sign of a zero
  is not modelled: a division of a value other than zero by zero has the sign of the
  dividend.
\<close>

fun numNeg :: "number \<Rightarrow> number" where
  "numNeg NaN = NaN"
| "numNeg (Infinity s) = Infinity (\<not> s)"
| "numNeg (Finite a) = Finite (- a)"

fun numAdd :: "number \<Rightarrow> number \<Rightarrow> number" where
  "numAdd (Finite a) (Finite b) = toNumber (a + b)"
| "numAdd (Finite a) (Infinity t) = Infinity t"
| "numAdd (Infinity s) (Finite b) = Infinity s"
| "numAdd (Infinity s) (Infinity t) = (if s = t then Infinity s else NaN)"
| "numAdd NaN y = NaN"
| "numAdd (Finite a) NaN = NaN"
| "numAdd (Infinity s) NaN = NaN"

definition numSub :: "number \<Rightarrow> number \<Rightarrow> number" where
  "numSub x y = numAdd x (numNeg y)"

fun numMul :: "number \<Rightarrow> number \<Rightarrow> number" where
  "numMul (Finite a) (Finite b) = toNumber (a * b)"
| "numMul (Finite a) (Infinity t) = (if a = 0 then NaN else Infinity (t \<noteq> (a < 0)))"
| "numMul (Infinity s) (Finite b) = (if b = 0 then NaN else Infinity (s \<noteq> (b < 0)))"
| "numMul (Infinity s) (Infinity t) = Infinity (s \<noteq> t)"
| "numMul NaN y = NaN"
| "numMul (Finite a) NaN = NaN"
| "numMul (Infinity s) NaN = NaN"

fun numDiv :: "number \<Rightarrow> number \<Rightarrow> number" where
  "numDiv (Finite a) (Finite b) =
     (if b = 0 then (if a = 0 then NaN else Infinity (a < 0)) else toNumber (a / b))"
| "numDiv (Finite a) (Infinity t) = Finite 0"
| "numDiv (Infinity s) (Finite b) = Infinity (s \<noteq> (b < 0))"
| "numDiv (Infinity s) (Infinity t) = NaN"
| "numDiv NaN y = NaN"
| "numDiv (Finite a) NaN = NaN"
| "numDiv (Infinity s) NaN = NaN"

text \<open>\<open>Math.max\<close> of two numbers.\<close>

fun numMax :: "number \<Rightarrow> number \<Rightarrow> number" where
  "numMax (Finite a) (Finite b) = Finite (max a b)"
| "numMax (Finite a) (Infinity t) = (if t then Finite a else Infinity False)"
| "numMax (Infinity s) (Finite b) = (if s then Finite b else Infinity False)"
| "numMax (Infinity s) (Infinity t) = Infinity (s \<and> t)"
| "numMax NaN y = NaN"
| "numMax (Finite a) NaN = NaN"
| "numMax (Infinity s) NaN = NaN"

text \<open>The comparison \<open><=\<close>: false when an operand is \<open>NaN\<close>.\<close>

fun numLe :: "number \<Rightarrow> number \<Rightarrow> bool" where
  "numLe (Finite a) (Finite b) = (a \<le> b)"
| "numLe (Finite a) (Infinity t) = (\<not> t)"
| "numLe (Infinity s) (Finite b) = s"
| "numLe (Infinity s) (Infinity t) = (s \<or> \<not> t)"
| "numLe NaN y = False"
| "numLe (Finite a) NaN = False"
| "numLe (Infinity s) NaN = False"

section \<open>generateForecastSvg: the temperature scale\<close>

text \<open>
  The constants and the closure \<open>tempY\<close> of \<open>generateForecastSvg\<close>. A temperature is a
  finite binary64 value (the \<open>typeof\<close> test of \<open>transformForecast\<close> also accepts the
  infinity that \<open>JSON.parse\<close> reads from a literal beyond the range, which a point of this
  model cannot hold); \<open>Math.max\<close> and \<open>Math.min\<close> of finite values are exact, the
  subtractions, the division, the product and the sum can overflow.
\<close>

definition margin_top :: real where "margin_top = 64"
definition margin_right :: real where "margin_right = 36"
definition margin_bottom :: real where "margin_bottom = 80"
definition margin_left :: real where "margin_left = 72"

definition innerWidth :: real where
  "innerWidth = 960 - margin_left - margin_right"

definition innerHeight :: real where
  "innerHeight = 540 - margin_top - margin_bottom"

definition tempSection :: real where
  "tempSection = innerHeight * 0.55"

text \<open>\<open>Math.max(...xs, d)\<close> and \<open>Math.min(...xs, d)\<close>.\<close>

definition Math_max :: "real list \<Rightarrow> real \<Rightarrow> real" where
  "Math_max xs d = fold max xs d"

definition Math_min :: "real list \<Rightarrow> real \<Rightarrow> real" where
  "Math_min xs d = fold min xs d"

definition tempMax :: "ForecastPoint list \<Rightarrow> real" where
  "tempMax pts = Math_max (map temperature pts) 5"

definition tempMin :: "ForecastPoint list \<Rightarrow> real" where
  "tempMin pts = Math_min (map temperature pts) (- 5)"

text \<open>\<open>Math.max(tempMax - tempMin, 5)\<close>.\<close>

definition tempRange :: "ForecastPoint list \<Rightarrow> number" where
  "tempRange pts = numMax (numSub (Finite (tempMax pts)) (Finite (tempMin pts))) (Finite 5)"

text \<open>\<open>margin.top + (tempMax - value) / tempRange * tempSection\<close>.\<close>

definition tempY :: "ForecastPoint list \<Rightarrow> real \<Rightarrow> number" where
  "tempY pts v =
     numAdd (Finite margin_top)
       (numMul (numDiv (numSub (Finite (tempMax pts)) (Finite v)) (tempRange pts))
          (Finite tempSection))"

text \<open>Two points with temperatures at the ends of the binary64 range.\<close>

definition extremePoints :: "ForecastPoint list" where
  "extremePoints =
     [\<lparr> time = JStr ''2024-05-01T00:00:00Z'', temperature = 10 ^ 308, windSpeed = 2,
         windGust = None, precipitation = None \<rparr>,
      \<lparr> time = JStr ''2024-05-01T01:00:00Z'', temperature = - (10 ^ 308), windSpeed = 3,
         windGust = None, precipitation = None \<rparr>]"

section \<open>extractCoordinates\<close>

record Coordinates =
  lat :: real
  lon :: real

text \<open>
  The regular expression \<open>/-?\d+\.\d+,-?\d+\.\d+/\<close>. \<open>digitsThen s c\<close> matches
  \<open>\d+\<close> followed by the character \<open>c\<close> at the start of \<open>s\<close> and gives the rest.
\<close>

definition digitsThen :: "string \<Rightarrow> char \<Rightarrow> string option" where
  "digitsThen s c =
     (if takeWhile isDigit s = [] then None
      else (case dropWhile isDigit s of
              [] \<Rightarrow> None
            | x # rest \<Rightarrow> if x = c then Some rest else None))"

definition optMinus :: "string \<Rightarrow> string" where
  "optMinus s = (case s of [] \<Rightarrow> [] | x # rest \<Rightarrow> if x = CHR ''-'' then rest else s)"

definition coordMatchAt :: "string \<Rightarrow> bool" where
  "coordMatchAt s =
     (case digitsThen (optMinus s) (CHR ''.'') of
        None \<Rightarrow> False
      | Some r1 \<Rightarrow>
          (case digitsThen r1 (CHR '','') of
             None \<Rightarrow> False
           | Some r2 \<Rightarrow>
               (case digitsThen (optMinus r2) (CHR ''.'') of
                  None \<Rightarrow> False
                | Some r3 \<Rightarrow> r3 \<noteq> [] \<and> isDigit (hd r3))))"

text \<open>\<open>regex.test(seg)\<close>: a match starting at some position of the segment.\<close>

fun coordTest :: "string \<Rightarrow> bool" where
  "coordTest [] = coordMatchAt []"
| "coordTest (c # cs) = (coordMatchAt (c # cs) \<or> coordTest cs)"

text \<open>
  \<open>pathname\<close> stands for \<open>new URL(url).pathname\<close>, the platform's URL parser:
  \<open>None\<close> when the constructor throws. The \<open>catch\<close> returns \<open>null\<close>.
\<close>

definition pathSegments :: "string \<Rightarrow> string list" where
  "pathSegments path = filter (\<lambda>seg. seg \<noteq> []) (splitOn (CHR ''/'') path)"

definition extractCoordinates :: "(string \<Rightarrow> string option) \<Rightarrow> string \<Rightarrow> Coordinates option" where
  "extractCoordinates pathname url =
     (case pathname url of
        None \<Rightarrow> None
      | Some path \<Rightarrow>
          (case find coordTest (pathSegments path) of
                None \<Rightarrow> None
              | Some coordSegment \<Rightarrow>
                  (case splitOn (CHR '','') coordSegment of
                     latRaw # lonRaw # others \<Rightarrow>
                       (case (parseFloat latRaw, parseFloat lonRaw) of
                          (Finite la, Finite lo) \<Rightarrow> Some \<lparr> lat = la, lon = lo \<rparr>
                        | _ \<Rightarrow> None)
                   | _ \<Rightarrow> None)))"

text \<open>The pathnames the URL parser gives for the URLs used as examples below.\<close>

definition examplePathname :: "string \<Rightarrow> string option" where
  "examplePathname =
     map_of [(''https://x/y/60.10,10.75/z'', ''/y/60.10,10.75/z''),
             (''https://x/y/a60.10,10.75/z'', ''/y/a60.10,10.75/z''),
             (''https://x/y/95.5,200.25/z'', ''/y/95.5,200.25/z''),
             (''https://x/y/z'', ''/y/z'')]"

section \<open>The element tree of a parsed document\<close>

text \<open>
  An element has a local name, its attributes in document order and its child nodes;
  every other kind of node (text, comment) is \<open>Text\<close>.
\<close>

datatype node = Element string "(string \<times> string) list" "node list" | Text string

type_synonym attrs = "(string \<times> string) list"

definition getAttribute :: "attrs \<Rightarrow> string \<Rightarrow> string option" where
  "getAttribute ats k = map_of ats k"

definition hasAttribute :: "attrs \<Rightarrow> string \<Rightarrow> bool" where
  "hasAttribute ats k = (map_of ats k \<noteq> None)"

fun setAttribute :: "attrs \<Rightarrow> string \<Rightarrow> string \<Rightarrow> attrs" where
  "setAttribute [] k v = [(k, v)]"
| "setAttribute ((n, x) # ats) k v =
     (if n = k then (n, v) # ats else (n, x) # setAttribute ats k v)"

definition removeAttribute :: "attrs \<Rightarrow> string \<Rightarrow> attrs" where
  "removeAttribute ats k = filter (\<lambda>(n, x). n \<noteq> k) ats"

text \<open>\<open>s.replace(pat, rep)\<close> with a string pattern: the first occurrence only.\<close>

fun replaceFirst :: "string \<Rightarrow> string \<Rightarrow> string \<Rightarrow> string" where
  "replaceFirst pat rep [] = (if pat = [] then rep else [])"
| "replaceFirst pat rep (c # cs) =
     (if startsWith (c # cs) pat then rep @ drop (length pat) (c # cs)
      else c # replaceFirst pat rep cs)"

definition lowerChar :: "char \<Rightarrow> char" where
  "lowerChar c =
     (let n = (of_char c :: nat)
      in if (65 \<le> n \<and> n \<le> 90) \<or> (192 \<le> n \<and> n \<le> 222 \<and> n \<noteq> 215)
         then char_of (n + 32) else c)"

definition toLowerCase :: "string \<Rightarrow> string" where
  "toLowerCase s = map lowerChar s"

section \<open>processSvg: the transformations\<close>

text \<open>The attributes of the root \<open>svg\<close> element: view box, dimensions, aspect ratio.\<close>

definition fixRoot :: "attrs \<Rightarrow> attrs" where
  "fixRoot ats =
     (let ats1 =
            (if \<not> hasAttribute ats ''viewBox'' then
               (case (map_option (replaceFirst ''px'' []) (getAttribute ats ''width''),
                      map_option (replaceFirst ''px'' []) (getAttribute ats ''height'')) of
                  (Some w, Some h) \<Rightarrow>
                    if w \<noteq> [] \<and> h \<noteq> []
                    then setAttribute ats ''viewBox'' (''0 0 '' @ w @ '' '' @ h)
                    else ats
                | _ \<Rightarrow> ats)
             else ats);
          ats2 = removeAttribute (removeAttribute ats1 ''width'') ''height''
      in if (case getAttribute ats2 ''preserveAspectRatio'' of None \<Rightarrow> True | Some v \<Rightarrow> v = [])
         then setAttribute ats2 ''preserveAspectRatio'' ''xMidYMid meet''
         else ats2)"

fun named :: "string \<Rightarrow> node \<Rightarrow> bool" where
  "named nm (Element n ats cs) = (n = nm)"
| "named nm (Text t) = False"

text \<open>\<open>el.querySelectorAll(nm).forEach(x => x.remove())\<close>: the descendants named \<open>nm\<close> go.\<close>

fun removeNamed :: "string \<Rightarrow> node \<Rightarrow> node" where
  "removeNamed nm (Element n ats cs) =
     Element n ats (map (removeNamed nm) (filter (\<lambda>c. \<not> named nm c) cs))"
| "removeNamed nm (Text t) = Text t"

text \<open>
  A change of attributes made on an element and on every element below it, and the same
  on the descendants only, which is what \<open>querySelectorAll\<close> on the root reaches.
\<close>

fun eachElement :: "(string \<Rightarrow> attrs \<Rightarrow> attrs) \<Rightarrow> node \<Rightarrow> node" where
  "eachElement f (Element n ats cs) = Element n (f n ats) (map (eachElement f) cs)"
| "eachElement f (Text t) = Text t"

fun onChildren :: "(node \<Rightarrow> node) \<Rightarrow> node \<Rightarrow> node" where
  "onChildren g (Element n ats cs) = Element n ats (map g cs)"
| "onChildren g (Text t) = Text t"

definition dropFilter :: "string \<Rightarrow> attrs \<Rightarrow> attrs" where
  "dropFilter n ats = removeAttribute ats ''filter''"

text \<open>\<open>isWhite\<close>, and the two regular expressions applied to the \<open>style\<close> of a \<open>rect\<close>.\<close>

definition isWhite :: "string option \<Rightarrow> bool" where
  "isWhite v =
     (let t = toLowerCase (trim (case v of None \<Rightarrow> [] | Some s \<Rightarrow> s))
      in t = ''#fff'' \<or> t = ''#ffffff'' \<or> t = ''white'' \<or> t = ''rgb(255,255,255)'')"

definition skipWs :: "string \<Rightarrow> string" where
  "skipWs s = dropWhile isSpace s"

text \<open>The literal \<open>lit\<close> (in lower case) at the start of \<open>s\<close>, ignoring case: the rest.\<close>

definition expect :: "string \<Rightarrow> string \<Rightarrow> string option" where
  "expect lit s =
     (if map lowerChar (take (length lit) s) = lit then Some (drop (length lit) s) else None)"

text \<open>\<open>\s*lit\<close> after what precedes.\<close>

definition thenWs :: "string option \<Rightarrow> string \<Rightarrow> string option" where
  "thenWs r lit = (case r of None \<Rightarrow> None | Some s \<Rightarrow> expect lit (skipWs s))"

text \<open>\<open>\s*fill\s*:\<close> at the start of \<open>s\<close>: the rest after the colon.\<close>

definition fillColon :: "string \<Rightarrow> string option" where
  "fillColon s = thenWs (thenWs (Some s) ''fill'') '':''"

definition rgbWhite :: "string \<Rightarrow> bool" where
  "rgbWhite v =
     (thenWs (thenWs (thenWs (thenWs (thenWs (thenWs (expect ''rgb('' v) ''255'') '','') ''255'')
        '','') ''255'') '')'' \<noteq> None)"

text \<open>
  \<open>\s*fill\s*:\s*(#fff|#ffffff|white|rgb\(\s*255\s*,\s*255\s*,\s*255\s*\))\<close> at the start
  of \<open>s\<close>; the \<open>\s*;?\<close> that follows always matches.
\<close>

definition whiteAt :: "string \<Rightarrow> bool" where
  "whiteAt s =
     (case fillColon s of
        None \<Rightarrow> False
      | Some r \<Rightarrow>
          expect ''#fff'' (skipWs r) \<noteq> None \<or> expect ''#ffffff'' (skipWs r) \<noteq> None
          \<or> expect ''white'' (skipWs r) \<noteq> None \<or> rgbWhite (skipWs r))"

fun afterSemicolon :: "(string \<Rightarrow> bool) \<Rightarrow> string \<Rightarrow> bool" where
  "afterSemicolon P [] = False"
| "afterSemicolon P (c # cs) = ((c = CHR '';'' \<and> P cs) \<or> afterSemicolon P cs)"

text \<open>The \<open>test\<close> of the first expression: a match at the start or after a semicolon.\<close>

definition whiteFillTest :: "string \<Rightarrow> bool" where
  "whiteFillTest style = (whiteAt style \<or> afterSemicolon whiteAt style)"

text \<open>
  \<open>\s*fill\s*:\s*[^;]+;?\<close> at the start of \<open>s\<close>: the rest after the match. The value
  is the longest run without a semicolon and is not empty.
\<close>

definition fillDeclAt :: "string \<Rightarrow> string option" where
  "fillDeclAt s =
     (case fillColon s of
        None \<Rightarrow> None
      | Some r \<Rightarrow>
          if takeWhile (\<lambda>c. c \<noteq> CHR '';'') r = [] then None
          else (case dropWhile (\<lambda>c. c \<noteq> CHR '';'') r of
                  [] \<Rightarrow> Some []
                | x # rest \<Rightarrow> Some rest))"

lemma expect_length: "expect lit s = Some r \<Longrightarrow> length r \<le> length s"
  by (auto simp: expect_def split: if_splits)

lemma thenWs_length: "thenWs (Some s) lit = Some r \<Longrightarrow> length r \<le> length s"
proof -
  assume "thenWs (Some s) lit = Some r"
  then have "length r \<le> length (skipWs s)"
    by (simp add: thenWs_def expect_length)
  also have "\<dots> \<le> length s"
    by (simp add: skipWs_def length_dropWhile_le)
  finally show ?thesis .
qed

lemma fillColon_length: "fillColon s = Some r \<Longrightarrow> length r \<le> length s"
proof -
  assume a: "fillColon s = Some r"
  then obtain m where m: "thenWs (Some s) ''fill'' = Some m" and r: "thenWs (Some m) '':'' = Some r"
    unfolding fillColon_def by (cases "thenWs (Some s) ''fill''") (auto simp: thenWs_def)
  show ?thesis
    using thenWs_length [OF m] thenWs_length [OF r] by simp
qed

lemma fillDeclAt_length: "fillDeclAt s = Some rest \<Longrightarrow> length rest \<le> length s"
proof -
  assume a: "fillDeclAt s = Some rest"
  then obtain r where r: "fillColon s = Some r"
    unfolding fillDeclAt_def by (cases "fillColon s") auto
  have "length (dropWhile (\<lambda>c. c \<noteq> CHR '';'') r) \<le> length r"
    by (rule length_dropWhile_le)
  then have "length rest \<le> length r"
    using a r unfolding fillDeclAt_def by (auto split: if_splits list.splits)
  then show ?thesis
    using fillColon_length [OF r] by simp
qed

text \<open>
  The global \<open>replace\<close> of the second expression by \<open>$1\<close>, from a position after the
  start: only the alternative with the semicolon can match there, and the semicolon is
  kept. The search goes on after each match.
\<close>

function replaceFills :: "string \<Rightarrow> string" where
  "replaceFills [] = []"
| "replaceFills (c # cs) =
     (if c = CHR '';'' then
        (case fillDeclAt cs of
           Some rest \<Rightarrow> CHR '';'' # replaceFills rest
         | None \<Rightarrow> c # replaceFills cs)
      else c # replaceFills cs)"
  by pat_completeness auto
termination
  by (relation "measure length") (auto dest: fillDeclAt_length)

text \<open>At the start of the string the alternative \<open>^\<close> is tried first.\<close>

definition stripFill :: "string \<Rightarrow> string" where
  "stripFill style =
     (case fillDeclAt style of
        Some rest \<Rightarrow> replaceFills rest
      | None \<Rightarrow> replaceFills style)"

definition fixRect :: "attrs \<Rightarrow> attrs" where
  "fixRect ats =
     (let fill = getAttribute ats ''fill'';
          style = (case getAttribute ats ''style'' of None \<Rightarrow> [] | Some s \<Rightarrow> s)
      in if isWhite fill \<or> whiteFillTest style
         then setAttribute (setAttribute ats ''fill'' ''none'') ''style'' (stripFill style)
         else ats)"

definition rectFill :: "string \<Rightarrow> attrs \<Rightarrow> attrs" where
  "rectFill n ats = (if n = ''rect'' then fixRect ats else ats)"

text \<open>
  \<open>fo.querySelector('*')\<close> is the first element child of \<open>fo\<close>; its \<open>style\<close> gets the
  background appended.
\<close>

fun styleFirstElement :: "string \<Rightarrow> node list \<Rightarrow> node list" where
  "styleFirstElement bg [] = []"
| "styleFirstElement bg (Element n ats cs # rest) =
     Element n
       (setAttribute ats ''style''
          ((case getAttribute ats ''style'' of None \<Rightarrow> [] | Some s \<Rightarrow> s)
           @ '';background:'' @ bg @ '' !important;''))
       cs # rest"
| "styleFirstElement bg (Text t # rest) = Text t # styleFirstElement bg rest"

fun foreignObjects :: "string \<Rightarrow> node \<Rightarrow> node" where
  "foreignObjects bg (Element n ats cs) =
     Element n ats
       (if n = ''foreignObject'' then styleFirstElement bg (map (foreignObjects bg) cs)
        else map (foreignObjects bg) cs)"
| "foreignObjects bg (Text t) = Text t"

text \<open>The element \<open>svg\<close> after the mutations of \<open>processSvg\<close>, in the order of the source.\<close>

definition sanitizeSvg :: "string \<Rightarrow> node \<Rightarrow> node" where
  "sanitizeSvg bg svg =
     (case svg of
        Text t \<Rightarrow> Text t
      | Element n ats cs \<Rightarrow>
          onChildren (foreignObjects bg)
            (onChildren (eachElement rectFill)
               (onChildren (eachElement dropFilter)
                  (removeNamed ''filter''
                     (removeNamed ''style'' (Element n (fixRoot ats) cs))))))"

section \<open>The widget: configuration, state and platform\<close>

record Config =
  sourceUrl :: "string option"
  svgCode :: "string option"
  overallBackground :: string

text \<open>The component state of the version with the forecast path.\<close>

record State =
  svgHtml :: "string option"
  isLoading :: bool
  error :: "string option"
  rawSvg :: "string option"
  expanded :: bool

text \<open>The component state of \<open>runtime/widget.tsx\<close>, which has an external display mode.\<close>

datatype DisplayMode = Inline | External

record RuntimeState = State +
  displayMode :: DisplayMode
  externalUrl :: "string option"

text \<open>A mounted component: its state and the configuration in its props.\<close>

record 's Widget =
  state :: 's
  config :: Config

text \<open>
  How a call ends: it returns a value, it throws, or it does not return (a loop that
  does not end).
\<close>

datatype 'a outcome = Returned 'a | Thrown | Hangs

text \<open>
  What the code takes from the browser and the network.
  \<^item> \<open>parseSvg s\<close>: \<open>new DOMParser().parseFromString(s, 'image/svg+xml').querySelector('svg')\<close>;
  \<^item> \<open>parseHtmlSvg s\<close>: the \<open>outerHTML\<close> of the first \<open>svg\<close> element of \<open>s\<close> parsed as HTML;
  \<^item> \<open>outerHTML\<close>: the serialization of an element;
  \<^item> \<open>urlPathname\<close>: \<open>new URL(url).pathname\<close>, \<open>None\<close> when the constructor throws;
  \<^item> \<open>requestUrl\<close>: the URL with its \<open>nocache\<close> parameter;
  \<^item> \<open>isoNow\<close>: \<open>new Date().toISOString()\<close>;
  \<^item> \<open>validDate v\<close>: \<open>new Date(v)\<close> is a valid date, one that \<open>Intl.DateTimeFormat\<close>
    formats; on any other its \<open>format\<close> throws a \<open>RangeError\<close>;
  \<^item> \<open>chartMarkup\<close>: the rest of \<open>generateForecastSvg\<close> once the dates are formatted: the
    text of the template after its first line when it returns (number and date
    formatting belong to the platform); a loop that collects ticks does not end when
    the step no longer moves its counter in binary64;
  \<^item> \<open>fetchText url k\<close>: the body the \<open>k\<close>-th attempt receives, \<open>None\<close> when the
    request fails, times out or the status is not ok;
  \<^item> \<open>fetchJson coords k\<close>: the same for the forecast API.
\<close>

record Env =
  parseSvg :: "string \<Rightarrow> node option"
  parseHtmlSvg :: "string \<Rightarrow> string option"
  outerHTML :: "node \<Rightarrow> string"
  urlPathname :: "string \<Rightarrow> string option"
  requestUrl :: "string \<Rightarrow> string"
  isoNow :: string
  validDate :: "json \<Rightarrow> bool"
  chartMarkup :: "Config \<Rightarrow> ForecastPayload \<Rightarrow> string outcome"
  fetchText :: "string \<Rightarrow> nat \<Rightarrow> string option"
  fetchJson :: "Coordinates \<Rightarrow> nat \<Rightarrow> json option"

section \<open>processSvg\<close>

definition processSvg :: "Env \<Rightarrow> Config \<Rightarrow> string \<Rightarrow> State \<Rightarrow> State" where
  "processSvg env cfg code st =
     (case parseSvg env code of
        None \<Rightarrow> st\<lparr> error := Some ''Invalid SVG content'', isLoading := False \<rparr>
      | Some svg \<Rightarrow>
          st\<lparr> svgHtml := Some (outerHTML env (sanitizeSvg (overallBackground cfg) svg)),
              isLoading := False,
              error := None,
              rawSvg := Some code \<rparr>)"

text \<open>\<open>processSvg\<close> of \<open>runtime/widget.tsx\<close>.\<close>

definition processSvgRuntime :: "Env \<Rightarrow> Config \<Rightarrow> string \<Rightarrow> RuntimeState \<Rightarrow> RuntimeState" where
  "processSvgRuntime env cfg code st =
     (case parseSvg env code of
        None \<Rightarrow> st\<lparr> error := Some ''Invalid SVG content'', isLoading := False \<rparr>
      | Some svg \<Rightarrow>
          st\<lparr> svgHtml := Some (outerHTML env (sanitizeSvg (overallBackground cfg) svg)),
              isLoading := False,
              error := None,
              rawSvg := Some code,
              displayMode := Inline,
              externalUrl := None \<rparr>)"

text \<open>The state the constructor sets.\<close>

definition initialState :: State where
  "initialState = \<lparr> svgHtml = None, isLoading = False, error = None, rawSvg = None,
                     expanded = False \<rparr>"

definition initialRuntimeState :: RuntimeState where
  "initialRuntimeState = \<lparr> svgHtml = None, isLoading = False, error = None, rawSvg = None,
                            expanded = False, displayMode = Inline, externalUrl = None \<rparr>"

text \<open>
  The sanitizer of the specification, \<open>sanitize(rawSvg, theme)\<close>: the markup
  \<open>processSvg\<close> stores, or its error message.
\<close>

definition sanitize :: "Env \<Rightarrow> Config \<Rightarrow> string \<Rightarrow> string + string" where
  "sanitize env cfg x =
     (let st = processSvg env cfg x initialState
      in case error st of
           Some msg \<Rightarrow> Inl msg
         | None \<Rightarrow> (case svgHtml st of Some html \<Rightarrow> Inr html | None \<Rightarrow> Inl []))"

section \<open>Acquisition\<close>

text \<open>\<open>this.state.rawSvg || this.props.config.svgCode\<close>.\<close>

definition fallbackOf :: "'a State_scheme \<Rightarrow> Config \<Rightarrow> string option" where
  "fallbackOf st cfg =
     (case rawSvg st of
        Some r \<Rightarrow> if r \<noteq> [] then Some r else svgCode cfg
      | None \<Rightarrow> svgCode cfg)"

text \<open>\<open>fallback && fallback.trim().startsWith('<svg')\<close>.\<close>

definition usableFallback :: "string option \<Rightarrow> bool" where
  "usableFallback f =
     (case f of None \<Rightarrow> False | Some s \<Rightarrow> s \<noteq> [] \<and> startsWith (trim s) ''<svg'')"

text \<open>
  The text of a response as the \<open>then\<close> handler of the direct path reads it: \<open>None\<close> is
  the error \<open>No SVG element found in fetched content.\<close>
\<close>

definition svgStringOf :: "Env \<Rightarrow> string \<Rightarrow> string option" where
  "svgStringOf env text =
     (let t = trim text
      in if startsWith t ''<svg'' \<or> startsWith t ''<?xml'' then Some t
         else parseHtmlSvg env t)"

text \<open>\<open>props.onSettingChange\<close> with \<open>config.set('svgCode', svg)\<close>: the host stores it.\<close>

definition persistSvg :: "string \<Rightarrow> 's Widget \<Rightarrow> 's Widget" where
  "persistSvg svg w = w\<lparr> config := (config w)\<lparr> svgCode := Some svg \<rparr> \<rparr>"

text \<open>The \<open>then\<close> handler of \<open>fetchSvgDirect\<close>; \<open>None\<close> when it throws.\<close>

definition directThen :: "Env \<Rightarrow> string \<Rightarrow> State Widget \<Rightarrow> State Widget option" where
  "directThen env text w =
     (case svgStringOf env text of
        None \<Rightarrow> None
      | Some svgString \<Rightarrow>
          let w1 = w\<lparr> state := processSvg env (config w) svgString (state w) \<rparr>
          in Some (if startsWith svgString ''<svg'' then persistSvg svgString w1 else w1))"

text \<open>
  One attempt of the direct path, the request and its \<open>then\<close> handlers: the component
  when they complete, \<open>None\<close> when the request fails or a handler throws, which is when
  the \<open>catch\<close> runs.
\<close>

definition directAttempt :: "Env \<Rightarrow> string \<Rightarrow> nat \<Rightarrow> State Widget \<Rightarrow> State Widget option" where
  "directAttempt env url attempt w =
     (case fetchText env url attempt of
        None \<Rightarrow> None
      | Some text \<Rightarrow> directThen env text w)"

text \<open>
  \<open>fetchSvgDirect(url, attempt)\<close> with the retries its \<open>catch\<close> schedules: the result is
  the list of the delays given to \<open>setTimeout\<close>, in order, and the component when the
  chain has settled.
\<close>

function fetchSvgDirect :: "Env \<Rightarrow> string \<Rightarrow> nat \<Rightarrow> State Widget \<Rightarrow> nat list \<times> State Widget" where
  "fetchSvgDirect env url attempt w =
     (case directAttempt env url attempt w of
        Some w1 \<Rightarrow> ([], w1)
      | None \<Rightarrow>
          if attempt < 5 then
            (case fetchSvgDirect env url (attempt + 1) w of
               (delays, w2) \<Rightarrow> (1000 * attempt # delays, w2))
          else if usableFallback (fallbackOf (state w) (config w)) then
            ([], w\<lparr> state := processSvg env (config w)
                               (case fallbackOf (state w) (config w) of Some f \<Rightarrow> f | None \<Rightarrow> [])
                               (state w) \<rparr>)
          else
            ([], w\<lparr> state := (state w)\<lparr> isLoading := False,
                                         error := Some ''Unable to load meteogram from source.'' \<rparr> \<rparr>))"
  by pat_completeness auto
termination
  by (relation "measure (\<lambda>(env, url, attempt, w). 5 - attempt)") auto

text \<open>
  \<open>generateForecastSvg\<close>: \<open>format\<close> throws on \<open>new Date(forecast.updatedAt)\<close> and on the
  \<open>new Date(p.time)\<close> of every point when that is not a valid date; then the rest of the
  function, and the first line of its template before the rest of the text.
\<close>

definition generateForecastSvg :: "Env \<Rightarrow> Config \<Rightarrow> ForecastPayload \<Rightarrow> string outcome" where
  \<open>generateForecastSvg env cfg forecast =
     (if \<not> validDate env (updatedAt forecast) then Thrown
      else if \<not> list_all (\<lambda>p. validDate env (time p)) (points forecast) then Thrown
      else case chartMarkup env cfg forecast of
             Returned body \<Rightarrow> Returned (''<?xml version="1.0" encoding="UTF-8"?>'' @ [CHR 0x0A] @ body)
           | Thrown \<Rightarrow> Thrown
           | Hangs \<Rightarrow> Hangs)\<close>

text \<open>
  The \<open>then\<close> handler of \<open>fetchFromForecastApi\<close>: it throws when there is no point and
  when \<open>generateForecastSvg\<close> throws, before any change of the component.
\<close>

definition forecastThen :: "Env \<Rightarrow> json \<Rightarrow> State Widget \<Rightarrow> State Widget outcome" where
  "forecastThen env data w =
     (case transformForecast (isoNow env) data of
        None \<Rightarrow> Thrown
      | Some payload \<Rightarrow>
          if points payload = [] then Thrown
          else
            (case generateForecastSvg env (config w) payload of
               Returned svg \<Rightarrow>
                 Returned (persistSvg svg (w\<lparr> state := processSvg env (config w) svg (state w) \<rparr>))
             | Thrown \<Rightarrow> Thrown
             | Hangs \<Rightarrow> Hangs))"

text \<open>
  One attempt of the forecast path, the request and its \<open>then\<close> handlers: \<open>Thrown\<close> when
  the request fails or a handler throws, which is when the \<open>catch\<close> runs.
\<close>

definition forecastAttempt :: "Env \<Rightarrow> Coordinates \<Rightarrow> nat \<Rightarrow> State Widget \<Rightarrow> State Widget outcome" where
  "forecastAttempt env coords attempt w =
     (case fetchJson env coords attempt of
        None \<Rightarrow> Thrown
      | Some data \<Rightarrow> forecastThen env data w)"

text \<open>
  \<open>fetchFromForecastApi(originalUrl, coords, attempt)\<close> with its retries: the delays
  given to \<open>setTimeout\<close>, in order, and the component when the chain has settled,
  \<open>None\<close> when an attempt does not return.
\<close>

function fetchFromForecastApi ::
  "Env \<Rightarrow> string \<Rightarrow> Coordinates \<Rightarrow> nat \<Rightarrow> State Widget \<Rightarrow> nat list \<times> State Widget option" where
  "fetchFromForecastApi env originalUrl coords attempt w =
     (case forecastAttempt env coords attempt w of
        Returned w1 \<Rightarrow> ([], Some w1)
      | Hangs \<Rightarrow> ([], None)
      | Thrown \<Rightarrow>
          if attempt < 5 then
            (case fetchFromForecastApi env originalUrl coords (attempt + 1) w of
               (delays, w2) \<Rightarrow> (1000 * attempt # delays, w2))
          else if usableFallback (fallbackOf (state w) (config w)) then
            ([], Some (w\<lparr> state := processSvg env (config w)
                               (case fallbackOf (state w) (config w) of Some f \<Rightarrow> f | None \<Rightarrow> [])
                               (state w) \<rparr>))
          else
            ([], Some (w\<lparr> state := (state w)\<lparr> isLoading := False,
                                               error := Some ''Unable to load forecast data.'' \<rparr> \<rparr>)))"
  by pat_completeness auto
termination
  by (relation "measure (\<lambda>(env, originalUrl, coords, attempt, w). 5 - attempt)") auto

text \<open>\<open>fetchSvgFromUrl(url, attempt)\<close> of the version with the forecast path.\<close>

definition beginLoading :: "nat \<Rightarrow> State Widget \<Rightarrow> State Widget" where
  "beginLoading attempt w =
     (if attempt = 1 then w\<lparr> state := (state w)\<lparr> isLoading := True, error := None \<rparr> \<rparr> else w)"

definition fetchSvgFromUrl ::
  "Env \<Rightarrow> string \<Rightarrow> nat \<Rightarrow> State Widget \<Rightarrow> nat list \<times> State Widget option" where
  "fetchSvgFromUrl env url attempt w =
     (case extractCoordinates (urlPathname env) url of
        Some coords \<Rightarrow> fetchFromForecastApi env url coords attempt (beginLoading attempt w)
      | None \<Rightarrow>
          (case fetchSvgDirect env url attempt (beginLoading attempt w) of
             (delays, w1) \<Rightarrow> (delays, Some w1)))"

text \<open>The \<open>then\<close> handler of \<open>fetchSvgFromUrl\<close> of \<open>runtime/widget.tsx\<close>.\<close>

definition runtimeThen :: "Env \<Rightarrow> string \<Rightarrow> RuntimeState Widget \<Rightarrow> RuntimeState Widget option" where
  "runtimeThen env text w =
     (case svgStringOf env text of
        None \<Rightarrow> None
      | Some svgString \<Rightarrow>
          let w1 = w\<lparr> state := processSvgRuntime env (config w) svgString (state w) \<rparr>
          in Some (if startsWith svgString ''<svg'' then persistSvg svgString w1 else w1))"

text \<open>One attempt of \<open>runtime/widget.tsx\<close>: \<open>None\<close> is when its \<open>catch\<close> runs.\<close>

definition runtimeAttempt ::
  "Env \<Rightarrow> string \<Rightarrow> nat \<Rightarrow> RuntimeState Widget \<Rightarrow> RuntimeState Widget option" where
  "runtimeAttempt env url attempt w =
     (case fetchText env url attempt of
        None \<Rightarrow> None
      | Some text \<Rightarrow> runtimeThen env text w)"

text \<open>
  \<open>fetchSvgFromUrl(url, attempt)\<close> of \<open>runtime/widget.tsx\<close>, with its retries; without a
  usable fallback the last failure switches to the external display of the request URL.
\<close>

definition beginLoadingRuntime :: "nat \<Rightarrow> RuntimeState Widget \<Rightarrow> RuntimeState Widget" where
  "beginLoadingRuntime attempt w =
     (if attempt = 1
      then w\<lparr> state := (state w)\<lparr> isLoading := True, error := None,
                                   displayMode := Inline, externalUrl := None \<rparr> \<rparr>
      else w)"

function fetchSvgFromUrlRuntime ::
  "Env \<Rightarrow> string \<Rightarrow> nat \<Rightarrow> RuntimeState Widget \<Rightarrow> nat list \<times> RuntimeState Widget" where
  "fetchSvgFromUrlRuntime env url attempt w0 =
     (let w = beginLoadingRuntime attempt w0
      in case runtimeAttempt env url attempt w of
           Some w1 \<Rightarrow> ([], w1)
         | None \<Rightarrow>
             if attempt < 5 then
               (case fetchSvgFromUrlRuntime env url (attempt + 1) w of
                  (delays, w2) \<Rightarrow> (1000 * attempt # delays, w2))
             else if usableFallback (fallbackOf (state w) (config w)) then
               ([], w\<lparr> state := processSvgRuntime env (config w)
                                  (case fallbackOf (state w) (config w) of Some f \<Rightarrow> f | None \<Rightarrow> [])
                                  (state w) \<rparr>)
             else
               ([], w\<lparr> state := (state w)\<lparr> isLoading := False, error := None,
                                            displayMode := External,
                                            externalUrl := Some (requestUrl env url) \<rparr> \<rparr>))"
  by pat_completeness auto
termination
  by (relation "measure (\<lambda>(env, url, attempt, w0). 5 - attempt)") auto

text \<open>
  The state \<open>Ready\<close> of the specification: not loading, no error, a document stored and
  its markup displayed.
\<close>

definition ready :: "'a State_scheme \<Rightarrow> string \<Rightarrow> string \<Rightarrow> bool" where
  "ready st doc html =
     (\<not> isLoading st \<and> error st = None \<and> rawSvg st = Some doc \<and> svgHtml st = Some html)"

text \<open>
  The delays of a chain that starts at attempt \<open>a\<close>: 1000 times the number of the
  attempt that failed, one after each failure, and no attempt after the fifth.
\<close>

definition linearBackoff :: "nat \<Rightarrow> nat list \<Rightarrow> bool" where
  "linearBackoff a delays =
     (delays = map (\<lambda>k. 1000 * k) [a..<a + length delays] \<and> (delays = [] \<or> a + length delays \<le> 5))"

declare fetchSvgDirect.simps [simp del]
declare fetchFromForecastApi.simps [simp del]
declare fetchSvgFromUrlRuntime.simps [simp del]

section \<open>An example platform\<close>

text \<open>
  A serialization of element trees (attribute values and text without special
  characters), a parser given as the table of the documents it is asked for, the two
  dates of the examples as the valid ones, and a stand-in for the chart the template
  draws.
\<close>

fun exampleMarkup :: "node \<Rightarrow> string" where
  "exampleMarkup (Text t) = t"
| "exampleMarkup (Element n ats cs) =
     ''<'' @ n @ concat (map (\<lambda>(k, v). '' '' @ k @ ''='' @ [CHR 0x22] @ v @ [CHR 0x22]) ats)
     @ (if cs = [] then ''/>''
        else ''>'' @ concat (map exampleMarkup cs) @ ''</'' @ n @ ''>'')"

definition exampleChart :: node where
  "exampleChart =
     Element ''svg'' [(''viewBox'', ''0 0 960 540'')]
       [Element ''path'' [(''d'', ''M72.00,64.00''), (''fill'', ''none'')] []]"

definition exampleEnv ::
  "(string \<times> node) list \<Rightarrow> (nat \<Rightarrow> string option) \<Rightarrow> (nat \<Rightarrow> json option) \<Rightarrow> Env" where
  "exampleEnv table texts jsons =
     \<lparr> parseSvg = map_of table,
       parseHtmlSvg = (\<lambda>s. None),
       outerHTML = exampleMarkup,
       urlPathname = examplePathname,
       requestUrl = (\<lambda>u. u @ ''?nocache=1714543200000''),
       isoNow = ''2024-05-01T06:00:00.000Z'',
       validDate = (\<lambda>v. v = JStr ''2024-05-01T06:00:00.000Z'' \<or> v = JStr ''2024-05-01T00:00:00Z''),
       chartMarkup = (\<lambda>cfg forecast. Returned (exampleMarkup exampleChart)),
       fetchText = (\<lambda>u. texts),
       fetchJson = (\<lambda>c. jsons) \<rparr>"

definition exampleConfig :: Config where
  "exampleConfig = \<lparr> sourceUrl = None, svgCode = None, overallBackground = ''#102030'' \<rparr>"

definition exampleWidget :: "State Widget" where
  "exampleWidget = \<lparr> state = initialState, config = exampleConfig \<rparr>"

definition exampleRuntimeWidget :: "RuntimeState Widget" where
  "exampleRuntimeWidget = \<lparr> state = initialRuntimeState, config = exampleConfig \<rparr>"

text \<open>Three documents with the same tree: as the forecast path generates it, as a server
  may send it with an XML declaration, and as bare markup.\<close>

definition exampleForecastSvg :: string where
  \<open>exampleForecastSvg =
     ''<?xml version="1.0" encoding="UTF-8"?>'' @ [CHR 0x0A] @ exampleMarkup exampleChart\<close>

definition exampleXmlSvg :: string where
  \<open>exampleXmlSvg = ''<?xml version="1.0"?>'' @ exampleMarkup exampleChart\<close>

definition examplePlainSvg :: string where
  "examplePlainSvg = exampleMarkup exampleChart"

definition exampleTable :: "(string \<times> node) list" where
  "exampleTable =
     [(exampleForecastSvg, exampleChart), (exampleXmlSvg, exampleChart),
      (examplePlainSvg, exampleChart)]"

text \<open>
  The component once it has displayed a document: the one the forecast path generated,
  which is also written into its configuration, and the one with an XML declaration
  that the direct path received, in both versions.
\<close>

definition retainedForecastWidget :: "State Widget" where
  "retainedForecastWidget =
     \<lparr> state = \<lparr> svgHtml = Some (exampleMarkup (sanitizeSvg ''#102030'' exampleChart)),
                 isLoading = False, error = None, rawSvg = Some exampleForecastSvg,
                 expanded = False \<rparr>,
       config = exampleConfig\<lparr> svgCode := Some exampleForecastSvg \<rparr> \<rparr>"

definition retainedXmlWidget :: "State Widget" where
  "retainedXmlWidget =
     \<lparr> state = \<lparr> svgHtml = Some (exampleMarkup (sanitizeSvg ''#102030'' exampleChart)),
                 isLoading = False, error = None, rawSvg = Some exampleXmlSvg,
                 expanded = False \<rparr>,
       config = exampleConfig \<rparr>"

definition retainedXmlRuntimeWidget :: "RuntimeState Widget" where
  "retainedXmlRuntimeWidget =
     \<lparr> state = \<lparr> svgHtml = Some (exampleMarkup (sanitizeSvg ''#102030'' exampleChart)),
                 isLoading = False, error = None, rawSvg = Some exampleXmlSvg,
                 expanded = False, displayMode = Inline, externalUrl = None \<rparr>,
       config = exampleConfig \<rparr>"

definition exampleForecast :: json where
  "exampleForecast = forecastDoc [hourEntry ''2024-05-01T00:00:00Z'' 7 3]"

text \<open>The payload \<open>transformForecast\<close> makes of it, at \<open>2024-05-01T06:00:00.000Z\<close>.\<close>

definition examplePayload :: ForecastPayload where
  "examplePayload =
     \<lparr> updatedAt = JStr ''2024-05-01T06:00:00.000Z'',
       points = [\<lparr> time = JStr ''2024-05-01T00:00:00Z'', temperature = 7, windSpeed = 3,
                   windGust = None, precipitation = None \<rparr>] \<rparr>"

text \<open>A forecast whose entry has a \<open>time\<close> that is not a date, and its payload.\<close>

definition undatedForecast :: json where
  "undatedForecast = forecastDoc [hourEntry ''T1'' 7 3]"

definition undatedPayload :: ForecastPayload where
  "undatedPayload =
     \<lparr> updatedAt = JStr ''2024-05-01T06:00:00.000Z'',
       points = [\<lparr> time = JStr ''T1'', temperature = 7, windSpeed = 3,
                   windGust = None, precipitation = None \<rparr>] \<rparr>"

text \<open>Responses: never one, always the same one, or one at the fifth attempt only.\<close>

definition never :: "nat \<Rightarrow> 'a option" where
  "never k = None"

definition always :: "'a \<Rightarrow> nat \<Rightarrow> 'a option" where
  "always x k = Some x"

definition onFifth :: "'a \<Rightarrow> nat \<Rightarrow> 'a option" where
  "onFifth x k = (if k = 5 then Some x else None)"

text \<open>A forecast API that answers with the undated forecast until the fifth attempt.\<close>

definition datedOnFifth :: "nat \<Rightarrow> json option" where
  "datedOnFifth k = (if k = 5 then Some exampleForecast else Some undatedForecast)"


section \<open>Inputs on which the sanitizer settles\<close>

fun isElement :: "node \<Rightarrow> bool" where
  "isElement (Element n ats cs) = True"
| "isElement (Text t) = False"

text \<open>No \<open>foreignObject\<close>, the node or one below it, has an element child.\<close>

fun foreignEmpty :: "node \<Rightarrow> bool" where
  "foreignEmpty (Element n ats cs) =
     ((n \<noteq> ''foreignObject'' \<or> (\<forall>c \<in> set cs. \<not> isElement c)) \<and> (\<forall>c \<in> set cs. foreignEmpty c))"
| "foreignEmpty (Text t) = True"

text \<open>A property of the name and attributes of the element and of every element below.\<close>

fun eachHolds :: "(string \<Rightarrow> attrs \<Rightarrow> bool) \<Rightarrow> node \<Rightarrow> bool" where
  "eachHolds P (Element n ats cs) = (P n ats \<and> (\<forall>c \<in> set cs. eachHolds P c))"
| "eachHolds P (Text t) = True"

text \<open>
  The attributes of a \<open>rect\<close> settle when, if the rewrite applies, the style it writes
  holds no white fill declaration any more.
\<close>

definition rectSettles :: "string \<Rightarrow> attrs \<Rightarrow> bool" where
  "rectSettles n ats =
     (n \<noteq> ''rect''
      \<or> \<not> (isWhite (getAttribute ats ''fill'')
            \<or> whiteFillTest (case getAttribute ats ''style'' of None \<Rightarrow> [] | Some s \<Rightarrow> s))
      \<or> \<not> whiteFillTest (stripFill (case getAttribute ats ''style'' of None \<Rightarrow> [] | Some s \<Rightarrow> s)))"

text \<open>The two conditions on the descendants of the root.\<close>

fun settles :: "node \<Rightarrow> bool" where
  "settles (Element n ats cs) = (\<forall>c \<in> set cs. foreignEmpty c \<and> eachHolds rectSettles c)"
| "settles (Text t) = True"

text \<open>Documents for the sanitizer: one with a \<open>foreignObject\<close>, before and after one
  and two runs, and one with a style sheet, a filter and white rectangles, before and
  after.\<close>

definition foreignExample :: node where
  "foreignExample =
     Element ''svg'' [(''viewBox'', ''0 0 10 10'')]
       [Element ''foreignObject'' [] [Element ''div'' [] [Text ''hi'']]]"

definition foreignOnce :: node where
  "foreignOnce =
     Element ''svg'' [(''viewBox'', ''0 0 10 10''), (''preserveAspectRatio'', ''xMidYMid meet'')]
       [Element ''foreignObject'' []
          [Element ''div'' [(''style'', '';background:#102030 !important;'')] [Text ''hi'']]]"

definition foreignTwice :: node where
  "foreignTwice =
     Element ''svg'' [(''viewBox'', ''0 0 10 10''), (''preserveAspectRatio'', ''xMidYMid meet'')]
       [Element ''foreignObject'' []
          [Element ''div''
             [(''style'', '';background:#102030 !important;;background:#102030 !important;'')]
             [Text ''hi'']]]"

definition settledExample :: node where
  "settledExample =
     Element ''svg'' [(''width'', ''100px''), (''height'', ''50'')]
       [Element ''style'' [] [Text ''text { fill: red }''],
        Element ''filter'' [(''id'', ''blur'')] [],
        Element ''g'' [(''filter'', ''url(#blur)'')]
          [Element ''rect'' [(''fill'', ''#FFFFFF''), (''width'', ''100'')] [],
           Element ''rect'' [(''style'', ''stroke:red; FILL : rgb( 255 ,255, 255 ) ;x:y'')] [],
           Element ''rect'' [(''fill'', ''#ff0000'')] []]]"

definition settledOnce :: node where
  "settledOnce =
     Element ''svg'' [(''viewBox'', ''0 0 100 50''), (''preserveAspectRatio'', ''xMidYMid meet'')]
       [Element ''g'' []
          [Element ''rect'' [(''fill'', ''none''), (''width'', ''100''), (''style'', [])] [],
           Element ''rect'' [(''style'', ''stroke:red;x:y''), (''fill'', ''none'')] [],
           Element ''rect'' [(''fill'', ''#ff0000'')] []]]"

definition sanitizerTable :: "(string \<times> node) list" where
  "sanitizerTable =
     [(exampleMarkup foreignExample, foreignExample), (exampleMarkup foreignOnce, foreignOnce),
      (exampleMarkup settledExample, settledExample), (exampleMarkup settledOnce, settledOnce)]"

section \<open>Properties of transformForecast\<close>

lemma collectPoints_acc:
  "collectPoints es acc = acc @ List.map_filter entryPoint es"
proof (induction es arbitrary: acc)
  case Nil
  show ?case by (simp add: List.map_filter_simps)
next
  case (Cons e es)
  show ?case
    by (cases "entryPoint e") (simp_all add: Cons.IH List.map_filter_simps)
qed

lemma isNumber_numberOf: "isNumber v \<longleftrightarrow> (\<exists>r. numberOf v = Some r)"
proof (cases v)
  case None
  then show ?thesis by simp
next
  case (Some x)
  then show ?thesis by (cases x) simp_all
qed

lemma getProp_orElse_empty: "getProp (orElse v (Some (JObj []))) k = getProp v k"
proof (cases v)
  case None
  then show ?thesis by simp
next
  case (Some x)
  then show ?thesis by (cases x) simp_all
qed

lemma getProp_orElse_null: "getProp (orElse v (Some JNull)) k = getProp v k"
proof (cases v)
  case None
  then show ?thesis by simp
next
  case (Some x)
  then show ?thesis by (cases x) simp_all
qed

lemma truthy_Some: "truthy v \<Longrightarrow> \<exists>t. v = Some t"
  by (cases v) simp_all

lemma entryPoint_usable: "usable e \<longleftrightarrow> entryPoint e \<noteq> None"
  unfolding usable_def entryPoint_def instantDetails_def Let_def getProp_orElse_empty
  by (auto simp: isNumber_numberOf dest!: truthy_Some)

lemma entryPoint_spec:
  "entryPoint e = Some p \<Longrightarrow> windGust p = specGust e \<and> precipitation p = specPrecipitation e"
  unfolding entryPoint_def specGust_def specPrecipitation_def instantDetails_def next1Details_def next6Details_def
    Let_def getProp_orElse_empty getProp_orElse_null
  by (auto simp: isNumber_numberOf split: if_splits option.splits)

lemma map_filter_kept:
  "map Some (List.map_filter entryPoint es) = map entryPoint (filter usable es)"
  by (induction es) (auto simp: List.map_filter_simps entryPoint_usable split: option.splits)

lemma transformForecast_points:
  "transformForecast now data = Some payload \<Longrightarrow>
     points payload = List.map_filter entryPoint (take 48 (timeseries data))"
  unfolding transformForecast_def Let_def
  by (auto simp: collectPoints_acc split: if_splits)

lemma transformForecast_None:
  "transformForecast now data = None \<longleftrightarrow> List.map_filter entryPoint (take 48 (timeseries data)) = []"
  unfolding transformForecast_def Let_def
  by (auto simp: collectPoints_acc List.map_filter_simps)

lemma timeseries_forecastDoc: "timeseries (forecastDoc series) = series"
  by (simp add: timeseries_def forecastDoc_def)

lemma usable_hourEntry: "t \<noteq> [] \<Longrightarrow> usable (hourEntry t a b)"
  by (simp add: usable_def hourEntry_def instantDetails_def)

text \<open>
  Claim C4. \<open>transformForecast\<close> reads only the first 48 entries of the time series and
  its points are exactly those of the usable entries among them (a timestamp, a numeric
  air temperature and a numeric wind speed), one point per usable entry and in the order
  of the input; the result is \<open>null\<close> exactly when no entry among them is usable.
  Sixty usable entries give 48 points. An entry without a numeric air temperature is
  left out, and the points before and after it are those of its neighbours, unchanged.
\<close>

theorem transformForecast_first_48_usable:
  "(transformForecast now data = None \<longleftrightarrow> filter usable (take 48 (timeseries data)) = [])
   \<and> (transformForecast now data = Some payload \<longrightarrow>
        map Some (points payload) = map entryPoint (filter usable (take 48 (timeseries data))))
   \<and> (length (timeseries data) = 60 \<and> list_all usable (timeseries data) \<longrightarrow>
        (\<exists>res. transformForecast now data = Some res \<and> length (points res) = 48))
   \<and> (transformForecast now data = Some payload \<and> take 48 (timeseries data) = xs @ e # ys
        \<and> \<not> isNumber (getProp (instantDetails e) ''air_temperature'') \<longrightarrow>
        map Some (points payload) = map entryPoint (filter usable xs) @ map entryPoint (filter usable ys))"
proof -
  have none: "transformForecast now data = None \<longleftrightarrow> filter usable (take 48 (timeseries data)) = []"
    using map_filter_kept [of "take 48 (timeseries data)"]
    by (simp add: transformForecast_None) (metis map_is_Nil_conv)
  have some: "map Some (points payload) = map entryPoint (filter usable (take 48 (timeseries data)))"
    if "transformForecast now data = Some payload" for payload
    using transformForecast_points [OF that] by (simp add: map_filter_kept)
  have sixty: "\<exists>res. transformForecast now data = Some res \<and> length (points res) = 48"
    if len: "length (timeseries data) = 60" and all: "list_all usable (timeseries data)"
  proof -
    have keep: "filter usable (take 48 (timeseries data)) = take 48 (timeseries data)"
      using all by (simp add: list_all_iff filter_id_conv) (meson in_set_takeD)
    have "length (take 48 (timeseries data)) = 48"
      using len by simp
    then have "filter usable (take 48 (timeseries data)) \<noteq> []"
      unfolding keep by auto
    then obtain res where res: "transformForecast now data = Some res"
      using none by (cases "transformForecast now data") auto
    have "length (map Some (points res)) = length (take 48 (timeseries data))"
      using some [OF res] keep by simp
    then have "length (points res) = 48"
      using len by simp
    with res show ?thesis by blast
  qed
  have dropped: "map Some (points payload) = map entryPoint (filter usable xs) @ map entryPoint (filter usable ys)"
    if res: "transformForecast now data = Some payload"
      and split: "take 48 (timeseries data) = xs @ e # ys"
      and bad: "\<not> isNumber (getProp (instantDetails e) ''air_temperature'')"
  proof -
    have "\<not> usable e"
      using bad by (simp add: usable_def)
    then show ?thesis
      using some [OF res] split by simp
  qed
  show ?thesis
    using none some sixty dropped by blast
qed

theorem transformForecast_first_48_usable_witness:
  "length (timeseries (forecastDoc (replicate 60 (hourEntry ''2024-05-01T00:00:00Z'' 7 3)))) = 60
   \<and> list_all usable (timeseries (forecastDoc (replicate 60 (hourEntry ''2024-05-01T00:00:00Z'' 7 3))))
   \<and> (\<exists>res. transformForecast ''2024-05-01T06:00:00.000Z''
                (forecastDoc (replicate 60 (hourEntry ''2024-05-01T00:00:00Z'' 7 3))) = Some res
              \<and> length (points res) = 48)
   \<and> take 48 (timeseries (forecastDoc [hourEntry ''T1'' 1 2, noTemperatureEntry ''T2'' 9, hourEntry ''T3'' 3 4]))
       = [hourEntry ''T1'' 1 2] @ noTemperatureEntry ''T2'' 9 # [hourEntry ''T3'' 3 4]
   \<and> \<not> isNumber (getProp (instantDetails (noTemperatureEntry ''T2'' 9)) ''air_temperature'')
   \<and> transformForecast ''now'' (forecastDoc [hourEntry ''T1'' 1 2, noTemperatureEntry ''T2'' 9, hourEntry ''T3'' 3 4])
       = Some \<lparr> updatedAt = JStr ''now'',
                 points = [\<lparr> time = JStr ''T1'', temperature = 1, windSpeed = 2, windGust = None, precipitation = None \<rparr>,
                           \<lparr> time = JStr ''T3'', temperature = 3, windSpeed = 4, windGust = None, precipitation = None \<rparr>] \<rparr>
   \<and> map Some [\<lparr> time = JStr ''T1'', temperature = 1, windSpeed = 2, windGust = None, precipitation = None \<rparr>,
                \<lparr> time = JStr ''T3'', temperature = 3, windSpeed = 4, windGust = None, precipitation = None \<rparr>]
       = map entryPoint (filter usable [hourEntry ''T1'' 1 2]) @ map entryPoint (filter usable [hourEntry ''T3'' 3 4])"
proof -
  let ?D = "forecastDoc (replicate 60 (hourEntry ''2024-05-01T00:00:00Z'' 7 3))"
  let ?G = "forecastDoc [hourEntry ''T1'' 1 2, noTemperatureEntry ''T2'' 9, hourEntry ''T3'' 3 4]"
  let ?P = "\<lparr> updatedAt = JStr ''now'',
                 points = [\<lparr> time = JStr ''T1'', temperature = 1, windSpeed = 2, windGust = None, precipitation = None \<rparr>,
                           \<lparr> time = JStr ''T3'', temperature = 3, windSpeed = 4, windGust = None, precipitation = None \<rparr>] \<rparr>"
  have h1: "length (timeseries ?D) = 60"
    by (simp add: timeseries_forecastDoc)
  have h2: "list_all usable (timeseries ?D)"
    by (simp add: timeseries_forecastDoc list_all_iff usable_hourEntry)
  have c1: "\<exists>res. transformForecast ''2024-05-01T06:00:00.000Z'' ?D = Some res \<and> length (points res) = 48"
    using transformForecast_first_48_usable [of "''2024-05-01T06:00:00.000Z''" ?D] h1 h2 by blast
  have h3: "take 48 (timeseries ?G) = [hourEntry ''T1'' 1 2] @ noTemperatureEntry ''T2'' 9 # [hourEntry ''T3'' 3 4]"
    by (simp add: timeseries_forecastDoc)
  have h4: "\<not> isNumber (getProp (instantDetails (noTemperatureEntry ''T2'' 9)) ''air_temperature'')"
    by (simp add: instantDetails_def noTemperatureEntry_def)
  have h5: "transformForecast ''now'' ?G = Some ?P"
    by (simp add: transformForecast_def timeseries_def Let_def entryPoint_def
        hourEntry_def noTemperatureEntry_def forecastDoc_def)
  have c2: "map Some (points ?P)
       = map entryPoint (filter usable [hourEntry ''T1'' 1 2]) @ map entryPoint (filter usable [hourEntry ''T3'' 3 4])"
    using transformForecast_first_48_usable [of "''now''" ?G ?P "[hourEntry ''T1'' 1 2]"
        "noTemperatureEntry ''T2'' 9" "[hourEntry ''T3'' 3 4]"] h3 h4 h5 by blast
  show ?thesis
    using h1 h2 c1 h3 h4 h5 c2 by simp
qed


lemma map_filter_spec:
  "map windGust (List.map_filter entryPoint es) = map specGust (filter usable es)
   \<and> map precipitation (List.map_filter entryPoint es) = map specPrecipitation (filter usable es)"
proof (induction es)
  case Nil
  show ?case by (simp add: List.map_filter_simps)
next
  case (Cons e es)
  show ?case
  proof (cases "entryPoint e")
    case None
    then have "\<not> usable e" by (simp add: entryPoint_usable)
    with None Cons.IH show ?thesis by (simp add: List.map_filter_simps)
  next
    case (Some p)
    then have "usable e" by (simp add: entryPoint_usable)
    with Some Cons.IH entryPoint_spec [OF Some] show ?thesis
      by (simp add: List.map_filter_simps)
  qed
qed

text \<open>
  Claim C5. For every retained entry the wind gust of its point is the first numeric
  value among the instantaneous gust, the next-1-hour gust and the next-6-hour gust
  (absent when there is none), and its precipitation is the next-1-hour amount, else
  the next-6-hour amount divided by 6, else absent. An entry with a next-6-hour amount
  of 12 and no \<open>next_1_hours\<close> gives a precipitation of 2.
\<close>

theorem transformForecast_resolution_order:
  "(transformForecast now data = Some payload \<longrightarrow>
      map windGust (points payload) = map specGust (filter usable (take 48 (timeseries data)))
      \<and> map precipitation (points payload)
          = map specPrecipitation (filter usable (take 48 (timeseries data))))
   \<and> (timeseries data = [e] \<and> usable e
        \<and> getProp (getProp (Some e) ''data'') ''next_1_hours'' = None
        \<and> getProp (next6Details e) ''precipitation_amount'' = Some (JNum 12) \<longrightarrow>
        (\<exists>res p. transformForecast now data = Some res \<and> points res = [p]
                 \<and> precipitation p = Some 2))"
proof -
  have order: "map windGust (points payload) = map specGust (filter usable (take 48 (timeseries data)))
      \<and> map precipitation (points payload)
          = map specPrecipitation (filter usable (take 48 (timeseries data)))"
    if "transformForecast now data = Some payload"
    using transformForecast_points [OF that] map_filter_spec [of "take 48 (timeseries data)"]
    by simp
  have twelve: "\<exists>res p. transformForecast now data = Some res \<and> points res = [p]
                 \<and> precipitation p = Some 2"
    if ts: "timeseries data = [e]" and us: "usable e"
      and n1: "getProp (getProp (Some e) ''data'') ''next_1_hours'' = None"
      and n6: "getProp (next6Details e) ''precipitation_amount'' = Some (JNum 12)"
  proof -
    obtain p where p: "entryPoint e = Some p"
      using us by (auto simp: entryPoint_usable)
    have "precipitation p = specPrecipitation e"
      using entryPoint_spec [OF p] by simp
    also have "\<dots> = Some 2"
      using n1 n6 by (simp add: specPrecipitation_def next1Details_def)
    finally have two: "precipitation p = Some 2" .
    have mf: "List.map_filter entryPoint (take 48 (timeseries data)) = [p]"
      using ts p by (simp add: List.map_filter_simps)
    then have "transformForecast now data \<noteq> None"
      by (simp add: transformForecast_None)
    then obtain res where res: "transformForecast now data = Some res"
      by auto
    have "points res = [p]"
      using transformForecast_points [OF res] mf by simp
    with res two show ?thesis by blast
  qed
  show ?thesis
    using order twelve by blast
qed

theorem transformForecast_resolution_order_witness:
  "timeseries (forecastDoc [sixHourEntry ''2024-05-01T00:00:00Z'' 12]) = [sixHourEntry ''2024-05-01T00:00:00Z'' 12]
   \<and> usable (sixHourEntry ''2024-05-01T00:00:00Z'' 12)
   \<and> getProp (getProp (Some (sixHourEntry ''2024-05-01T00:00:00Z'' 12)) ''data'') ''next_1_hours'' = None
   \<and> getProp (next6Details (sixHourEntry ''2024-05-01T00:00:00Z'' 12)) ''precipitation_amount'' = Some (JNum 12)
   \<and> (\<exists>res p. transformForecast ''now'' (forecastDoc [sixHourEntry ''2024-05-01T00:00:00Z'' 12]) = Some res
         \<and> points res = [p] \<and> precipitation p = Some 2)
   \<and> map precipitation (points \<lparr> updatedAt = JStr ''now'', points =
         [\<lparr> time = JStr ''2024-05-01T00:00:00Z'', temperature = 4, windSpeed = 3, windGust = None, precipitation = Some 2 \<rparr>] \<rparr>)
       = map specPrecipitation (filter usable (take 48 (timeseries (forecastDoc [sixHourEntry ''2024-05-01T00:00:00Z'' 12]))))"
proof -
  let ?e = "sixHourEntry ''2024-05-01T00:00:00Z'' 12"
  let ?D = "forecastDoc [?e]"
  let ?P = "\<lparr> updatedAt = JStr ''now'', points =
         [\<lparr> time = JStr ''2024-05-01T00:00:00Z'', temperature = 4, windSpeed = 3, windGust = None, precipitation = Some 2 \<rparr>] \<rparr>"
  have h1: "timeseries ?D = [?e]"
    by (simp add: timeseries_forecastDoc)
  have h2: "usable ?e"
    by (simp add: usable_def sixHourEntry_def instantDetails_def)
  have h3: "getProp (getProp (Some ?e) ''data'') ''next_1_hours'' = None"
    by (simp add: sixHourEntry_def)
  have h4: "getProp (next6Details ?e) ''precipitation_amount'' = Some (JNum 12)"
    by (simp add: sixHourEntry_def next6Details_def)
  have h5: "transformForecast ''now'' ?D = Some ?P"
    by (simp add: transformForecast_def timeseries_def Let_def entryPoint_def
        sixHourEntry_def forecastDoc_def)
  have c1: "\<exists>res p. transformForecast ''now'' ?D = Some res \<and> points res = [p] \<and> precipitation p = Some 2"
    using transformForecast_resolution_order [of "''now''" ?D _ ?e] h1 h2 h3 h4 by blast
  have c2: "map precipitation (points ?P) = map specPrecipitation (filter usable (take 48 (timeseries ?D)))"
    using transformForecast_resolution_order [of "''now''" ?D ?P] h5 by blast
  show ?thesis
    using h1 h2 h3 h4 c1 c2 by simp
qed

section \<open>Properties of the temperature scale\<close>

lemma fold_max_Max: "fold max xs (d::real) = Max (insert d (set xs))"
  using Max.set_eq_fold [of d xs] by simp

lemma fold_min_Min: "fold min xs (d::real) = Min (insert d (set xs))"
  using Min.set_eq_fold [of d xs] by simp

lemma tempMax_Max: "tempMax pts = Max (insert 5 (temperature ` set pts))"
  by (simp add: tempMax_def Math_max_def fold_max_Max)

lemma tempMin_Min: "tempMin pts = Min (insert (- 5) (temperature ` set pts))"
  by (simp add: tempMin_def Math_min_def fold_min_Min)

lemma tempSection_value: "tempSection = 217.8"
  by (simp add: tempSection_def innerHeight_def margin_top_def margin_bottom_def)

lemma overflow_bound_large: "(1000::real) < 2 ^ 1024 - 2 ^ 970"
proof -
  have "(2::real) ^ 1024 = 2 ^ 970 * 2 ^ 54"
    by (simp add: power_add [symmetric])
  moreover have "(1::real) \<le> 2 ^ 970"
    by simp
  moreover have "(1000::real) < 2 ^ 54 - 1"
    by simp
  ultimately have "1000 * 1 < 2 ^ 970 * ((2::real) ^ 54 - 1)"
    by (intro mult_less_le_imp_less) simp_all
  then show ?thesis
    using \<open>(2::real) ^ 1024 = 2 ^ 970 * 2 ^ 54\<close> by (simp add: algebra_simps)
qed

lemma toNumber_Finite: "0 \<le> v \<Longrightarrow> v < 2 ^ 1024 - 2 ^ 970 \<Longrightarrow> toNumber v = Finite v"
  unfolding toNumber_def by (simp only: abs_of_nonneg) simp

lemma toNumber_small: "0 \<le> v \<Longrightarrow> v \<le> 1000 \<Longrightarrow> toNumber v = Finite v"
  using overflow_bound_large by (intro toNumber_Finite) simp_all

lemma tempMax_ge: "5 \<le> tempMax pts"
  by (simp add: tempMax_Max)

lemma tempMin_le: "tempMin pts \<le> - 5"
  by (simp add: tempMin_Min)

lemma tempRange_Finite:
  assumes "tempMax pts - tempMin pts < 2 ^ 1024 - 2 ^ 970"
  shows "tempRange pts = Finite (max (tempMax pts - tempMin pts) 5)"
proof -
  have "0 \<le> tempMax pts - tempMin pts"
    using tempMax_ge [of pts] tempMin_le [of pts] by simp
  then have "toNumber (tempMax pts - tempMin pts) = Finite (tempMax pts - tempMin pts)"
    using assms by (rule toNumber_Finite)
  then show ?thesis
    by (simp add: tempRange_def numSub_def)
qed

lemma tempY_Finite:
  assumes spread: "tempMax pts - tempMin pts < 2 ^ 1024 - 2 ^ 970"
    and p: "p \<in> set pts"
  shows "\<exists>y. tempY pts (temperature p) = Finite y \<and> margin_top \<le> y \<and> y \<le> margin_top + tempSection"
proof -
  let ?d = "tempMax pts - temperature p"
  let ?r = "max (tempMax pts - tempMin pts) 5"
  have hi: "temperature p \<le> tempMax pts"
    using p by (simp add: tempMax_Max)
  have lo: "tempMin pts \<le> temperature p"
    using p by (simp add: tempMin_Min)
  have rpos: "0 < ?r"
    by simp
  have d0: "0 \<le> ?d"
    using hi by simp
  have d1: "?d \<le> ?r"
    using lo by simp
  have d2: "?d < 2 ^ 1024 - 2 ^ 970"
    using lo spread by linarith
  have "toNumber ?d = Finite ?d"
    using d0 d2 by (rule toNumber_Finite)
  then have sub: "numSub (Finite (tempMax pts)) (Finite (temperature p)) = Finite ?d"
    by (simp add: numSub_def)
  have q0: "0 \<le> ?d / ?r"
    using d0 rpos by simp
  have q1: "?d / ?r \<le> 1"
    using d1 rpos by simp
  have q2: "?d / ?r \<le> 1000"
    using q1 by linarith
  have "toNumber (?d / ?r) = Finite (?d / ?r)"
    using q0 q2 by (rule toNumber_small)
  then have quot: "numDiv (Finite ?d) (Finite ?r) = Finite (?d / ?r)"
    using rpos by simp
  have s0: "0 \<le> tempSection"
    by (simp add: tempSection_value)
  have m0: "0 \<le> ?d / ?r * tempSection"
    using q0 s0 by (rule mult_nonneg_nonneg)
  have m1: "?d / ?r * tempSection \<le> 1 * tempSection"
    using q1 s0 by (rule mult_right_mono)
  have s1: "1 * tempSection \<le> 900"
    by (simp add: tempSection_value)
  have m2: "?d / ?r * tempSection \<le> 900"
    using m1 s1 by (rule order_trans)
  have "toNumber (?d / ?r * tempSection) = Finite (?d / ?r * tempSection)"
    using m0 m2 by (intro toNumber_small) linarith+
  then have prod: "numMul (Finite (?d / ?r)) (Finite tempSection) = Finite (?d / ?r * tempSection)"
    by simp
  have t0: "0 \<le> margin_top + ?d / ?r * tempSection"
    using m0 by (simp add: margin_top_def)
  have t1: "margin_top + ?d / ?r * tempSection \<le> 1000"
    using m2 by (simp add: margin_top_def)
  have "toNumber (margin_top + ?d / ?r * tempSection) = Finite (margin_top + ?d / ?r * tempSection)"
    using t0 t1 by (rule toNumber_small)
  then have sum: "numAdd (Finite margin_top) (Finite (?d / ?r * tempSection))
      = Finite (margin_top + ?d / ?r * tempSection)"
    by simp
  have "tempY pts (temperature p) = Finite (margin_top + ?d / ?r * tempSection)"
    unfolding tempY_def tempRange_Finite [OF spread] sub quot prod sum by (rule refl)
  moreover have "margin_top \<le> margin_top + ?d / ?r * tempSection"
    using m0 by simp
  moreover have "margin_top + ?d / ?r * tempSection \<le> margin_top + tempSection"
    using m1 by simp
  ultimately show ?thesis
    by blast
qed

lemma band_sum: "numAdd (Finite margin_top) (Finite tempSection) = Finite (margin_top + tempSection)"
proof -
  have "toNumber (margin_top + tempSection) = Finite (margin_top + tempSection)"
    by (rule toNumber_small) (simp_all add: margin_top_def tempSection_value)
  then show ?thesis
    by simp
qed

lemma spread_bounded:
  assumes "\<forall>p \<in> set pts. \<bar>temperature p\<bar> \<le> 2 ^ 1022"
  shows "tempMax pts - tempMin pts < 2 ^ 1024 - 2 ^ 970"
proof -
  have five: "(5::real) \<le> 2 ^ 1022"
  proof -
    have "(2::real) ^ 3 \<le> 2 ^ 1022"
      by (rule power_increasing) simp_all
    then show ?thesis
      by simp
  qed
  have "\<forall>x \<in> insert 5 (temperature ` set pts). x \<le> 2 ^ 1022"
    using assms five by auto
  then have hi: "tempMax pts \<le> 2 ^ 1022"
    by (simp add: tempMax_Max)
  have "\<forall>x \<in> insert (- 5) (temperature ` set pts). - (2 ^ 1022) \<le> x"
    using assms five by auto
  then have lo: "- (2 ^ 1022) \<le> tempMin pts"
    by (simp add: tempMin_Min)
  have "(2::real) ^ 1024 = 2 ^ 970 * 2 ^ 54"
    by (simp add: power_add [symmetric])
  moreover have "(2::real) ^ 1022 = 2 ^ 970 * 2 ^ 52"
    by (simp add: power_add [symmetric])
  moreover have "(0::real) < 2 ^ 970"
    by simp
  moreover have "2 * (2::real) ^ 52 < 2 ^ 54 - 1"
    by simp
  ultimately have "2 * (2::real) ^ 1022 < 2 ^ 1024 - 2 ^ 970"
    by (simp add: algebra_simps)
  then show ?thesis
    using hi lo by linarith
qed

text \<open>
  Claim C7, as the code has it. \<open>tempMax\<close> is the largest of the temperatures and 5,
  \<open>tempMin\<close> the smallest of the temperatures and -5, the range is floored at 5 and the
  band is 55 percent of the inner height. When \<open>tempMax - tempMin\<close> stays below the
  bound from where binary64 overflows, which it does when no temperature exceeds
  \<open>2^1022\<close> in magnitude, every point's temperature is drawn between \<open>margin.top\<close> and
  \<open>margin.top + tempSection\<close>, as the comparison \<open><=\<close> of the code decides it.
\<close>

theorem tempY_within_band:
  "tempMax pts = Max (insert 5 (temperature ` set pts))
   \<and> tempMin pts = Min (insert (- 5) (temperature ` set pts))
   \<and> tempRange pts = numMax (numSub (Finite (tempMax pts)) (Finite (tempMin pts))) (Finite 5)
   \<and> tempSection = innerHeight * 0.55
   \<and> ((\<forall>p \<in> set pts. \<bar>temperature p\<bar> \<le> 2 ^ 1022) \<longrightarrow>
        tempMax pts - tempMin pts < 2 ^ 1024 - 2 ^ 970)
   \<and> (tempMax pts - tempMin pts < 2 ^ 1024 - 2 ^ 970 \<longrightarrow>
        tempRange pts = Finite (max (tempMax pts - tempMin pts) 5)
        \<and> (\<forall>p \<in> set pts.
              numLe (Finite margin_top) (tempY pts (temperature p))
              \<and> numLe (tempY pts (temperature p)) (numAdd (Finite margin_top) (Finite tempSection))))"
proof -
  have band: "numLe (Finite margin_top) (tempY pts (temperature p))
      \<and> numLe (tempY pts (temperature p)) (numAdd (Finite margin_top) (Finite tempSection))"
    if s: "tempMax pts - tempMin pts < 2 ^ 1024 - 2 ^ 970" and m: "p \<in> set pts" for p
  proof -
    obtain y where "tempY pts (temperature p) = Finite y" "margin_top \<le> y"
      "y \<le> margin_top + tempSection"
      using tempY_Finite [OF s m] by blast
    then show ?thesis
      unfolding band_sum by simp
  qed
  show ?thesis
    using band spread_bounded [of pts] tempRange_Finite [of pts]
    by (simp add: tempMax_Max tempMin_Min tempRange_def tempSection_def)
qed

text \<open>
  Without the bound the claim fails: for the temperatures \<open>1e308\<close> and \<open>-1e308\<close>, which
  \<open>transformForecast\<close> accepts, \<open>tempMax - tempMin\<close> overflows, the range is infinite and
  the coordinate of the second point is \<open>NaN\<close>, which no comparison places in the band.
\<close>

theorem tempY_overflow_counterexample:
  "tempRange extremePoints = Infinity False
   \<and> tempY extremePoints (- (10 ^ 308)) = NaN
   \<and> \<not> numLe (Finite margin_top) (tempY extremePoints (- (10 ^ 308)))
   \<and> \<not> numLe (tempY extremePoints (- (10 ^ 308))) (numAdd (Finite margin_top) (Finite tempSection))"
proof -
  have mx: "tempMax extremePoints = 10 ^ 308"
    by (simp add: tempMax_def Math_max_def extremePoints_def)
  have mn: "tempMin extremePoints = - (10 ^ 308)"
    by (simp add: tempMin_def Math_min_def extremePoints_def)
  have sub: "numSub (Finite (10 ^ 308)) (Finite (- (10 ^ 308))) = Infinity False"
    by (simp add: numSub_def toNumber_def)
  have range: "tempRange extremePoints = Infinity False"
    unfolding tempRange_def mx mn sub by simp
  have y: "tempY extremePoints (- (10 ^ 308)) = NaN"
    unfolding tempY_def range mx sub by simp
  show ?thesis
    unfolding range y by simp
qed

theorem tempY_within_band_witness:
  "tempMax [\<lparr> time = JStr ''2024-05-01T00:00:00Z'', temperature = 12, windSpeed = 2,
              windGust = None, precipitation = None \<rparr>,
            \<lparr> time = JStr ''2024-05-01T01:00:00Z'', temperature = - 8, windSpeed = 3,
              windGust = None, precipitation = None \<rparr>] = 12
   \<and> tempMin [\<lparr> time = JStr ''2024-05-01T00:00:00Z'', temperature = 12, windSpeed = 2,
              windGust = None, precipitation = None \<rparr>,
            \<lparr> time = JStr ''2024-05-01T01:00:00Z'', temperature = - 8, windSpeed = 3,
              windGust = None, precipitation = None \<rparr>] = - 8
   \<and> tempRange [\<lparr> time = JStr ''2024-05-01T00:00:00Z'', temperature = 12, windSpeed = 2,
              windGust = None, precipitation = None \<rparr>,
            \<lparr> time = JStr ''2024-05-01T01:00:00Z'', temperature = - 8, windSpeed = 3,
              windGust = None, precipitation = None \<rparr>] = Finite 20
   \<and> numLe (Finite margin_top)
        (tempY [\<lparr> time = JStr ''2024-05-01T00:00:00Z'', temperature = 12, windSpeed = 2,
                  windGust = None, precipitation = None \<rparr>,
                \<lparr> time = JStr ''2024-05-01T01:00:00Z'', temperature = - 8, windSpeed = 3,
                  windGust = None, precipitation = None \<rparr>] (- 8))
   \<and> numLe (tempY [\<lparr> time = JStr ''2024-05-01T00:00:00Z'', temperature = 12, windSpeed = 2,
                  windGust = None, precipitation = None \<rparr>,
                \<lparr> time = JStr ''2024-05-01T01:00:00Z'', temperature = - 8, windSpeed = 3,
                  windGust = None, precipitation = None \<rparr>] (- 8))
        (numAdd (Finite margin_top) (Finite tempSection))"
proof -
  let ?p = "\<lparr> time = JStr ''2024-05-01T00:00:00Z'', temperature = 12, windSpeed = 2,
              windGust = None, precipitation = None \<rparr>"
  let ?q = "\<lparr> time = JStr ''2024-05-01T01:00:00Z'', temperature = - 8, windSpeed = 3,
              windGust = None, precipitation = None \<rparr>"
  let ?pts = "[?p, ?q]"
  note band = tempY_within_band [of ?pts]
  have mx: "tempMax ?pts = 12"
    by (simp add: tempMax_def Math_max_def)
  have mn: "tempMin ?pts = - 8"
    by (simp add: tempMin_def Math_min_def)
  have small: "tempMax ?pts - tempMin ?pts < 2 ^ 1024 - 2 ^ 970"
    unfolding mx mn using overflow_bound_large by simp
  have mem: "?q \<in> set ?pts"
    by simp
  have r: "tempRange ?pts = Finite (max (tempMax ?pts - tempMin ?pts) 5)"
    using band small by blast
  have r20: "tempRange ?pts = Finite 20"
    unfolding r mx mn by simp
  have b: "numLe (Finite margin_top) (tempY ?pts (temperature ?q))
      \<and> numLe (tempY ?pts (temperature ?q)) (numAdd (Finite margin_top) (Finite tempSection))"
    using band small mem by blast
  then have b': "numLe (Finite margin_top) (tempY ?pts (- 8))
      \<and> numLe (tempY ?pts (- 8)) (numAdd (Finite margin_top) (Finite tempSection))"
    by simp
  show ?thesis
    using mx mn r20 b' by blast
qed

section \<open>Properties of extractCoordinates\<close>

lemma digitsThen_shape:
  "digitsThen s c = Some r \<Longrightarrow> s = takeWhile isDigit s @ c # r"
  unfolding digitsThen_def
  by (auto split: if_splits list.splits) (metis takeWhile_dropWhile_id)

lemma digitsThen_mem: "digitsThen s c = Some r \<Longrightarrow> c \<in> set s \<and> set r \<subseteq> set s"
proof -
  assume a: "digitsThen s c = Some r"
  have "set (takeWhile isDigit s @ c # r) = set s"
    using digitsThen_shape [OF a] by simp
  then show ?thesis by auto
qed

lemma optMinus_subset: "set (optMinus s) \<subseteq> set s"
  by (auto simp: optMinus_def split: list.splits if_splits)

lemma coordMatchAt_comma: "coordMatchAt s \<Longrightarrow> CHR '','' \<in> set s"
  unfolding coordMatchAt_def
  apply (clarsimp split: option.splits)
  apply (drule digitsThen_mem)+
  using optMinus_subset [of s] by auto

lemma coordTest_comma: "coordTest s \<Longrightarrow> CHR '','' \<in> set s"
  by (induction s) (auto dest: coordMatchAt_comma)

lemma splitOn_nonempty: "splitOn c s \<noteq> []"
  by (induction s) (auto split: list.splits)

lemma splitOn_two: "c \<in> set s \<Longrightarrow> \<exists>a b rest. splitOn c s = a # b # rest"
proof (induction s)
  case Nil
  then show ?case by simp
next
  case (Cons x xs)
  show ?case
  proof (cases "x = c")
    case True
    obtain w ws where "splitOn c xs = w # ws"
      using splitOn_nonempty [of c xs] by (cases "splitOn c xs") auto
    with True show ?thesis by simp
  next
    case False
    with Cons.prems have "c \<in> set xs" by simp
    from Cons.IH [OF this] obtain a b rest where "splitOn c xs = a # b # rest" by blast
    with False show ?thesis by simp
  qed
qed

lemma find_first:
  "xs = before @ x # after \<Longrightarrow> \<forall>y \<in> set before. \<not> P y \<Longrightarrow> P x \<Longrightarrow> find P xs = Some x"
  by (induction before arbitrary: xs) auto

lemma find_none: "\<forall>y \<in> set xs. \<not> P y \<Longrightarrow> find P xs = None"
  by (induction xs) auto

lemmas coord_eval = extractCoordinates_def examplePathname_def pathSegments_def coordMatchAt_def
  digitsThen_def optMinus_def isDigit_def parseFloat_def trimStart_def startsWith_def isSpace_def
  toNumber_def scale10_def exponentPart_def digitsValue_def digitValue_def Let_def

lemma example_coordinates:
  "pathname ''https://x/y/60.10,10.75/z'' = Some ''/y/60.10,10.75/z'' \<Longrightarrow>
   extractCoordinates pathname ''https://x/y/60.10,10.75/z'' = Some \<lparr> lat = 60.10, lon = 10.75 \<rparr>"
  by (simp add: coord_eval)

text \<open>
  Claim C3, as the code has it. \<open>extractCoordinates\<close> never throws: a URL the parser
  rejects gives \<open>null\<close>, and so does a URL none of whose path segments contains a match of
  the pattern. Otherwise it takes the first segment containing a match, splits that
  segment at its commas (there are at least two pieces) and returns the first two pieces
  read by \<open>parseFloat\<close> when both are finite numbers, \<open>null\<close> when one is not. For
  \<open>https://x/y/60.10,10.75/z\<close> it returns 60.10 and 10.75.
\<close>

theorem extractCoordinates_first_segment:
  "(pathname url = None \<longrightarrow> extractCoordinates pathname url = None)
   \<and> (pathname url = Some path \<and> (\<forall>s \<in> set (pathSegments path). \<not> coordTest s) \<longrightarrow>
        extractCoordinates pathname url = None)
   \<and> (coordTest seg \<longrightarrow> (\<exists>a b rest. splitOn (CHR '','') seg = a # b # rest))
   \<and> (pathname url = Some path \<and> pathSegments path = before @ seg # after
        \<and> (\<forall>s \<in> set before. \<not> coordTest s) \<and> coordTest seg
        \<and> splitOn (CHR '','') seg = latRaw # lonRaw # rest \<longrightarrow>
        extractCoordinates pathname url =
          (case (parseFloat latRaw, parseFloat lonRaw) of
             (Finite la, Finite lo) \<Rightarrow> Some \<lparr> lat = la, lon = lo \<rparr>
           | _ \<Rightarrow> None))
   \<and> (pathname ''https://x/y/60.10,10.75/z'' = Some ''/y/60.10,10.75/z'' \<longrightarrow>
        extractCoordinates pathname ''https://x/y/60.10,10.75/z''
          = Some \<lparr> lat = 60.10, lon = 10.75 \<rparr>)"
proof -
  have a: "extractCoordinates pathname url = None" if "pathname url = None"
    using that by (simp add: extractCoordinates_def)
  have b: "extractCoordinates pathname url = None"
    if "pathname url = Some path" and "\<forall>s \<in> set (pathSegments path). \<not> coordTest s"
    using that find_none [of "pathSegments path" coordTest] by (simp add: extractCoordinates_def)
  have c: "\<exists>a b rest. splitOn (CHR '','') seg = a # b # rest" if "coordTest seg"
    using that by (intro splitOn_two coordTest_comma)
  have d: "extractCoordinates pathname url =
          (case (parseFloat latRaw, parseFloat lonRaw) of
             (Finite la, Finite lo) \<Rightarrow> Some \<lparr> lat = la, lon = lo \<rparr>
           | _ \<Rightarrow> None)"
    if "pathname url = Some path" and "pathSegments path = before @ seg # after"
      and "\<forall>s \<in> set before. \<not> coordTest s" and "coordTest seg"
      and "splitOn (CHR '','') seg = latRaw # lonRaw # rest"
  proof -
    have "find coordTest (pathSegments path) = Some seg"
      using that(2,3,4) by (rule find_first)
    then show ?thesis
      using that(1,5) by (simp add: extractCoordinates_def)
  qed
  show ?thesis
    using a b c d example_coordinates [of pathname] by blast
qed

text \<open>
  Claim C9, as the code has it. Every value \<open>extractCoordinates\<close> returns holds two
  finite numbers, the first two comma-separated pieces of a path segment that contains a
  match of the pattern; no range of latitude or longitude is checked.
\<close>

theorem extractCoordinates_finite:
  "extractCoordinates pathname url = Some c \<Longrightarrow>
     \<exists>path seg latRaw lonRaw rest.
       pathname url = Some path \<and> seg \<in> set (pathSegments path) \<and> coordTest seg
       \<and> splitOn (CHR '','') seg = latRaw # lonRaw # rest
       \<and> parseFloat latRaw = Finite (lat c) \<and> parseFloat lonRaw = Finite (lon c)
       \<and> isFinite (parseFloat latRaw) \<and> isFinite (parseFloat lonRaw)"
  unfolding extractCoordinates_def
  by (auto split: option.splits list.splits number.splits simp: find_Some_iff in_set_conv_nth)

text \<open>
  The pattern is not anchored: the segment \<open>a60.10,10.75\<close> contains a match, its first
  piece \<open>a60.10\<close> is not a number, and the result is \<open>null\<close>.
\<close>

theorem extractCoordinates_unparsed_counterexample:
  "examplePathname ''https://x/y/a60.10,10.75/z'' = Some ''/y/a60.10,10.75/z''
   \<and> pathSegments ''/y/a60.10,10.75/z'' = [''y'', ''a60.10,10.75'', ''z'']
   \<and> coordTest ''a60.10,10.75''
   \<and> extractCoordinates examplePathname ''https://x/y/a60.10,10.75/z'' = None"
  by (simp add: coord_eval)

text \<open>A latitude of 95.5 and a longitude of 200.25 are returned as they are.\<close>

theorem extractCoordinates_out_of_range_counterexample:
  "extractCoordinates examplePathname ''https://x/y/95.5,200.25/z'' = Some \<lparr> lat = 95.5, lon = 200.25 \<rparr>
   \<and> \<not> (lat \<lparr> lat = 95.5, lon = 200.25 \<rparr> \<le> 90)
   \<and> \<not> (lon \<lparr> lat = 95.5, lon = 200.25 \<rparr> \<le> 180)"
  by (simp add: coord_eval)


theorem extractCoordinates_first_segment_witness:
  "examplePathname ''https://x/y/60.10,10.75/z'' = Some ''/y/60.10,10.75/z''
   \<and> pathSegments ''/y/60.10,10.75/z'' = [''y''] @ ''60.10,10.75'' # [''z'']
   \<and> list_all (\<lambda>s. \<not> coordTest s) [''y'']
   \<and> coordTest ''60.10,10.75''
   \<and> splitOn (CHR '','') ''60.10,10.75'' = ''60.10'' # ''10.75'' # []
   \<and> parseFloat ''60.10'' = Finite 60.10 \<and> parseFloat ''10.75'' = Finite 10.75
   \<and> extractCoordinates examplePathname ''https://x/y/60.10,10.75/z'' = Some \<lparr> lat = 60.10, lon = 10.75 \<rparr>
   \<and> examplePathname ''https://x/y/z'' = Some ''/y/z''
   \<and> list_all (\<lambda>s. \<not> coordTest s) (pathSegments ''/y/z'')
   \<and> extractCoordinates examplePathname ''https://x/y/z'' = None
   \<and> examplePathname ''not a url'' = None
   \<and> extractCoordinates examplePathname ''not a url'' = None"
proof -
  have h1: "examplePathname ''https://x/y/60.10,10.75/z'' = Some ''/y/60.10,10.75/z''"
    by (simp add: examplePathname_def)
  have h2: "pathSegments ''/y/60.10,10.75/z'' = [''y''] @ ''60.10,10.75'' # [''z'']"
    by (simp add: pathSegments_def)
  have h3: "\<forall>s \<in> set [''y'']. \<not> coordTest s"
    by (simp add: coord_eval)
  have h4: "coordTest ''60.10,10.75''"
    by (simp add: coord_eval)
  have h5: "splitOn (CHR '','') ''60.10,10.75'' = ''60.10'' # ''10.75'' # []"
    by simp
  have p1: "parseFloat ''60.10'' = Finite 60.10"
    by (simp add: coord_eval)
  have p2: "parseFloat ''10.75'' = Finite 10.75"
    by (simp add: coord_eval)
  have c1: "extractCoordinates examplePathname ''https://x/y/60.10,10.75/z''
      = (case (parseFloat ''60.10'', parseFloat ''10.75'') of
           (Finite la, Finite lo) \<Rightarrow> Some \<lparr> lat = la, lon = lo \<rparr>
         | _ \<Rightarrow> None)"
    using extractCoordinates_first_segment [of examplePathname "''https://x/y/60.10,10.75/z''"
        "''/y/60.10,10.75/z''" "''60.10,10.75''" "[''y'']" "[''z'']" "''60.10''" "''10.75''" "[]"]
      h1 h2 h3 h4 h5 by blast
  have h6: "examplePathname ''https://x/y/z'' = Some ''/y/z''"
    by (simp add: examplePathname_def)
  have h7: "\<forall>s \<in> set (pathSegments ''/y/z''). \<not> coordTest s"
    by (simp add: coord_eval)
  have c2: "extractCoordinates examplePathname ''https://x/y/z'' = None"
    using extractCoordinates_first_segment [of examplePathname "''https://x/y/z''" "''/y/z''"]
      h6 h7 by blast
  have h8: "examplePathname ''not a url'' = None"
    by (simp add: examplePathname_def)
  have c3: "extractCoordinates examplePathname ''not a url'' = None"
    using extractCoordinates_first_segment [of examplePathname "''not a url''"] h8 by blast
  show ?thesis
    using h1 h2 h3 h4 h5 p1 p2 c1 h6 h7 c2 h8 c3 by (simp add: list_all_iff)
qed

theorem extractCoordinates_finite_witness:
  "extractCoordinates examplePathname ''https://x/y/95.5,200.25/z'' = Some \<lparr> lat = 95.5, lon = 200.25 \<rparr>
   \<and> (\<exists>path seg latRaw lonRaw rest.
       examplePathname ''https://x/y/95.5,200.25/z'' = Some path \<and> seg \<in> set (pathSegments path)
       \<and> coordTest seg \<and> splitOn (CHR '','') seg = latRaw # lonRaw # rest
       \<and> parseFloat latRaw = Finite 95.5 \<and> parseFloat lonRaw = Finite 200.25
       \<and> isFinite (parseFloat latRaw) \<and> isFinite (parseFloat lonRaw))"
proof -
  have h: "extractCoordinates examplePathname ''https://x/y/95.5,200.25/z'' = Some \<lparr> lat = 95.5, lon = 200.25 \<rparr>"
    by (simp add: coord_eval)
  show ?thesis
    using extractCoordinates_finite [OF h] h by simp
qed

section \<open>The example platform, evaluated\<close>

lemma exampleMarkup_chart:
  "exampleMarkup exampleChart
     = ''<svg viewBox='' @ [CHR 0x22] @ ''0 0 960 540'' @ [CHR 0x22] @ ''><path d='' @ [CHR 0x22]
       @ ''M72.00,64.00'' @ [CHR 0x22] @ '' fill='' @ [CHR 0x22] @ ''none'' @ [CHR 0x22] @ ''/></svg>''"
  by (simp add: exampleChart_def)

lemma example_parse:
  "map_of exampleTable exampleForecastSvg = Some exampleChart"
  "map_of exampleTable exampleXmlSvg = Some exampleChart"
  "map_of exampleTable examplePlainSvg = Some exampleChart"
  by (simp_all add: exampleTable_def exampleForecastSvg_def exampleXmlSvg_def examplePlainSvg_def
      exampleMarkup_chart)

lemma example_trim:
  "trim exampleForecastSvg = exampleForecastSvg"
  "trim exampleXmlSvg = exampleXmlSvg"
  "trim examplePlainSvg = examplePlainSvg"
  by (simp_all add: trim_def isSpace_def exampleForecastSvg_def exampleXmlSvg_def examplePlainSvg_def
      exampleMarkup_chart)

lemma example_startsWith:
  "\<not> startsWith exampleForecastSvg ''<svg''"
  "startsWith exampleForecastSvg ''<?xml''"
  "\<not> startsWith exampleXmlSvg ''<svg''"
  "startsWith exampleXmlSvg ''<?xml''"
  "startsWith examplePlainSvg ''<svg''"
  by (simp_all add: startsWith_def exampleForecastSvg_def exampleXmlSvg_def examplePlainSvg_def
      exampleMarkup_chart)

lemma example_nonempty:
  "exampleForecastSvg \<noteq> []" "exampleXmlSvg \<noteq> []" "examplePlainSvg \<noteq> []"
  by (simp_all add: exampleForecastSvg_def exampleXmlSvg_def examplePlainSvg_def exampleMarkup_chart)

lemma example_fields:
  "parseSvg (exampleEnv table texts jsons) = map_of table"
  "outerHTML (exampleEnv table texts jsons) = exampleMarkup"
  "fetchText (exampleEnv table texts jsons) u = texts"
  "fetchJson (exampleEnv table texts jsons) c = jsons"
  "requestUrl (exampleEnv table texts jsons) u = u @ ''?nocache=1714543200000''"
  by (simp_all add: exampleEnv_def)

lemma example_generate:
  "generateForecastSvg (exampleEnv table texts jsons) cfg examplePayload = Returned exampleForecastSvg"
  by (simp add: generateForecastSvg_def exampleEnv_def exampleForecastSvg_def examplePayload_def)

lemma example_generate_undated:
  "generateForecastSvg (exampleEnv table texts jsons) cfg undatedPayload = Thrown"
  by (simp add: generateForecastSvg_def exampleEnv_def undatedPayload_def)

lemma example_svgStringOf:
  "svgStringOf (exampleEnv table texts jsons) exampleXmlSvg = Some exampleXmlSvg"
  "svgStringOf (exampleEnv table texts jsons) examplePlainSvg = Some examplePlainSvg"
  by (simp_all add: svgStringOf_def example_trim example_startsWith)

lemma example_coords:
  "extractCoordinates (urlPathname (exampleEnv table texts jsons)) ''https://x/y/z'' = None"
  "extractCoordinates (urlPathname (exampleEnv table texts jsons)) ''https://x/y/60.10,10.75/z''
     = Some \<lparr> lat = 60.10, lon = 10.75 \<rparr>"
  by (simp_all add: exampleEnv_def coord_eval)

lemma example_transform:
  "transformForecast (isoNow (exampleEnv table texts jsons)) exampleForecast = Some examplePayload"
  by (simp add: exampleEnv_def exampleForecast_def transformForecast_def timeseries_def Let_def
      entryPoint_def hourEntry_def forecastDoc_def examplePayload_def)

lemma example_transform_undated:
  "transformForecast (isoNow (exampleEnv table texts jsons)) undatedForecast = Some undatedPayload"
  by (simp add: exampleEnv_def undatedForecast_def transformForecast_def timeseries_def Let_def
      entryPoint_def hourEntry_def forecastDoc_def undatedPayload_def)

lemma never_simps: "never k = None"
  by (simp add: never_def)

lemma always_simps: "always x k = Some x"
  by (simp add: always_def)

lemma onFifth_simps:
  "\<forall>k. 1 \<le> k \<and> k < 5 \<longrightarrow> onFifth x k = None" "onFifth x 5 = Some x"
  by (simp_all add: onFifth_def)

section \<open>Properties of the retry chains\<close>

lemma linearBackoff_Nil: "linearBackoff a []"
  by (simp add: linearBackoff_def)

lemma linearBackoff_Cons:
  "a < 5 \<Longrightarrow> linearBackoff (a + 1) ds \<Longrightarrow> linearBackoff a (1000 * a # ds)"
proof -
  assume a: "a < 5" and b: "linearBackoff (a + 1) ds"
  have eq: "ds = map (\<lambda>k. 1000 * k) [Suc a..<Suc a + length ds]"
    using b by (simp add: linearBackoff_def)
  have le: "a + length ds < 5"
    using a b by (auto simp: linearBackoff_def)
  have "[a..<a + length (1000 * a # ds)] = a # [Suc a..<Suc a + length ds]"
    by (subst upt_rec) simp
  then have "1000 * a # ds = map (\<lambda>k. 1000 * k) [a..<a + length (1000 * a # ds)]"
    using eq by simp
  moreover have "a + length (1000 * a # ds) \<le> 5"
    using le by simp
  ultimately show ?thesis
    unfolding linearBackoff_def by blast
qed

subsection \<open>The direct path\<close>

lemma direct_settles:
  "directAttempt env url a w = Some w1 \<Longrightarrow> fetchSvgDirect env url a w = ([], w1)"
  by (subst fetchSvgDirect.simps) simp

lemma direct_retries:
  "directAttempt env url a w = None \<Longrightarrow> a < 5 \<Longrightarrow>
   fetchSvgDirect env url a w
     = (1000 * a # fst (fetchSvgDirect env url (a + 1) w), snd (fetchSvgDirect env url (a + 1) w))"
  by (subst fetchSvgDirect.simps) (simp split: prod.splits)

lemma direct_gives_up:
  "directAttempt env url a w = None \<Longrightarrow> \<not> a < 5 \<Longrightarrow>
   fetchSvgDirect env url a w
     = (if usableFallback (fallbackOf (state w) (config w)) then
          ([], w\<lparr> state := processSvg env (config w)
                             (case fallbackOf (state w) (config w) of Some f \<Rightarrow> f | None \<Rightarrow> [])
                             (state w) \<rparr>)
        else
          ([], w\<lparr> state := (state w)\<lparr> isLoading := False,
                                       error := Some ''Unable to load meteogram from source.'' \<rparr> \<rparr>))"
  by (subst fetchSvgDirect.simps) simp

lemma direct_backoff: "linearBackoff a (fst (fetchSvgDirect env url a w))"
proof (induction env url a w rule: fetchSvgDirect.induct)
  case (1 env url attempt w)
  show ?case
  proof (cases "directAttempt env url attempt w")
    case (Some w1)
    then show ?thesis by (simp add: direct_settles linearBackoff_Nil)
  next
    case None
    show ?thesis
    proof (cases "attempt < 5")
      case True
      with None "1.IH" show ?thesis
        by (simp add: direct_retries linearBackoff_Cons)
    next
      case False
      with None show ?thesis
        by (simp add: direct_gives_up linearBackoff_Nil)
    qed
  qed
qed

lemma direct_fifth:
  assumes fails: "\<forall>k. 1 \<le> k \<and> k < 5 \<longrightarrow> directAttempt env url k w = None"
    and last: "directAttempt env url 5 w = Some w1"
  shows "fetchSvgDirect env url 1 w = ([1000, 2000, 3000, 4000], w1)"
proof -
  have s5: "fetchSvgDirect env url 5 w = ([], w1)"
    using last by (rule direct_settles)
  have s4: "fetchSvgDirect env url 4 w = ([4000], w1)"
    using direct_retries [of env url 4 w] fails s5 by simp
  have s3: "fetchSvgDirect env url 3 w = ([3000, 4000], w1)"
    using direct_retries [of env url 3 w] fails s4 by simp
  have s2: "fetchSvgDirect env url 2 w = ([2000, 3000, 4000], w1)"
    using direct_retries [of env url 2 w] fails s3 by simp
  show ?thesis
    using direct_retries [of env url 1 w] fails s2 by (simp add: numeral_2_eq_2)
qed

lemma direct_all_fail:
  assumes fails: "\<forall>k. 1 \<le> k \<and> k \<le> 5 \<longrightarrow> directAttempt env url k w = None"
  shows "fetchSvgDirect env url 1 w
          = ([1000, 2000, 3000, 4000], snd (fetchSvgDirect env url 5 w))
       \<and> fst (fetchSvgDirect env url 5 w) = []"
proof -
  have s5: "fst (fetchSvgDirect env url 5 w) = []"
    using direct_gives_up [of env url 5 w] fails by simp
  have s4: "fetchSvgDirect env url 4 w = ([4000], snd (fetchSvgDirect env url 5 w))"
    using direct_retries [of env url 4 w] fails s5 by simp
  have s3: "fetchSvgDirect env url 3 w = ([3000, 4000], snd (fetchSvgDirect env url 5 w))"
    using direct_retries [of env url 3 w] fails s4 by simp
  have s2: "fetchSvgDirect env url 2 w = ([2000, 3000, 4000], snd (fetchSvgDirect env url 5 w))"
    using direct_retries [of env url 2 w] fails s3 by simp
  show ?thesis
    using direct_retries [of env url 1 w] fails s2 s5 by (simp add: numeral_2_eq_2)
qed

subsection \<open>The forecast path\<close>

lemma forecast_settles:
  "forecastAttempt env coords a w = Returned w1 \<Longrightarrow>
   fetchFromForecastApi env url coords a w = ([], Some w1)"
  by (subst fetchFromForecastApi.simps) simp

lemma forecast_hangs:
  "forecastAttempt env coords a w = Hangs \<Longrightarrow>
   fetchFromForecastApi env url coords a w = ([], None)"
  by (subst fetchFromForecastApi.simps) simp

lemma forecast_retries:
  "forecastAttempt env coords a w = Thrown \<Longrightarrow> a < 5 \<Longrightarrow>
   fetchFromForecastApi env url coords a w
     = (1000 * a # fst (fetchFromForecastApi env url coords (a + 1) w),
        snd (fetchFromForecastApi env url coords (a + 1) w))"
  by (subst fetchFromForecastApi.simps) (simp split: prod.splits)

lemma forecast_gives_up:
  "forecastAttempt env coords a w = Thrown \<Longrightarrow> \<not> a < 5 \<Longrightarrow>
   fetchFromForecastApi env url coords a w
     = (if usableFallback (fallbackOf (state w) (config w)) then
          ([], Some (w\<lparr> state := processSvg env (config w)
                             (case fallbackOf (state w) (config w) of Some f \<Rightarrow> f | None \<Rightarrow> [])
                             (state w) \<rparr>))
        else
          ([], Some (w\<lparr> state := (state w)\<lparr> isLoading := False,
                                             error := Some ''Unable to load forecast data.'' \<rparr> \<rparr>)))"
  by (subst fetchFromForecastApi.simps) simp

lemma forecast_backoff: "linearBackoff a (fst (fetchFromForecastApi env url coords a w))"
proof (induction env url coords a w rule: fetchFromForecastApi.induct)
  case (1 env originalUrl coords attempt w)
  show ?case
  proof (cases "forecastAttempt env coords attempt w")
    case (Returned w1)
    then show ?thesis by (simp add: forecast_settles linearBackoff_Nil)
  next
    case Hangs
    then show ?thesis by (simp add: forecast_hangs linearBackoff_Nil)
  next
    case Thrown
    show ?thesis
    proof (cases "attempt < 5")
      case True
      with Thrown "1.IH" show ?thesis
        by (simp add: forecast_retries linearBackoff_Cons)
    next
      case False
      with Thrown show ?thesis
        by (simp add: forecast_gives_up linearBackoff_Nil)
    qed
  qed
qed

lemma forecast_fifth:
  assumes fails: "\<forall>k. 1 \<le> k \<and> k < 5 \<longrightarrow> forecastAttempt env coords k w = Thrown"
    and last: "forecastAttempt env coords 5 w = Returned w1"
  shows "fetchFromForecastApi env url coords 1 w = ([1000, 2000, 3000, 4000], Some w1)"
proof -
  have s5: "fetchFromForecastApi env url coords 5 w = ([], Some w1)"
    using last by (rule forecast_settles)
  have s4: "fetchFromForecastApi env url coords 4 w = ([4000], Some w1)"
    using forecast_retries [of env coords 4 w url] fails s5 by simp
  have s3: "fetchFromForecastApi env url coords 3 w = ([3000, 4000], Some w1)"
    using forecast_retries [of env coords 3 w url] fails s4 by simp
  have s2: "fetchFromForecastApi env url coords 2 w = ([2000, 3000, 4000], Some w1)"
    using forecast_retries [of env coords 2 w url] fails s3 by simp
  show ?thesis
    using forecast_retries [of env coords 1 w url] fails s2 by (simp add: numeral_2_eq_2)
qed

lemma forecast_all_fail:
  assumes fails: "\<forall>k. 1 \<le> k \<and> k \<le> 5 \<longrightarrow> forecastAttempt env coords k w = Thrown"
  shows "fetchFromForecastApi env url coords 1 w
          = ([1000, 2000, 3000, 4000], snd (fetchFromForecastApi env url coords 5 w))
       \<and> fst (fetchFromForecastApi env url coords 5 w) = []"
proof -
  have s5: "fst (fetchFromForecastApi env url coords 5 w) = []"
    using forecast_gives_up [of env coords 5 w url] fails by simp
  have s4: "fetchFromForecastApi env url coords 4 w = ([4000], snd (fetchFromForecastApi env url coords 5 w))"
    using forecast_retries [of env coords 4 w url] fails s5 by simp
  have s3: "fetchFromForecastApi env url coords 3 w = ([3000, 4000], snd (fetchFromForecastApi env url coords 5 w))"
    using forecast_retries [of env coords 3 w url] fails s4 by simp
  have s2: "fetchFromForecastApi env url coords 2 w
              = ([2000, 3000, 4000], snd (fetchFromForecastApi env url coords 5 w))"
    using forecast_retries [of env coords 2 w url] fails s3 by simp
  show ?thesis
    using forecast_retries [of env coords 1 w url] fails s2 s5 by (simp add: numeral_2_eq_2)
qed

subsection \<open>The chain of runtime/widget.tsx\<close>

lemma runtime_settles:
  "runtimeAttempt env url a (beginLoadingRuntime a w) = Some w1 \<Longrightarrow>
   fetchSvgFromUrlRuntime env url a w = ([], w1)"
  by (subst fetchSvgFromUrlRuntime.simps) (simp add: Let_def)

lemma runtime_retries:
  "runtimeAttempt env url a (beginLoadingRuntime a w) = None \<Longrightarrow> a < 5 \<Longrightarrow>
   fetchSvgFromUrlRuntime env url a w
     = (1000 * a # fst (fetchSvgFromUrlRuntime env url (a + 1) (beginLoadingRuntime a w)),
        snd (fetchSvgFromUrlRuntime env url (a + 1) (beginLoadingRuntime a w)))"
  by (subst fetchSvgFromUrlRuntime.simps) (simp add: Let_def split: prod.splits)

lemma runtime_gives_up:
  "runtimeAttempt env url a (beginLoadingRuntime a w) = None \<Longrightarrow> \<not> a < 5 \<Longrightarrow>
   fetchSvgFromUrlRuntime env url a w
     = (if usableFallback (fallbackOf (state (beginLoadingRuntime a w)) (config (beginLoadingRuntime a w))) then
          ([], (beginLoadingRuntime a w)\<lparr> state := processSvgRuntime env (config (beginLoadingRuntime a w))
                             (case fallbackOf (state (beginLoadingRuntime a w)) (config (beginLoadingRuntime a w)) of
                                Some f \<Rightarrow> f | None \<Rightarrow> [])
                             (state (beginLoadingRuntime a w)) \<rparr>)
        else
          ([], (beginLoadingRuntime a w)\<lparr> state := (state (beginLoadingRuntime a w))\<lparr> isLoading := False,
                                       error := None, displayMode := External,
                                       externalUrl := Some (requestUrl env url) \<rparr> \<rparr>))"
  by (subst fetchSvgFromUrlRuntime.simps) (simp add: Let_def)

lemma runtime_backoff: "linearBackoff a (fst (fetchSvgFromUrlRuntime env url a w))"
proof (induction env url a w rule: fetchSvgFromUrlRuntime.induct)
  case (1 env url attempt w0)
  show ?case
  proof (cases "runtimeAttempt env url attempt (beginLoadingRuntime attempt w0)")
    case (Some w1)
    then show ?thesis by (simp add: runtime_settles linearBackoff_Nil)
  next
    case None
    show ?thesis
    proof (cases "attempt < 5")
      case True
      with None "1.IH" show ?thesis
        by (simp add: runtime_retries linearBackoff_Cons)
    next
      case False
      with None show ?thesis
        by (simp add: runtime_gives_up linearBackoff_Nil)
    qed
  qed
qed

lemma beginLoadingRuntime_later: "1 < a \<Longrightarrow> beginLoadingRuntime a w = w"
  by (simp add: beginLoadingRuntime_def)

lemma runtime_fifth:
  assumes fails: "\<forall>k. 1 \<le> k \<and> k < 5 \<longrightarrow> runtimeAttempt env url k (beginLoadingRuntime 1 w) = None"
    and last: "runtimeAttempt env url 5 (beginLoadingRuntime 1 w) = Some w1"
  shows "fetchSvgFromUrlRuntime env url 1 w = ([1000, 2000, 3000, 4000], w1)"
proof -
  let ?w = "beginLoadingRuntime 1 w"
  have s5: "fetchSvgFromUrlRuntime env url 5 ?w = ([], w1)"
    using last runtime_settles [of env url 5 ?w w1] by (simp add: beginLoadingRuntime_later)
  have s4: "fetchSvgFromUrlRuntime env url 4 ?w = ([4000], w1)"
    using runtime_retries [of env url 4 ?w] fails s5 by (simp add: beginLoadingRuntime_later)
  have s3: "fetchSvgFromUrlRuntime env url 3 ?w = ([3000, 4000], w1)"
    using runtime_retries [of env url 3 ?w] fails s4 by (simp add: beginLoadingRuntime_later)
  have s2: "fetchSvgFromUrlRuntime env url 2 ?w = ([2000, 3000, 4000], w1)"
    using runtime_retries [of env url 2 ?w] fails s3 by (simp add: beginLoadingRuntime_later)
  show ?thesis
    using runtime_retries [of env url 1 w] fails s2 by (simp add: numeral_2_eq_2)
qed

lemma runtime_all_fail:
  assumes fails: "\<forall>k. 1 \<le> k \<and> k \<le> 5 \<longrightarrow> runtimeAttempt env url k (beginLoadingRuntime 1 w) = None"
  shows "fetchSvgFromUrlRuntime env url 1 w
          = ([1000, 2000, 3000, 4000], snd (fetchSvgFromUrlRuntime env url 5 (beginLoadingRuntime 1 w)))
       \<and> fst (fetchSvgFromUrlRuntime env url 5 (beginLoadingRuntime 1 w)) = []"
proof -
  let ?w = "beginLoadingRuntime 1 w"
  let ?r = "snd (fetchSvgFromUrlRuntime env url 5 ?w)"
  have s5: "fst (fetchSvgFromUrlRuntime env url 5 ?w) = []"
    using runtime_gives_up [of env url 5 ?w] fails by (simp add: beginLoadingRuntime_later)
  have s4: "fetchSvgFromUrlRuntime env url 4 ?w = ([4000], ?r)"
    using runtime_retries [of env url 4 ?w] fails s5 by (simp add: beginLoadingRuntime_later)
  have s3: "fetchSvgFromUrlRuntime env url 3 ?w = ([3000, 4000], ?r)"
    using runtime_retries [of env url 3 ?w] fails s4 by (simp add: beginLoadingRuntime_later)
  have s2: "fetchSvgFromUrlRuntime env url 2 ?w = ([2000, 3000, 4000], ?r)"
    using runtime_retries [of env url 2 ?w] fails s3 by (simp add: beginLoadingRuntime_later)
  show ?thesis
    using runtime_retries [of env url 1 w] fails s2 s5 by (simp add: numeral_2_eq_2)
qed

subsection \<open>The trigger and the handlers\<close>

lemma trigger_backoff: "linearBackoff a (fst (fetchSvgFromUrl env url a w))"
  by (simp add: fetchSvgFromUrl_def direct_backoff forecast_backoff split: option.splits prod.splits)
    (metis direct_backoff fst_conv)

lemma config_beginLoading: "config (beginLoading a w) = config w"
  by (simp add: beginLoading_def)

lemma rawSvg_beginLoading: "rawSvg (state (beginLoading a w)) = rawSvg (state w)"
  by (simp add: beginLoading_def)

lemma svgHtml_beginLoading: "svgHtml (state (beginLoading a w)) = svgHtml (state w)"
  by (simp add: beginLoading_def)

lemma fallbackOf_beginLoading:
  "fallbackOf (state (beginLoading a w)) (config (beginLoading a w)) = fallbackOf (state w) (config w)"
  by (simp add: fallbackOf_def beginLoading_def split: option.splits)

lemma config_beginLoadingRuntime: "config (beginLoadingRuntime a w) = config w"
  by (simp add: beginLoadingRuntime_def)

lemma fallbackOf_beginLoadingRuntime:
  "fallbackOf (state (beginLoadingRuntime a w)) (config (beginLoadingRuntime a w))
     = fallbackOf (state w) (config w)"
  by (simp add: fallbackOf_def beginLoadingRuntime_def split: option.splits)

lemma processSvg_ready:
  "parseSvg env doc = Some svg \<Longrightarrow>
   ready (processSvg env cfg doc st) doc (outerHTML env (sanitizeSvg (overallBackground cfg) svg))"
  by (simp add: processSvg_def ready_def)

lemma processSvgRuntime_ready:
  "parseSvg env doc = Some svg \<Longrightarrow>
   ready (processSvgRuntime env cfg doc st) doc (outerHTML env (sanitizeSvg (overallBackground cfg) svg))
   \<and> displayMode (processSvgRuntime env cfg doc st) = Inline
   \<and> externalUrl (processSvgRuntime env cfg doc st) = None"
  by (simp add: processSvgRuntime_def ready_def)

lemma directThen_ready:
  "svgStringOf env text = Some doc \<Longrightarrow> parseSvg env doc = Some svg \<Longrightarrow>
   \<exists>w1. directThen env text w = Some w1
        \<and> ready (state w1) doc (outerHTML env (sanitizeSvg (overallBackground (config w)) svg))
        \<and> config w1 = (if startsWith doc ''<svg'' then (config w)\<lparr> svgCode := Some doc \<rparr> else config w)"
  by (simp add: directThen_def Let_def persistSvg_def processSvg_ready)

lemma runtimeThen_ready:
  "svgStringOf env text = Some doc \<Longrightarrow> parseSvg env doc = Some svg \<Longrightarrow>
   \<exists>w1. runtimeThen env text w = Some w1
        \<and> ready (state w1) doc (outerHTML env (sanitizeSvg (overallBackground (config w)) svg))
        \<and> displayMode (state w1) = Inline
        \<and> config w1 = (if startsWith doc ''<svg'' then (config w)\<lparr> svgCode := Some doc \<rparr> else config w)"
  by (simp add: runtimeThen_def Let_def persistSvg_def processSvgRuntime_ready)

lemma transformForecast_nonempty:
  assumes "transformForecast now data = Some payload"
  shows "points payload \<noteq> []"
proof -
  have "List.map_filter entryPoint (take 48 (timeseries data)) \<noteq> []"
    using assms transformForecast_None [of now data] by simp
  then show ?thesis
    using transformForecast_points [OF assms] by simp
qed

lemma forecastThen_ready:
  "transformForecast (isoNow env) data = Some payload \<Longrightarrow>
   generateForecastSvg env (config w) payload = Returned doc \<Longrightarrow>
   parseSvg env doc = Some svg \<Longrightarrow>
   \<exists>w1. forecastThen env data w = Returned w1
        \<and> ready (state w1) doc (outerHTML env (sanitizeSvg (overallBackground (config w)) svg))
        \<and> config w1 = (config w)\<lparr> svgCode := Some doc \<rparr>"
  using transformForecast_nonempty [of "isoNow env" data payload]
  by (simp add: forecastThen_def persistSvg_def processSvg_ready)

lemma forecastThen_throws:
  "transformForecast (isoNow env) data = Some payload \<Longrightarrow>
   generateForecastSvg env (config w) payload = Thrown \<Longrightarrow>
   forecastThen env data w = Thrown"
  by (simp add: forecastThen_def)

lemma generateForecastSvg_invalid_date:
  "\<not> validDate env (updatedAt forecast) \<or> (\<exists>p \<in> set (points forecast). \<not> validDate env (time p)) \<Longrightarrow>
   generateForecastSvg env cfg forecast = Thrown"
  by (auto simp: generateForecastSvg_def list_all_iff)

lemma directThen_Some:
  "directThen env text w = Some w1 \<Longrightarrow>
   \<exists>doc. svgStringOf env text = Some doc
        \<and> state w1 = processSvg env (config w) doc (state w)
        \<and> config w1 = (if startsWith doc ''<svg'' then (config w)\<lparr> svgCode := Some doc \<rparr> else config w)"
proof -
  assume a: "directThen env text w = Some w1"
  then obtain doc where d: "svgStringOf env text = Some doc"
    by (cases "svgStringOf env text") (simp_all add: directThen_def)
  show ?thesis
    using a d by (cases "startsWith doc ''<svg''") (auto simp: directThen_def Let_def persistSvg_def)
qed

lemma runtimeThen_Some:
  "runtimeThen env text w = Some w1 \<Longrightarrow>
   \<exists>doc. svgStringOf env text = Some doc
        \<and> state w1 = processSvgRuntime env (config w) doc (state w)
        \<and> config w1 = (if startsWith doc ''<svg'' then (config w)\<lparr> svgCode := Some doc \<rparr> else config w)"
proof -
  assume a: "runtimeThen env text w = Some w1"
  then obtain doc where d: "svgStringOf env text = Some doc"
    by (cases "svgStringOf env text") (simp_all add: runtimeThen_def)
  show ?thesis
    using a d by (cases "startsWith doc ''<svg''") (auto simp: runtimeThen_def Let_def persistSvg_def)
qed

lemma forecastThen_Returned:
  assumes a: "forecastThen env data w = Returned w1"
  shows "\<exists>payload doc. transformForecast (isoNow env) data = Some payload
        \<and> generateForecastSvg env (config w) payload = Returned doc
        \<and> state w1 = processSvg env (config w) doc (state w)
        \<and> config w1 = (config w)\<lparr> svgCode := Some doc \<rparr>"
proof -
  obtain payload where d: "transformForecast (isoNow env) data = Some payload"
    using a by (cases "transformForecast (isoNow env) data") (simp_all add: forecastThen_def)
  have ne: "points payload \<noteq> []"
    using d by (rule transformForecast_nonempty)
  obtain doc where g: "generateForecastSvg env (config w) payload = Returned doc"
    using a d ne by (cases "generateForecastSvg env (config w) payload") (simp_all add: forecastThen_def)
  have "w1 = persistSvg doc (w\<lparr> state := processSvg env (config w) doc (state w) \<rparr>)"
    using a d ne g by (simp add: forecastThen_def)
  then show ?thesis
    using d g by (simp add: persistSvg_def)
qed

lemma usableFallback_Some:
  "usableFallback (Some doc) \<longleftrightarrow> doc \<noteq> [] \<and> startsWith (trim doc) ''<svg''"
  by (simp add: usableFallback_def)

text \<open>
  Every document \<open>generateForecastSvg\<close> returns starts with the XML declaration, and no
  such document passes the test of the fallback.
\<close>

lemma trim_prefix:
  assumes ne: "h \<noteq> []" and first: "\<not> isSpace (hd h)" and final: "\<not> isSpace (last h)"
  shows "take (length h) (trim (h @ r)) = h"
proof -
  obtain c h' where h: "h = c # h'"
    using ne by (cases h) simp_all
  have front: "dropWhile isSpace (h @ r) = h @ r"
    using first h by simp
  have rear: "dropWhile isSpace (rev h) = rev h"
    using final ne by (cases "rev h") (simp_all add: last_rev [symmetric] hd_rev)
  have "dropWhile isSpace (rev r @ rev h)
      = (if \<forall>x \<in> set (rev r). isSpace x then rev h else dropWhile isSpace (rev r) @ rev h)"
    using rear by (simp add: dropWhile_append)
  then have "trim (h @ r)
      = (if \<forall>x \<in> set (rev r). isSpace x then h else h @ rev (dropWhile isSpace (rev r)))"
    unfolding trim_def front by simp
  then show ?thesis
    by simp
qed

lemma generateForecastSvg_declaration:
  assumes "generateForecastSvg env cfg forecast = Returned doc"
  shows "startsWith doc ''<?xml'' \<and> doc \<noteq> [] \<and> \<not> usableFallback (Some doc)"
proof -
  let ?h = \<open>''<?xml version="1.0" encoding="UTF-8"?>''\<close>
  have "\<exists>body. doc = ?h @ ([CHR 0x0A] @ body)"
    using assms
    by (cases "chartMarkup env cfg forecast")
      (auto simp: generateForecastSvg_def split: if_splits)
  then obtain body where doc: "doc = ?h @ ([CHR 0x0A] @ body)"
    by blast
  have "take (length ?h) (trim (?h @ ([CHR 0x0A] @ body))) = ?h"
    by (rule trim_prefix) (simp_all add: isSpace_def)
  then have "take (length ''<svg'') (take (length ?h) (trim doc)) = take (length ''<svg'') ?h"
    unfolding doc by (rule arg_cong)
  then have "take (length ''<svg'') (trim doc) = ''<?xm''"
    by simp
  then have "\<not> startsWith (trim doc) ''<svg''"
    by (simp add: startsWith_def)
  moreover have "startsWith doc ''<?xml''"
    unfolding doc by (simp add: startsWith_def)
  moreover have "doc \<noteq> []"
    unfolding doc by simp
  ultimately show ?thesis
    by (simp add: usableFallback_Some)
qed

subsection \<open>The conjuncts of a long conjunction\<close>

lemma pick2: "a \<and> b \<and> r \<Longrightarrow> b"
  by simp

lemma pick3: "a \<and> b \<and> c \<and> r \<Longrightarrow> c"
  by simp

lemma pick4: "a \<and> b \<and> c \<and> d \<and> r \<Longrightarrow> d"
  by simp

lemma pick5: "a \<and> b \<and> c \<and> d \<and> e \<and> r \<Longrightarrow> e"
  by simp

lemma pick6: "a \<and> b \<and> c \<and> d \<and> e \<and> f \<and> r \<Longrightarrow> f"
  by simp

lemma pick10: "a \<and> b \<and> c \<and> d \<and> e \<and> f \<and> g \<and> h \<and> i \<and> j \<and> r \<Longrightarrow> j"
  by simp

lemma pick11: "a \<and> b \<and> c \<and> d \<and> e \<and> f \<and> g \<and> h \<and> i \<and> j \<and> k \<and> r \<Longrightarrow> k"
  by simp

lemma pick12: "a \<and> b \<and> c \<and> d \<and> e \<and> f \<and> g \<and> h \<and> i \<and> j \<and> k \<and> l \<and> r \<Longrightarrow> l"
  by simp

lemma pick_last13: "a \<and> b \<and> c \<and> d \<and> e \<and> f \<and> g \<and> h \<and> i \<and> j \<and> k \<and> l \<and> m \<Longrightarrow> m"
  by simp

lemma pick_last7: "a \<and> b \<and> c \<and> d \<and> e \<and> f \<and> g \<Longrightarrow> g"
  by simp

section \<open>Retries with linear backoff\<close>

text \<open>
  Claim C6. A chain started by \<open>fetchSvgFromUrl(url)\<close> schedules its retries after
  1000, 2000, ... milliseconds, one per failed attempt in this order, and makes no attempt
  after the fifth. When attempt \<open>k < 5\<close> fails, that is when its \<open>catch\<close> runs because the
  request failed or a handler threw (a failed request, no point in the forecast, a date
  that \<open>generateForecastSvg\<close> cannot format), one retry is scheduled after \<open>1000 * k\<close>
  milliseconds and the next attempt starts from the component as it was: no state is
  set. A source that fails four times and answers the fifth attempt with a document that
  parses (on the forecast path: with a forecast from which \<open>generateForecastSvg\<close>
  returns a document that parses) is displayed after the delays 1000, 2000, 3000, 4000,
  on the direct path, on the forecast path and in \<open>runtime/widget.tsx\<close>.
\<close>

theorem retry_linear_backoff:
  "linearBackoff 1 (fst (fetchSvgFromUrl env url 1 w))
   \<and> linearBackoff 1 (fst (fetchSvgFromUrlRuntime env url 1 wr))
   \<and> (attempt < 5 \<and> directAttempt env url attempt w = None \<longrightarrow>
        fetchSvgDirect env url attempt w
          = (1000 * attempt # fst (fetchSvgDirect env url (attempt + 1) w),
             snd (fetchSvgDirect env url (attempt + 1) w)))
   \<and> (attempt < 5 \<and> forecastAttempt env coords attempt w = Thrown \<longrightarrow>
        fetchFromForecastApi env url coords attempt w
          = (1000 * attempt # fst (fetchFromForecastApi env url coords (attempt + 1) w),
             snd (fetchFromForecastApi env url coords (attempt + 1) w)))
   \<and> (attempt < 5 \<and> runtimeAttempt env url attempt (beginLoadingRuntime attempt wr) = None \<longrightarrow>
        fetchSvgFromUrlRuntime env url attempt wr
          = (1000 * attempt
               # fst (fetchSvgFromUrlRuntime env url (attempt + 1) (beginLoadingRuntime attempt wr)),
             snd (fetchSvgFromUrlRuntime env url (attempt + 1) (beginLoadingRuntime attempt wr))))
   \<and> (fetchText env url attempt = None \<longrightarrow>
        directAttempt env url attempt w = None \<and> runtimeAttempt env url attempt wr = None)
   \<and> (fetchText env url attempt = Some text \<and> svgStringOf env text = None \<longrightarrow>
        directAttempt env url attempt w = None \<and> runtimeAttempt env url attempt wr = None)
   \<and> (fetchJson env coords attempt = None \<longrightarrow> forecastAttempt env coords attempt w = Thrown)
   \<and> (fetchJson env coords attempt = Some data \<and> transformForecast (isoNow env) data = None \<longrightarrow>
        forecastAttempt env coords attempt w = Thrown)
   \<and> (fetchJson env coords attempt = Some data \<and> transformForecast (isoNow env) data = Some payload
        \<and> generateForecastSvg env (config w) payload = Thrown \<longrightarrow>
        forecastAttempt env coords attempt w = Thrown)
   \<and> (extractCoordinates (urlPathname env) url = None
        \<and> (\<forall>k. 1 \<le> k \<and> k < 5 \<longrightarrow> directAttempt env url k (beginLoading 1 w) = None)
        \<and> fetchText env url 5 = Some text \<and> svgStringOf env text = Some doc
        \<and> parseSvg env doc = Some svg \<longrightarrow>
        (\<exists>w'. fetchSvgFromUrl env url 1 w = ([1000, 2000, 3000, 4000], Some w')
           \<and> ready (state w') doc (outerHTML env (sanitizeSvg (overallBackground (config w)) svg))))
   \<and> (extractCoordinates (urlPathname env) url = Some coords
        \<and> (\<forall>k. 1 \<le> k \<and> k < 5 \<longrightarrow> forecastAttempt env coords k (beginLoading 1 w) = Thrown)
        \<and> fetchJson env coords 5 = Some data
        \<and> transformForecast (isoNow env) data = Some payload
        \<and> generateForecastSvg env (config w) payload = Returned doc
        \<and> parseSvg env doc = Some svg \<longrightarrow>
        (\<exists>w'. fetchSvgFromUrl env url 1 w = ([1000, 2000, 3000, 4000], Some w')
           \<and> ready (state w') doc (outerHTML env (sanitizeSvg (overallBackground (config w)) svg))))
   \<and> ((\<forall>k. 1 \<le> k \<and> k < 5 \<longrightarrow> runtimeAttempt env url k (beginLoadingRuntime 1 wr) = None)
        \<and> fetchText env url 5 = Some text \<and> svgStringOf env text = Some doc
        \<and> parseSvg env doc = Some svg \<longrightarrow>
        (\<exists>w'. fetchSvgFromUrlRuntime env url 1 wr = ([1000, 2000, 3000, 4000], w')
           \<and> ready (state w') doc (outerHTML env (sanitizeSvg (overallBackground (config wr)) svg))
           \<and> displayMode (state w') = Inline))"
proof -
  have step_direct: "fetchSvgDirect env url attempt w
          = (1000 * attempt # fst (fetchSvgDirect env url (attempt + 1) w),
             snd (fetchSvgDirect env url (attempt + 1) w))"
    if "attempt < 5" and "directAttempt env url attempt w = None"
    using that direct_retries [of env url attempt w] by simp
  have step_forecast: "fetchFromForecastApi env url coords attempt w
          = (1000 * attempt # fst (fetchFromForecastApi env url coords (attempt + 1) w),
             snd (fetchFromForecastApi env url coords (attempt + 1) w))"
    if "attempt < 5" and "forecastAttempt env coords attempt w = Thrown"
    using that forecast_retries [of env coords attempt w url] by simp
  have step_runtime: "fetchSvgFromUrlRuntime env url attempt wr
          = (1000 * attempt
               # fst (fetchSvgFromUrlRuntime env url (attempt + 1) (beginLoadingRuntime attempt wr)),
             snd (fetchSvgFromUrlRuntime env url (attempt + 1) (beginLoadingRuntime attempt wr)))"
    if "attempt < 5" and "runtimeAttempt env url attempt (beginLoadingRuntime attempt wr) = None"
    using that runtime_retries [of env url attempt wr] by simp
  have fail_text: "directAttempt env url attempt w = None \<and> runtimeAttempt env url attempt wr = None"
    if "fetchText env url attempt = None"
    using that by (simp add: directAttempt_def runtimeAttempt_def)
  have fail_element: "directAttempt env url attempt w = None \<and> runtimeAttempt env url attempt wr = None"
    if "fetchText env url attempt = Some text" and "svgStringOf env text = None"
    using that by (simp add: directAttempt_def runtimeAttempt_def directThen_def runtimeThen_def)
  have fail_json: "forecastAttempt env coords attempt w = Thrown"
    if "fetchJson env coords attempt = None"
    using that by (simp add: forecastAttempt_def)
  have fail_points: "forecastAttempt env coords attempt w = Thrown"
    if "fetchJson env coords attempt = Some data" and "transformForecast (isoNow env) data = None"
    using that by (simp add: forecastAttempt_def forecastThen_def)
  have fail_generate: "forecastAttempt env coords attempt w = Thrown"
    if "fetchJson env coords attempt = Some data"
      and "transformForecast (isoNow env) data = Some payload"
      and "generateForecastSvg env (config w) payload = Thrown"
    using that forecastThen_throws [of env data payload w] by (simp add: forecastAttempt_def)
  have direct: "\<exists>w'. fetchSvgFromUrl env url 1 w = ([1000, 2000, 3000, 4000], Some w')
        \<and> ready (state w') doc (outerHTML env (sanitizeSvg (overallBackground (config w)) svg))"
    if nc: "extractCoordinates (urlPathname env) url = None"
      and fails: "\<forall>k. 1 \<le> k \<and> k < 5 \<longrightarrow> directAttempt env url k (beginLoading 1 w) = None"
      and ft: "fetchText env url 5 = Some text" and ss: "svgStringOf env text = Some doc"
      and ps: "parseSvg env doc = Some svg"
  proof -
    obtain w1 where w1: "directThen env text (beginLoading 1 w) = Some w1"
      and r: "ready (state w1) doc
                (outerHTML env (sanitizeSvg (overallBackground (config (beginLoading 1 w))) svg))"
      using directThen_ready [OF ss ps, of "beginLoading 1 w"] by blast
    have last: "directAttempt env url 5 (beginLoading 1 w) = Some w1"
      using ft w1 by (simp add: directAttempt_def)
    have "fetchSvgDirect env url 1 (beginLoading 1 w) = ([1000, 2000, 3000, 4000], w1)"
      using fails last by (rule direct_fifth)
    then have "fetchSvgFromUrl env url 1 w = ([1000, 2000, 3000, 4000], Some w1)"
      using nc by (simp add: fetchSvgFromUrl_def)
    then show ?thesis
      using r by (simp add: config_beginLoading)
  qed
  have forecast: "\<exists>w'. fetchSvgFromUrl env url 1 w = ([1000, 2000, 3000, 4000], Some w')
        \<and> ready (state w') doc (outerHTML env (sanitizeSvg (overallBackground (config w)) svg))"
    if co: "extractCoordinates (urlPathname env) url = Some coords"
      and fails: "\<forall>k. 1 \<le> k \<and> k < 5 \<longrightarrow> forecastAttempt env coords k (beginLoading 1 w) = Thrown"
      and fj: "fetchJson env coords 5 = Some data"
      and tf: "transformForecast (isoNow env) data = Some payload"
      and gen: "generateForecastSvg env (config w) payload = Returned doc"
      and ps: "parseSvg env doc = Some svg"
  proof -
    have gen': "generateForecastSvg env (config (beginLoading 1 w)) payload = Returned doc"
      using gen by (simp add: config_beginLoading)
    obtain w1 where w1: "forecastThen env data (beginLoading 1 w) = Returned w1"
      and r: "ready (state w1) doc
                (outerHTML env (sanitizeSvg (overallBackground (config (beginLoading 1 w))) svg))"
      using forecastThen_ready [OF tf gen' ps] by blast
    have last: "forecastAttempt env coords 5 (beginLoading 1 w) = Returned w1"
      using fj w1 by (simp add: forecastAttempt_def)
    have "fetchFromForecastApi env url coords 1 (beginLoading 1 w) = ([1000, 2000, 3000, 4000], Some w1)"
      using fails last by (rule forecast_fifth)
    then have "fetchSvgFromUrl env url 1 w = ([1000, 2000, 3000, 4000], Some w1)"
      using co by (simp add: fetchSvgFromUrl_def)
    then show ?thesis
      using r by (simp add: config_beginLoading)
  qed
  have runtime: "\<exists>w'. fetchSvgFromUrlRuntime env url 1 wr = ([1000, 2000, 3000, 4000], w')
        \<and> ready (state w') doc (outerHTML env (sanitizeSvg (overallBackground (config wr)) svg))
        \<and> displayMode (state w') = Inline"
    if fails: "\<forall>k. 1 \<le> k \<and> k < 5 \<longrightarrow> runtimeAttempt env url k (beginLoadingRuntime 1 wr) = None"
      and ft: "fetchText env url 5 = Some text" and ss: "svgStringOf env text = Some doc"
      and ps: "parseSvg env doc = Some svg"
  proof -
    obtain w1 where w1: "runtimeThen env text (beginLoadingRuntime 1 wr) = Some w1"
      and r: "ready (state w1) doc
                (outerHTML env (sanitizeSvg (overallBackground (config (beginLoadingRuntime 1 wr))) svg))"
      and d: "displayMode (state w1) = Inline"
      using runtimeThen_ready [OF ss ps, of "beginLoadingRuntime 1 wr"] by blast
    have last: "runtimeAttempt env url 5 (beginLoadingRuntime 1 wr) = Some w1"
      using ft w1 by (simp add: runtimeAttempt_def)
    have "fetchSvgFromUrlRuntime env url 1 wr = ([1000, 2000, 3000, 4000], w1)"
      using fails last by (rule runtime_fifth)
    then show ?thesis
      using r d by (simp add: config_beginLoadingRuntime)
  qed
  have h1: "linearBackoff 1 (fst (fetchSvgFromUrl env url 1 w))"
    by (rule trigger_backoff)
  have h2: "linearBackoff 1 (fst (fetchSvgFromUrlRuntime env url 1 wr))"
    by (rule runtime_backoff)
  have h3: "attempt < 5 \<and> directAttempt env url attempt w = None \<longrightarrow>
        fetchSvgDirect env url attempt w
          = (1000 * attempt # fst (fetchSvgDirect env url (attempt + 1) w),
             snd (fetchSvgDirect env url (attempt + 1) w))"
    using step_direct by blast
  have h4: "attempt < 5 \<and> forecastAttempt env coords attempt w = Thrown \<longrightarrow>
        fetchFromForecastApi env url coords attempt w
          = (1000 * attempt # fst (fetchFromForecastApi env url coords (attempt + 1) w),
             snd (fetchFromForecastApi env url coords (attempt + 1) w))"
    using step_forecast by blast
  have h5: "attempt < 5 \<and> runtimeAttempt env url attempt (beginLoadingRuntime attempt wr) = None \<longrightarrow>
        fetchSvgFromUrlRuntime env url attempt wr
          = (1000 * attempt
               # fst (fetchSvgFromUrlRuntime env url (attempt + 1) (beginLoadingRuntime attempt wr)),
             snd (fetchSvgFromUrlRuntime env url (attempt + 1) (beginLoadingRuntime attempt wr)))"
    using step_runtime by blast
  have h6: "fetchText env url attempt = None \<longrightarrow>
        directAttempt env url attempt w = None \<and> runtimeAttempt env url attempt wr = None"
    using fail_text by blast
  have h7: "fetchText env url attempt = Some text \<and> svgStringOf env text = None \<longrightarrow>
        directAttempt env url attempt w = None \<and> runtimeAttempt env url attempt wr = None"
    using fail_element by blast
  have h8: "fetchJson env coords attempt = None \<longrightarrow> forecastAttempt env coords attempt w = Thrown"
    using fail_json by blast
  have h9: "fetchJson env coords attempt = Some data \<and> transformForecast (isoNow env) data = None \<longrightarrow>
        forecastAttempt env coords attempt w = Thrown"
    using fail_points by blast
  have h10: "fetchJson env coords attempt = Some data \<and> transformForecast (isoNow env) data = Some payload
        \<and> generateForecastSvg env (config w) payload = Thrown \<longrightarrow>
        forecastAttempt env coords attempt w = Thrown"
    using fail_generate by blast
  have h11: "extractCoordinates (urlPathname env) url = None
        \<and> (\<forall>k. 1 \<le> k \<and> k < 5 \<longrightarrow> directAttempt env url k (beginLoading 1 w) = None)
        \<and> fetchText env url 5 = Some text \<and> svgStringOf env text = Some doc
        \<and> parseSvg env doc = Some svg \<longrightarrow>
        (\<exists>w'. fetchSvgFromUrl env url 1 w = ([1000, 2000, 3000, 4000], Some w')
           \<and> ready (state w') doc (outerHTML env (sanitizeSvg (overallBackground (config w)) svg)))"
    using direct by blast
  have h12: "extractCoordinates (urlPathname env) url = Some coords
        \<and> (\<forall>k. 1 \<le> k \<and> k < 5 \<longrightarrow> forecastAttempt env coords k (beginLoading 1 w) = Thrown)
        \<and> fetchJson env coords 5 = Some data
        \<and> transformForecast (isoNow env) data = Some payload
        \<and> generateForecastSvg env (config w) payload = Returned doc
        \<and> parseSvg env doc = Some svg \<longrightarrow>
        (\<exists>w'. fetchSvgFromUrl env url 1 w = ([1000, 2000, 3000, 4000], Some w')
           \<and> ready (state w') doc (outerHTML env (sanitizeSvg (overallBackground (config w)) svg)))"
    using forecast by blast
  have h13: "(\<forall>k. 1 \<le> k \<and> k < 5 \<longrightarrow> runtimeAttempt env url k (beginLoadingRuntime 1 wr) = None)
        \<and> fetchText env url 5 = Some text \<and> svgStringOf env text = Some doc
        \<and> parseSvg env doc = Some svg \<longrightarrow>
        (\<exists>w'. fetchSvgFromUrlRuntime env url 1 wr = ([1000, 2000, 3000, 4000], w')
           \<and> ready (state w') doc (outerHTML env (sanitizeSvg (overallBackground (config wr)) svg))
           \<and> displayMode (state w') = Inline)"
    using runtime by blast
  show ?thesis
    by (intro conjI h1 h2 h3 h4 h5 h6 h7 h8 h9 h10 h11 h12 h13)
qed

theorem retry_linear_backoff_witness:
  "extractCoordinates (urlPathname (exampleEnv exampleTable (onFifth examplePlainSvg) never))
       ''https://x/y/z'' = None
   \<and> fst (fetchSvgFromUrl (exampleEnv exampleTable (onFifth examplePlainSvg) never) ''https://x/y/z'' 1
            exampleWidget) = [1000, 2000, 3000, 4000]
   \<and> ready (state (the (snd (fetchSvgFromUrl (exampleEnv exampleTable (onFifth examplePlainSvg) never)
                               ''https://x/y/z'' 1 exampleWidget))))
        examplePlainSvg (exampleMarkup (sanitizeSvg ''#102030'' exampleChart))
   \<and> extractCoordinates (urlPathname (exampleEnv exampleTable never datedOnFifth))
       ''https://x/y/60.10,10.75/z'' = Some \<lparr> lat = 60.10, lon = 10.75 \<rparr>
   \<and> generateForecastSvg (exampleEnv exampleTable never datedOnFifth) exampleConfig undatedPayload
       = Thrown
   \<and> forecastAttempt (exampleEnv exampleTable never datedOnFifth) \<lparr> lat = 60.10, lon = 10.75 \<rparr> 2
        exampleWidget = Thrown
   \<and> fst (fetchSvgFromUrl (exampleEnv exampleTable never datedOnFifth) ''https://x/y/60.10,10.75/z'' 1
            exampleWidget) = [1000, 2000, 3000, 4000]
   \<and> ready (state (the (snd (fetchSvgFromUrl (exampleEnv exampleTable never datedOnFifth)
                               ''https://x/y/60.10,10.75/z'' 1 exampleWidget))))
        exampleForecastSvg (exampleMarkup (sanitizeSvg ''#102030'' exampleChart))
   \<and> fst (fetchSvgFromUrlRuntime (exampleEnv exampleTable (onFifth examplePlainSvg) never)
            ''https://x/y/z'' 1 exampleRuntimeWidget) = [1000, 2000, 3000, 4000]
   \<and> ready (state (snd (fetchSvgFromUrlRuntime (exampleEnv exampleTable (onFifth examplePlainSvg) never)
                          ''https://x/y/z'' 1 exampleRuntimeWidget)))
        examplePlainSvg (exampleMarkup (sanitizeSvg ''#102030'' exampleChart))
   \<and> fst (fetchSvgDirect (exampleEnv exampleTable (onFifth examplePlainSvg) never)
            ''https://x/y/z'' 2 exampleWidget)
       = 2000 # fst (fetchSvgDirect (exampleEnv exampleTable (onFifth examplePlainSvg) never)
                       ''https://x/y/z'' 3 exampleWidget)
   \<and> fst (fetchFromForecastApi (exampleEnv exampleTable never datedOnFifth)
            ''https://x/y/60.10,10.75/z'' \<lparr> lat = 60.10, lon = 10.75 \<rparr> 2 exampleWidget)
       = 2000 # fst (fetchFromForecastApi (exampleEnv exampleTable never datedOnFifth)
                       ''https://x/y/60.10,10.75/z'' \<lparr> lat = 60.10, lon = 10.75 \<rparr> 3 exampleWidget)
   \<and> fst (fetchSvgFromUrlRuntime (exampleEnv exampleTable (onFifth examplePlainSvg) never)
            ''https://x/y/z'' 2 exampleRuntimeWidget)
       = 2000 # fst (fetchSvgFromUrlRuntime (exampleEnv exampleTable (onFifth examplePlainSvg) never)
                       ''https://x/y/z'' 3 exampleRuntimeWidget)"
proof -
  let ?D = "exampleEnv exampleTable (onFifth examplePlainSvg) never"
  let ?F = "exampleEnv exampleTable never datedOnFifth"
  let ?u = "''https://x/y/z''"
  let ?v = "''https://x/y/60.10,10.75/z''"
  let ?c = "\<lparr> lat = 60.10, lon = 10.75 \<rparr>"
  let ?html = "exampleMarkup (sanitizeSvg ''#102030'' exampleChart)"
  note backoff = retry_linear_backoff
  have d1: "extractCoordinates (urlPathname ?D) ?u = None"
    by (rule example_coords)
  have dk: "fetchText ?D ?u k = None" if "k \<noteq> 5" for k
    using that by (simp add: example_fields onFifth_def)
  have da: "directAttempt ?D ?u k x = None" if "k \<noteq> 5" for k x
    using backoff [of ?D ?u x _ k, THEN pick6] dk [OF that] by simp
  have ra: "runtimeAttempt ?D ?u k x = None" if "k \<noteq> 5" for k x
    using backoff [of ?D ?u _ x k, THEN pick6] dk [OF that] by simp
  have d2: "\<forall>k. 1 \<le> k \<and> k < 5 \<longrightarrow> directAttempt ?D ?u k (beginLoading 1 exampleWidget) = None"
    using da by simp
  have r2: "\<forall>k. 1 \<le> k \<and> k < 5 \<longrightarrow>
      runtimeAttempt ?D ?u k (beginLoadingRuntime 1 exampleRuntimeWidget) = None"
    using ra by simp
  have d3: "fetchText ?D ?u 5 = Some examplePlainSvg"
    by (simp add: example_fields onFifth_def)
  have d4: "svgStringOf ?D examplePlainSvg = Some examplePlainSvg"
    by (rule example_svgStringOf)
  have d5: "parseSvg ?D examplePlainSvg = Some exampleChart"
    by (simp add: example_fields example_parse)
  have "\<exists>w'. fetchSvgFromUrl ?D ?u 1 exampleWidget = ([1000, 2000, 3000, 4000], Some w')
        \<and> ready (state w') examplePlainSvg
             (outerHTML ?D (sanitizeSvg (overallBackground (config exampleWidget)) exampleChart))"
    using backoff [of ?D ?u exampleWidget _ _ _ examplePlainSvg _ _ examplePlainSvg exampleChart,
        THEN pick11] d1 d2 d3 d4 d5 by simp
  then obtain wd where wd: "fetchSvgFromUrl ?D ?u 1 exampleWidget = ([1000, 2000, 3000, 4000], Some wd)"
    and rd: "ready (state wd) examplePlainSvg
               (outerHTML ?D (sanitizeSvg (overallBackground (config exampleWidget)) exampleChart))"
    by blast
  have kd1: "fst (fetchSvgFromUrl ?D ?u 1 exampleWidget) = [1000, 2000, 3000, 4000]"
    unfolding wd by simp
  have kd2: "ready (state (the (snd (fetchSvgFromUrl ?D ?u 1 exampleWidget)))) examplePlainSvg ?html"
    unfolding wd using rd by (simp add: example_fields exampleWidget_def exampleConfig_def)
  have f1: "extractCoordinates (urlPathname ?F) ?v = Some ?c"
    by (rule example_coords)
  have fk: "fetchJson ?F ?c k = Some undatedForecast" if "k \<noteq> 5" for k
    using that by (simp add: example_fields datedOnFifth_def)
  have ft: "transformForecast (isoNow ?F) undatedForecast = Some undatedPayload"
    by (rule example_transform_undated)
  have fg: "generateForecastSvg ?F cfg undatedPayload = Thrown" for cfg
    by (rule example_generate_undated)
  have fa: "forecastAttempt ?F ?c k x = Thrown" if "k \<noteq> 5" for k x
    using backoff [of ?F _ x _ k ?c _ undatedForecast undatedPayload, THEN pick10]
      fk [OF that] ft fg [of "config x"] by simp
  have f2: "\<forall>k. 1 \<le> k \<and> k < 5 \<longrightarrow> forecastAttempt ?F ?c k (beginLoading 1 exampleWidget) = Thrown"
    using fa by simp
  have f3: "fetchJson ?F ?c 5 = Some exampleForecast"
    by (simp add: example_fields datedOnFifth_def)
  have f4: "transformForecast (isoNow ?F) exampleForecast = Some examplePayload"
    by (rule example_transform)
  have f5: "generateForecastSvg ?F (config exampleWidget) examplePayload = Returned exampleForecastSvg"
    by (rule example_generate)
  have f6: "parseSvg ?F exampleForecastSvg = Some exampleChart"
    by (simp add: example_fields example_parse)
  have "\<exists>w'. fetchSvgFromUrl ?F ?v 1 exampleWidget = ([1000, 2000, 3000, 4000], Some w')
        \<and> ready (state w') exampleForecastSvg
             (outerHTML ?F (sanitizeSvg (overallBackground (config exampleWidget)) exampleChart))"
    using backoff [of ?F ?v exampleWidget _ _ ?c _ exampleForecast examplePayload exampleForecastSvg
        exampleChart, THEN pick12]
      f1 f2 f3 f4 f5 f6 by simp
  then obtain wf where wf: "fetchSvgFromUrl ?F ?v 1 exampleWidget = ([1000, 2000, 3000, 4000], Some wf)"
    and rf: "ready (state wf) exampleForecastSvg
               (outerHTML ?F (sanitizeSvg (overallBackground (config exampleWidget)) exampleChart))"
    by blast
  have kf1: "fst (fetchSvgFromUrl ?F ?v 1 exampleWidget) = [1000, 2000, 3000, 4000]"
    unfolding wf by simp
  have kf2: "ready (state (the (snd (fetchSvgFromUrl ?F ?v 1 exampleWidget)))) exampleForecastSvg ?html"
    unfolding wf using rf by (simp add: example_fields exampleWidget_def exampleConfig_def)
  have "\<exists>w'. fetchSvgFromUrlRuntime ?D ?u 1 exampleRuntimeWidget = ([1000, 2000, 3000, 4000], w')
        \<and> ready (state w') examplePlainSvg
             (outerHTML ?D (sanitizeSvg (overallBackground (config exampleRuntimeWidget)) exampleChart))
        \<and> displayMode (state w') = Inline"
    using backoff [of ?D ?u _ exampleRuntimeWidget _ _ examplePlainSvg _ _ examplePlainSvg exampleChart,
        THEN pick_last13]
      r2 d3 d4 d5 by simp
  then obtain wr where wr: "fetchSvgFromUrlRuntime ?D ?u 1 exampleRuntimeWidget
        = ([1000, 2000, 3000, 4000], wr)"
    and rr: "ready (state wr) examplePlainSvg
               (outerHTML ?D (sanitizeSvg (overallBackground (config exampleRuntimeWidget)) exampleChart))"
    by blast
  have kr1: "fst (fetchSvgFromUrlRuntime ?D ?u 1 exampleRuntimeWidget) = [1000, 2000, 3000, 4000]"
    unfolding wr by simp
  have kr2: "ready (state (snd (fetchSvgFromUrlRuntime ?D ?u 1 exampleRuntimeWidget))) examplePlainSvg ?html"
    unfolding wr using rr by (simp add: example_fields exampleRuntimeWidget_def exampleConfig_def)
  have a1: "directAttempt ?D ?u 2 exampleWidget = None"
    by (rule da) simp
  have a2: "forecastAttempt ?F ?c 2 exampleWidget = Thrown"
    by (rule fa) simp
  have a3: "runtimeAttempt ?D ?u 2 (beginLoadingRuntime 2 exampleRuntimeWidget) = None"
    by (rule ra) simp
  have k1: "fst (fetchSvgDirect ?D ?u 2 exampleWidget) = 2000 # fst (fetchSvgDirect ?D ?u 3 exampleWidget)"
    using backoff [of ?D ?u exampleWidget _ 2, THEN pick3] a1 by simp
  have k2: "fst (fetchFromForecastApi ?F ?v ?c 2 exampleWidget)
      = 2000 # fst (fetchFromForecastApi ?F ?v ?c 3 exampleWidget)"
    using backoff [of ?F ?v exampleWidget _ 2 ?c, THEN pick4] a2 by simp
  have k3: "fst (fetchSvgFromUrlRuntime ?D ?u 2 exampleRuntimeWidget)
      = 2000 # fst (fetchSvgFromUrlRuntime ?D ?u 3 exampleRuntimeWidget)"
    using backoff [of ?D ?u _ exampleRuntimeWidget 2, THEN pick5] a3
    by (simp add: beginLoadingRuntime_def)
  show ?thesis
    by (intro conjI d1 kd1 kd2 f1 fg a2 kf1 kf2 kr1 kr2 k1 k2 k3)
qed

section \<open>Persistence of the acquired document\<close>

text \<open>
  Claim C8, as the code has it. When the handler of a response completes, the forecast
  path has a document that \<open>generateForecastSvg\<close> returned and always writes it into
  \<open>config.svgCode\<close>; the direct path (in both versions) writes the acquired document
  only when it starts with \<open><svg\<close>, and leaves the configuration as it was otherwise.
  So does a whole acquisition whose first attempt succeeds with a document that parses
  (on the forecast path: with a forecast from which \<open>generateForecastSvg\<close> returns a
  document that parses).
\<close>

theorem persist_on_success:
  "(directThen env text w = Some w1 \<longrightarrow>
      (\<exists>doc. svgStringOf env text = Some doc
         \<and> state w1 = processSvg env (config w) doc (state w)
         \<and> config w1 = (if startsWith doc ''<svg'' then (config w)\<lparr> svgCode := Some doc \<rparr>
                         else config w)))
   \<and> (runtimeThen env text wr = Some wr1 \<longrightarrow>
      (\<exists>doc. svgStringOf env text = Some doc
         \<and> state wr1 = processSvgRuntime env (config wr) doc (state wr)
         \<and> config wr1 = (if startsWith doc ''<svg'' then (config wr)\<lparr> svgCode := Some doc \<rparr>
                          else config wr)))
   \<and> (forecastThen env data w = Returned w1 \<longrightarrow>
      (\<exists>payload doc. transformForecast (isoNow env) data = Some payload
         \<and> generateForecastSvg env (config w) payload = Returned doc
         \<and> state w1 = processSvg env (config w) doc (state w)
         \<and> config w1 = (config w)\<lparr> svgCode := Some doc \<rparr>))
   \<and> (extractCoordinates (urlPathname env) url = None \<and> fetchText env url 1 = Some text
        \<and> svgStringOf env text = Some doc \<and> parseSvg env doc = Some svg \<longrightarrow>
        (\<exists>w'. fetchSvgFromUrl env url 1 w = ([], Some w')
           \<and> ready (state w') doc (outerHTML env (sanitizeSvg (overallBackground (config w)) svg))
           \<and> svgCode (config w') = (if startsWith doc ''<svg'' then Some doc else svgCode (config w))))
   \<and> (extractCoordinates (urlPathname env) url = Some coords \<and> fetchJson env coords 1 = Some data
        \<and> transformForecast (isoNow env) data = Some payload
        \<and> generateForecastSvg env (config w) payload = Returned doc
        \<and> parseSvg env doc = Some svg \<longrightarrow>
        (\<exists>w'. fetchSvgFromUrl env url 1 w = ([], Some w')
           \<and> ready (state w') doc (outerHTML env (sanitizeSvg (overallBackground (config w)) svg))
           \<and> svgCode (config w') = Some doc))
   \<and> (fetchText env url 1 = Some text \<and> svgStringOf env text = Some doc
        \<and> parseSvg env doc = Some svg \<longrightarrow>
        (\<exists>w'. fetchSvgFromUrlRuntime env url 1 wr = ([], w')
           \<and> ready (state w') doc (outerHTML env (sanitizeSvg (overallBackground (config wr)) svg))
           \<and> svgCode (config w') = (if startsWith doc ''<svg'' then Some doc else svgCode (config wr))))"
proof -
  have direct: "\<exists>w'. fetchSvgFromUrl env url 1 w = ([], Some w')
           \<and> ready (state w') doc (outerHTML env (sanitizeSvg (overallBackground (config w)) svg))
           \<and> svgCode (config w') = (if startsWith doc ''<svg'' then Some doc else svgCode (config w))"
    if nc: "extractCoordinates (urlPathname env) url = None" and ft: "fetchText env url 1 = Some text"
      and ss: "svgStringOf env text = Some doc" and ps: "parseSvg env doc = Some svg"
  proof -
    let ?w = "beginLoading 1 w"
    obtain w1 where w1: "directThen env text ?w = Some w1"
      and r: "ready (state w1) doc (outerHTML env (sanitizeSvg (overallBackground (config ?w)) svg))"
      and c: "config w1 = (if startsWith doc ''<svg'' then (config ?w)\<lparr> svgCode := Some doc \<rparr>
                           else config ?w)"
      using directThen_ready [OF ss ps, of ?w] by blast
    have "directAttempt env url 1 ?w = Some w1"
      using ft w1 by (simp add: directAttempt_def)
    then have "fetchSvgDirect env url 1 ?w = ([], w1)"
      by (rule direct_settles)
    then have "fetchSvgFromUrl env url 1 w = ([], Some w1)"
      using nc by (simp add: fetchSvgFromUrl_def)
    then show ?thesis
      using r c by (simp add: config_beginLoading)
  qed
  have forecast: "\<exists>w'. fetchSvgFromUrl env url 1 w = ([], Some w')
           \<and> ready (state w') doc (outerHTML env (sanitizeSvg (overallBackground (config w)) svg))
           \<and> svgCode (config w') = Some doc"
    if co: "extractCoordinates (urlPathname env) url = Some coords"
      and fj: "fetchJson env coords 1 = Some data"
      and tf: "transformForecast (isoNow env) data = Some payload"
      and gen: "generateForecastSvg env (config w) payload = Returned doc"
      and ps: "parseSvg env doc = Some svg"
  proof -
    let ?w = "beginLoading 1 w"
    have gen': "generateForecastSvg env (config ?w) payload = Returned doc"
      using gen by (simp add: config_beginLoading)
    obtain w1 where w1: "forecastThen env data ?w = Returned w1"
      and r: "ready (state w1) doc (outerHTML env (sanitizeSvg (overallBackground (config ?w)) svg))"
      and c: "config w1 = (config ?w)\<lparr> svgCode := Some doc \<rparr>"
      using forecastThen_ready [OF tf gen' ps] by blast
    have "forecastAttempt env coords 1 ?w = Returned w1"
      using fj w1 by (simp add: forecastAttempt_def)
    then have "fetchFromForecastApi env url coords 1 ?w = ([], Some w1)"
      by (rule forecast_settles)
    then have "fetchSvgFromUrl env url 1 w = ([], Some w1)"
      using co by (simp add: fetchSvgFromUrl_def)
    then show ?thesis
      using r c by (simp add: config_beginLoading)
  qed
  have runtime: "\<exists>w'. fetchSvgFromUrlRuntime env url 1 wr = ([], w')
           \<and> ready (state w') doc (outerHTML env (sanitizeSvg (overallBackground (config wr)) svg))
           \<and> svgCode (config w') = (if startsWith doc ''<svg'' then Some doc else svgCode (config wr))"
    if ft: "fetchText env url 1 = Some text"
      and ss: "svgStringOf env text = Some doc" and ps: "parseSvg env doc = Some svg"
  proof -
    let ?w = "beginLoadingRuntime 1 wr"
    obtain w1 where w1: "runtimeThen env text ?w = Some w1"
      and r: "ready (state w1) doc (outerHTML env (sanitizeSvg (overallBackground (config ?w)) svg))"
      and c: "config w1 = (if startsWith doc ''<svg'' then (config ?w)\<lparr> svgCode := Some doc \<rparr>
                           else config ?w)"
      using runtimeThen_ready [OF ss ps, of ?w] by blast
    have "runtimeAttempt env url 1 ?w = Some w1"
      using ft w1 by (simp add: runtimeAttempt_def)
    then have "fetchSvgFromUrlRuntime env url 1 wr = ([], w1)"
      by (rule runtime_settles)
    then show ?thesis
      using r c by (simp add: config_beginLoadingRuntime)
  qed
  have h1: "directThen env text w = Some w1 \<longrightarrow>
      (\<exists>doc. svgStringOf env text = Some doc
         \<and> state w1 = processSvg env (config w) doc (state w)
         \<and> config w1 = (if startsWith doc ''<svg'' then (config w)\<lparr> svgCode := Some doc \<rparr>
                         else config w))"
    using directThen_Some [of env "text" w w1] by (rule impI)
  have h2: "runtimeThen env text wr = Some wr1 \<longrightarrow>
      (\<exists>doc. svgStringOf env text = Some doc
         \<and> state wr1 = processSvgRuntime env (config wr) doc (state wr)
         \<and> config wr1 = (if startsWith doc ''<svg'' then (config wr)\<lparr> svgCode := Some doc \<rparr>
                          else config wr))"
    using runtimeThen_Some [of env "text" wr wr1] by (rule impI)
  have h3: "forecastThen env data w = Returned w1 \<longrightarrow>
      (\<exists>payload doc. transformForecast (isoNow env) data = Some payload
         \<and> generateForecastSvg env (config w) payload = Returned doc
         \<and> state w1 = processSvg env (config w) doc (state w)
         \<and> config w1 = (config w)\<lparr> svgCode := Some doc \<rparr>)"
    using forecastThen_Returned [of env data w w1] by (rule impI)
  have h4: "extractCoordinates (urlPathname env) url = None \<and> fetchText env url 1 = Some text
        \<and> svgStringOf env text = Some doc \<and> parseSvg env doc = Some svg \<longrightarrow>
        (\<exists>w'. fetchSvgFromUrl env url 1 w = ([], Some w')
           \<and> ready (state w') doc (outerHTML env (sanitizeSvg (overallBackground (config w)) svg))
           \<and> svgCode (config w') = (if startsWith doc ''<svg'' then Some doc else svgCode (config w)))"
    using direct by blast
  have h5: "extractCoordinates (urlPathname env) url = Some coords \<and> fetchJson env coords 1 = Some data
        \<and> transformForecast (isoNow env) data = Some payload
        \<and> generateForecastSvg env (config w) payload = Returned doc
        \<and> parseSvg env doc = Some svg \<longrightarrow>
        (\<exists>w'. fetchSvgFromUrl env url 1 w = ([], Some w')
           \<and> ready (state w') doc (outerHTML env (sanitizeSvg (overallBackground (config w)) svg))
           \<and> svgCode (config w') = Some doc)"
    using forecast by blast
  have h6: "fetchText env url 1 = Some text \<and> svgStringOf env text = Some doc
        \<and> parseSvg env doc = Some svg \<longrightarrow>
        (\<exists>w'. fetchSvgFromUrlRuntime env url 1 wr = ([], w')
           \<and> ready (state w') doc (outerHTML env (sanitizeSvg (overallBackground (config wr)) svg))
           \<and> svgCode (config w') = (if startsWith doc ''<svg'' then Some doc else svgCode (config wr)))"
    using runtime by blast
  show ?thesis
    by (intro conjI h1 h2 h3 h4 h5 h6)
qed

text \<open>
  On the direct path a document that starts with an XML declaration is displayed and
  not written into the configuration.
\<close>

theorem persist_xml_document_counterexample:
  "fst (fetchSvgFromUrl (exampleEnv exampleTable (always exampleXmlSvg) never) ''https://x/y/z'' 1
          exampleWidget) = []
   \<and> ready (state (the (snd (fetchSvgFromUrl (exampleEnv exampleTable (always exampleXmlSvg) never)
                               ''https://x/y/z'' 1 exampleWidget))))
        exampleXmlSvg (exampleMarkup (sanitizeSvg ''#102030'' exampleChart))
   \<and> svgCode (config (the (snd (fetchSvgFromUrl (exampleEnv exampleTable (always exampleXmlSvg) never)
                                   ''https://x/y/z'' 1 exampleWidget)))) = None"
proof -
  let ?E = "exampleEnv exampleTable (always exampleXmlSvg) never"
  let ?w = "beginLoading 1 exampleWidget"
  have ss: "svgStringOf ?E exampleXmlSvg = Some exampleXmlSvg"
    by (rule example_svgStringOf)
  have ps: "parseSvg ?E exampleXmlSvg = Some exampleChart"
    by (simp add: example_fields example_parse)
  obtain w1 where w1: "directThen ?E exampleXmlSvg ?w = Some w1"
    and r: "ready (state w1) exampleXmlSvg
              (outerHTML ?E (sanitizeSvg (overallBackground (config ?w)) exampleChart))"
    and c: "config w1 = (if startsWith exampleXmlSvg ''<svg''
                         then (config ?w)\<lparr> svgCode := Some exampleXmlSvg \<rparr> else config ?w)"
    using directThen_ready [OF ss ps, of ?w] by blast
  have "directAttempt ?E ''https://x/y/z'' 1 ?w = Some w1"
    using w1 by (simp add: directAttempt_def example_fields always_simps)
  then have "fetchSvgDirect ?E ''https://x/y/z'' 1 ?w = ([], w1)"
    by (rule direct_settles)
  then have got: "fetchSvgFromUrl ?E ''https://x/y/z'' 1 exampleWidget = ([], Some w1)"
    by (simp add: fetchSvgFromUrl_def example_coords)
  show ?thesis
    unfolding got using r c
    by (simp add: example_startsWith example_fields config_beginLoading exampleWidget_def
        exampleConfig_def)
qed

theorem persist_on_success_witness:
  "directThen (exampleEnv exampleTable (always examplePlainSvg) never) examplePlainSvg exampleWidget
     = Some \<lparr> state = processSvg (exampleEnv exampleTable (always examplePlainSvg) never) exampleConfig
                          examplePlainSvg initialState,
               config = exampleConfig\<lparr> svgCode := Some examplePlainSvg \<rparr> \<rparr>
   \<and> startsWith examplePlainSvg ''<svg''
   \<and> runtimeThen (exampleEnv exampleTable (always examplePlainSvg) never) examplePlainSvg
         exampleRuntimeWidget
     = Some \<lparr> state = processSvgRuntime (exampleEnv exampleTable (always examplePlainSvg) never)
                          exampleConfig examplePlainSvg initialRuntimeState,
               config = exampleConfig\<lparr> svgCode := Some examplePlainSvg \<rparr> \<rparr>
   \<and> forecastThen (exampleEnv exampleTable never (always exampleForecast)) exampleForecast exampleWidget
     = Returned \<lparr> state = processSvg (exampleEnv exampleTable never (always exampleForecast)) exampleConfig
                          exampleForecastSvg initialState,
               config = exampleConfig\<lparr> svgCode := Some exampleForecastSvg \<rparr> \<rparr>
   \<and> generateForecastSvg (exampleEnv exampleTable never (always exampleForecast)) exampleConfig
        examplePayload = Returned exampleForecastSvg
   \<and> svgCode (config (the (snd (fetchSvgFromUrl (exampleEnv exampleTable (always examplePlainSvg) never)
                                   ''https://x/y/z'' 1 exampleWidget)))) = Some examplePlainSvg
   \<and> svgCode (config (the (snd (fetchSvgFromUrl (exampleEnv exampleTable never (always exampleForecast))
                                   ''https://x/y/60.10,10.75/z'' 1 exampleWidget))))
       = Some exampleForecastSvg
   \<and> svgCode (config (snd (fetchSvgFromUrlRuntime (exampleEnv exampleTable (always examplePlainSvg) never)
                              ''https://x/y/z'' 1 exampleRuntimeWidget))) = Some examplePlainSvg
   \<and> (\<exists>doc. svgStringOf (exampleEnv exampleTable (always examplePlainSvg) never) examplePlainSvg = Some doc
         \<and> exampleConfig\<lparr> svgCode := Some examplePlainSvg \<rparr>
             = (if startsWith doc ''<svg'' then exampleConfig\<lparr> svgCode := Some doc \<rparr> else exampleConfig))
   \<and> (\<exists>payload doc.
         transformForecast (isoNow (exampleEnv exampleTable never (always exampleForecast))) exampleForecast
           = Some payload
         \<and> generateForecastSvg (exampleEnv exampleTable never (always exampleForecast)) exampleConfig
              payload = Returned doc
         \<and> exampleConfig\<lparr> svgCode := Some exampleForecastSvg \<rparr> = exampleConfig\<lparr> svgCode := Some doc \<rparr>)"
proof -
  let ?D = "exampleEnv exampleTable (always examplePlainSvg) never"
  let ?F = "exampleEnv exampleTable never (always exampleForecast)"
  let ?u = "''https://x/y/z''"
  let ?v = "''https://x/y/60.10,10.75/z''"
  let ?c = "\<lparr> lat = 60.10, lon = 10.75 \<rparr>"
  let ?w1 = "\<lparr> state = processSvg ?D exampleConfig examplePlainSvg initialState,
               config = exampleConfig\<lparr> svgCode := Some examplePlainSvg \<rparr> \<rparr>"
  let ?w2 = "\<lparr> state = processSvgRuntime ?D exampleConfig examplePlainSvg initialRuntimeState,
               config = exampleConfig\<lparr> svgCode := Some examplePlainSvg \<rparr> \<rparr>"
  let ?w3 = "\<lparr> state = processSvg ?F exampleConfig exampleForecastSvg initialState,
               config = exampleConfig\<lparr> svgCode := Some exampleForecastSvg \<rparr> \<rparr>"
  note persist = persist_on_success
  have sw: "startsWith examplePlainSvg ''<svg''"
    by (rule example_startsWith)
  have h1: "directThen ?D examplePlainSvg exampleWidget = Some ?w1"
    by (simp add: directThen_def example_svgStringOf example_startsWith persistSvg_def
        exampleWidget_def)
  have h2: "runtimeThen ?D examplePlainSvg exampleRuntimeWidget = Some ?w2"
    by (simp add: runtimeThen_def example_svgStringOf example_startsWith persistSvg_def
        exampleRuntimeWidget_def)
  have gen: "generateForecastSvg ?F exampleConfig examplePayload = Returned exampleForecastSvg"
    by (rule example_generate)
  have h3: "forecastThen ?F exampleForecast exampleWidget = Returned ?w3"
    using transformForecast_nonempty [OF example_transform [of exampleTable never "always exampleForecast"]]
    by (simp add: forecastThen_def example_transform example_generate persistSvg_def
        exampleWidget_def)
  have nc: "extractCoordinates (urlPathname ?D) ?u = None"
    by (rule example_coords)
  have co: "extractCoordinates (urlPathname ?F) ?v = Some ?c"
    by (rule example_coords)
  have ft: "fetchText ?D ?u 1 = Some examplePlainSvg"
    by (simp add: example_fields always_simps)
  have fj: "fetchJson ?F ?c 1 = Some exampleForecast"
    by (simp add: example_fields always_simps)
  have ss: "svgStringOf ?D examplePlainSvg = Some examplePlainSvg"
    by (rule example_svgStringOf)
  have ps: "parseSvg ?D examplePlainSvg = Some exampleChart"
    by (simp add: example_fields example_parse)
  have tf: "transformForecast (isoNow ?F) exampleForecast = Some examplePayload"
    by (rule example_transform)
  have gw: "generateForecastSvg ?F (config exampleWidget) examplePayload = Returned exampleForecastSvg"
    by (rule example_generate)
  have pf: "parseSvg ?F exampleForecastSvg = Some exampleChart"
    by (simp add: example_fields example_parse)
  have c1: "\<exists>doc. svgStringOf ?D examplePlainSvg = Some doc
         \<and> state ?w1 = processSvg ?D (config exampleWidget) doc (state exampleWidget)
         \<and> config ?w1 = (if startsWith doc ''<svg'' then (config exampleWidget)\<lparr> svgCode := Some doc \<rparr>
                          else config exampleWidget)"
    using persist [of ?D examplePlainSvg exampleWidget ?w1, THEN conjunct1] h1 by simp
  have c3: "\<exists>payload doc. transformForecast (isoNow ?F) exampleForecast = Some payload
         \<and> generateForecastSvg ?F (config exampleWidget) payload = Returned doc
         \<and> state ?w3 = processSvg ?F (config exampleWidget) doc (state exampleWidget)
         \<and> config ?w3 = (config exampleWidget)\<lparr> svgCode := Some doc \<rparr>"
    using persist [of ?F _ exampleWidget ?w3 _ _ exampleForecast, THEN pick3] h3 by simp
  have "\<exists>w'. fetchSvgFromUrl ?D ?u 1 exampleWidget = ([], Some w')
           \<and> ready (state w') examplePlainSvg
               (outerHTML ?D (sanitizeSvg (overallBackground (config exampleWidget)) exampleChart))
           \<and> svgCode (config w')
               = (if startsWith examplePlainSvg ''<svg'' then Some examplePlainSvg
                  else svgCode (config exampleWidget))"
    using persist [of ?D examplePlainSvg exampleWidget _ _ _ _ ?u examplePlainSvg exampleChart,
        THEN pick4] nc ft ss ps by simp
  then obtain wd where wd: "fetchSvgFromUrl ?D ?u 1 exampleWidget = ([], Some wd)"
    and cd: "svgCode (config wd) = (if startsWith examplePlainSvg ''<svg'' then Some examplePlainSvg
                                    else svgCode (config exampleWidget))"
    by blast
  have k4: "svgCode (config (the (snd (fetchSvgFromUrl ?D ?u 1 exampleWidget)))) = Some examplePlainSvg"
    unfolding wd using cd sw by simp
  have "\<exists>w'. fetchSvgFromUrl ?F ?v 1 exampleWidget = ([], Some w')
           \<and> ready (state w') exampleForecastSvg
               (outerHTML ?F (sanitizeSvg (overallBackground (config exampleWidget)) exampleChart))
           \<and> svgCode (config w') = Some exampleForecastSvg"
    using persist [of ?F _ exampleWidget _ _ _ exampleForecast ?v exampleForecastSvg exampleChart ?c
        examplePayload, THEN pick5] co fj tf gw pf by simp
  then obtain wf where wf: "fetchSvgFromUrl ?F ?v 1 exampleWidget = ([], Some wf)"
    and cf: "svgCode (config wf) = Some exampleForecastSvg"
    by blast
  have k5: "svgCode (config (the (snd (fetchSvgFromUrl ?F ?v 1 exampleWidget)))) = Some exampleForecastSvg"
    unfolding wf using cf by simp
  have "\<exists>w'. fetchSvgFromUrlRuntime ?D ?u 1 exampleRuntimeWidget = ([], w')
           \<and> ready (state w') examplePlainSvg
               (outerHTML ?D (sanitizeSvg (overallBackground (config exampleRuntimeWidget)) exampleChart))
           \<and> svgCode (config w')
               = (if startsWith examplePlainSvg ''<svg'' then Some examplePlainSvg
                  else svgCode (config exampleRuntimeWidget))"
    using persist [of ?D examplePlainSvg _ _ exampleRuntimeWidget _ _ ?u examplePlainSvg exampleChart]
      ft ss ps by simp
  then obtain wr where wr: "fetchSvgFromUrlRuntime ?D ?u 1 exampleRuntimeWidget = ([], wr)"
    and cr: "svgCode (config wr) = (if startsWith examplePlainSvg ''<svg'' then Some examplePlainSvg
                                    else svgCode (config exampleRuntimeWidget))"
    by blast
  have k6: "svgCode (config (snd (fetchSvgFromUrlRuntime ?D ?u 1 exampleRuntimeWidget)))
      = Some examplePlainSvg"
    unfolding wr using cr sw by simp
  have k7: "\<exists>doc. svgStringOf ?D examplePlainSvg = Some doc
         \<and> exampleConfig\<lparr> svgCode := Some examplePlainSvg \<rparr>
             = (if startsWith doc ''<svg'' then exampleConfig\<lparr> svgCode := Some doc \<rparr> else exampleConfig)"
    using c1 by (auto simp: exampleWidget_def)
  have k8: "\<exists>payload doc. transformForecast (isoNow ?F) exampleForecast = Some payload
         \<and> generateForecastSvg ?F exampleConfig payload = Returned doc
         \<and> exampleConfig\<lparr> svgCode := Some exampleForecastSvg \<rparr> = exampleConfig\<lparr> svgCode := Some doc \<rparr>"
    using c3 by (auto simp: exampleWidget_def)
  show ?thesis
    by (intro conjI h1 sw h2 h3 gen k4 k5 k6 k7 k8)
qed

section \<open>The last failure and the retained document\<close>

lemma processSvg_ready_document: "ready (processSvg env cfg d st) doc html \<Longrightarrow> d = doc"
  by (simp add: processSvg_def ready_def split: option.splits)

lemma declaration_unusable:
  assumes "startsWith doc ''<?xml''"
  shows "doc \<noteq> [] \<and> \<not> usableFallback (Some doc)"
proof -
  have t: "take (length ''<?xml'') doc = ''<?xml''"
    using assms by (simp add: startsWith_def)
  have "take (length ''<?xml'') doc @ drop (length ''<?xml'') doc = doc"
    by (rule append_take_drop_id)
  then have doc: "doc = ''<?xml'' @ drop (length ''<?xml'') doc"
    unfolding t by (rule sym)
  have "take (length ''<?xml'') (trim (''<?xml'' @ drop (length ''<?xml'') doc)) = ''<?xml''"
    by (rule trim_prefix) (simp_all add: isSpace_def)
  then have "take (length ''<?xml'') (trim doc) = ''<?xml''"
    using doc by simp
  then have "take (length ''<svg'') (take (length ''<?xml'') (trim doc)) = take (length ''<svg'') ''<?xml''"
    by (rule arg_cong)
  then have "take (length ''<svg'') (trim doc) = ''<?xm''"
    by simp
  then have "\<not> startsWith (trim doc) ''<svg''"
    by (simp add: startsWith_def)
  moreover have "doc \<noteq> []"
    using t by auto
  ultimately show ?thesis
    by (simp add: usableFallback_Some)
qed

lemma ready_fallback:
  assumes "ready st doc html" and "doc \<noteq> []"
  shows "fallbackOf st cfg = Some doc"
  using assms by (simp add: ready_def fallbackOf_def)

lemma forecast_retained:
  assumes a: "forecastThen env data w = Returned w1" and r: "ready (state w1) doc html"
  shows "startsWith doc ''<?xml'' \<and> svgCode (config w1) = Some doc"
proof -
  obtain payload d where g: "generateForecastSvg env (config w) payload = Returned d"
    and s: "state w1 = processSvg env (config w) d (state w)"
    and c: "config w1 = (config w)\<lparr> svgCode := Some d \<rparr>"
    using forecastThen_Returned [OF a] by blast
  have "d = doc"
    using r unfolding s by (rule processSvg_ready_document)
  then show ?thesis
    using generateForecastSvg_declaration [OF g] c by simp
qed

lemma forecast_stale_rejected:
  assumes r: "ready (state w1) doc html" and x: "startsWith doc ''<?xml''"
    and co: "extractCoordinates (urlPathname env) url = Some coords"
    and fails: "\<forall>k. 1 \<le> k \<and> k \<le> 5 \<longrightarrow> forecastAttempt env coords k (beginLoading 1 w1) = Thrown"
  shows "fetchSvgFromUrl env url 1 w1
      = ([1000, 2000, 3000, 4000],
         Some (w1\<lparr> state := (state w1)\<lparr> isLoading := False,
                                          error := Some ''Unable to load forecast data.'' \<rparr> \<rparr>))"
proof -
  let ?w = "beginLoading 1 w1"
  have fb: "fallbackOf (state ?w) (config ?w) = Some doc"
    using ready_fallback [OF r] declaration_unusable [OF x] by (simp add: fallbackOf_beginLoading)
  have un: "\<not> usableFallback (fallbackOf (state ?w) (config ?w))"
    unfolding fb using declaration_unusable [OF x] by simp
  have f5: "forecastAttempt env coords 5 ?w = Thrown"
    using fails by simp
  have five: "fetchFromForecastApi env url coords 5 ?w
      = ([], Some (?w\<lparr> state := (state ?w)\<lparr> isLoading := False,
                                              error := Some ''Unable to load forecast data.'' \<rparr> \<rparr>))"
    using forecast_gives_up [OF f5, of url] un by simp
  have "fetchFromForecastApi env url coords 1 ?w
      = ([1000, 2000, 3000, 4000],
         Some (?w\<lparr> state := (state ?w)\<lparr> isLoading := False,
                                          error := Some ''Unable to load forecast data.'' \<rparr> \<rparr>))"
    using forecast_all_fail [OF fails, of url] unfolding five by simp
  then show ?thesis
    using co by (simp add: fetchSvgFromUrl_def beginLoading_def)
qed

lemma direct_stale_rejected:
  assumes r: "ready (state w1) doc html" and x: "startsWith doc ''<?xml''"
    and nc: "extractCoordinates (urlPathname env) url = None"
    and fails: "\<forall>k. 1 \<le> k \<and> k \<le> 5 \<longrightarrow> directAttempt env url k (beginLoading 1 w1) = None"
  shows "fetchSvgFromUrl env url 1 w1
      = ([1000, 2000, 3000, 4000],
         Some (w1\<lparr> state := (state w1)\<lparr> isLoading := False,
                                          error := Some ''Unable to load meteogram from source.'' \<rparr> \<rparr>))"
proof -
  let ?w = "beginLoading 1 w1"
  have fb: "fallbackOf (state ?w) (config ?w) = Some doc"
    using ready_fallback [OF r] declaration_unusable [OF x] by (simp add: fallbackOf_beginLoading)
  have un: "\<not> usableFallback (fallbackOf (state ?w) (config ?w))"
    unfolding fb using declaration_unusable [OF x] by simp
  have f5: "directAttempt env url 5 ?w = None"
    using fails by simp
  have five: "fetchSvgDirect env url 5 ?w
      = ([], ?w\<lparr> state := (state ?w)\<lparr> isLoading := False,
                                        error := Some ''Unable to load meteogram from source.'' \<rparr> \<rparr>)"
    using direct_gives_up [OF f5] un by simp
  have "fetchSvgDirect env url 1 ?w
      = ([1000, 2000, 3000, 4000],
         ?w\<lparr> state := (state ?w)\<lparr> isLoading := False,
                                    error := Some ''Unable to load meteogram from source.'' \<rparr> \<rparr>)"
    using direct_all_fail [OF fails] unfolding five by simp
  then show ?thesis
    using nc by (simp add: fetchSvgFromUrl_def beginLoading_def)
qed

lemma runtime_stale_rejected:
  assumes r: "ready (state wr1) doc html" and x: "startsWith doc ''<?xml''"
    and fails: "\<forall>k. 1 \<le> k \<and> k \<le> 5 \<longrightarrow> runtimeAttempt env url k (beginLoadingRuntime 1 wr1) = None"
  shows "fetchSvgFromUrlRuntime env url 1 wr1
      = ([1000, 2000, 3000, 4000],
         wr1\<lparr> state := (state wr1)\<lparr> isLoading := False, error := None, displayMode := External,
                                     externalUrl := Some (requestUrl env url) \<rparr> \<rparr>)"
proof -
  let ?w = "beginLoadingRuntime 1 wr1"
  have fb: "fallbackOf (state ?w) (config ?w) = Some doc"
    using ready_fallback [OF r] declaration_unusable [OF x]
    by (simp add: fallbackOf_beginLoadingRuntime)
  have un: "\<not> usableFallback (fallbackOf (state ?w) (config ?w))"
    unfolding fb using declaration_unusable [OF x] by simp
  have f5: "runtimeAttempt env url 5 (beginLoadingRuntime 5 ?w) = None"
    using fails by (simp add: beginLoadingRuntime_later)
  have five: "fetchSvgFromUrlRuntime env url 5 ?w
      = ([], ?w\<lparr> state := (state ?w)\<lparr> isLoading := False, error := None, displayMode := External,
                                        externalUrl := Some (requestUrl env url) \<rparr> \<rparr>)"
    using runtime_gives_up [OF f5] un by (simp add: beginLoadingRuntime_later)
  have "fetchSvgFromUrlRuntime env url 1 wr1
      = ([1000, 2000, 3000, 4000],
         ?w\<lparr> state := (state ?w)\<lparr> isLoading := False, error := None, displayMode := External,
                                    externalUrl := Some (requestUrl env url) \<rparr> \<rparr>)"
    using runtime_all_fail [OF fails] unfolding five by simp
  then show ?thesis
    by (simp add: beginLoadingRuntime_def)
qed

text \<open>
  What the last failure does with a fallback that passes its test: the document is
  displayed. The fallback is \<open>state.rawSvg\<close> when that is not empty and else
  \<open>config.svgCode\<close>; it passes when it is not empty and starts with \<open><svg\<close> once trimmed.
\<close>

lemma direct_last_failure:
  assumes "directAttempt env url 5 w = None" and "fallbackOf (state w) (config w) = Some doc"
    and "doc \<noteq> []" and "startsWith (trim doc) ''<svg''" and "parseSvg env doc = Some svg"
  shows "fst (fetchSvgDirect env url 5 w) = []
       \<and> ready (state (snd (fetchSvgDirect env url 5 w))) doc
           (outerHTML env (sanitizeSvg (overallBackground (config w)) svg))"
  using assms direct_gives_up [of env url 5 w]
  by (simp add: usableFallback_Some processSvg_ready)

lemma forecast_last_failure:
  assumes "forecastAttempt env coords 5 w = Thrown" and "fallbackOf (state w) (config w) = Some doc"
    and "doc \<noteq> []" and "startsWith (trim doc) ''<svg''" and "parseSvg env doc = Some svg"
  shows "\<exists>w'. fetchFromForecastApi env url coords 5 w = ([], Some w')
       \<and> ready (state w') doc (outerHTML env (sanitizeSvg (overallBackground (config w)) svg))"
  using assms forecast_gives_up [of env coords 5 w url]
  by (simp add: usableFallback_Some processSvg_ready)

lemma runtime_last_failure:
  assumes "runtimeAttempt env url 5 w = None" and "fallbackOf (state w) (config w) = Some doc"
    and "doc \<noteq> []" and "startsWith (trim doc) ''<svg''" and "parseSvg env doc = Some svg"
  shows "fst (fetchSvgFromUrlRuntime env url 5 w) = []
       \<and> ready (state (snd (fetchSvgFromUrlRuntime env url 5 w))) doc
           (outerHTML env (sanitizeSvg (overallBackground (config w)) svg))
       \<and> displayMode (state (snd (fetchSvgFromUrlRuntime env url 5 w))) = Inline"
  using assms runtime_gives_up [of env url 5 w]
  by (simp add: usableFallback_Some processSvgRuntime_ready beginLoadingRuntime_later)

text \<open>
  Claim C1, as the code has it. The claim fails for the documents the component itself
  retains with an XML declaration. Every document \<open>generateForecastSvg\<close> returns starts
  with \<open><?xml\<close>, and the forecast path displays it, stores it as \<open>rawSvg\<close> and writes it
  into \<open>config.svgCode\<close>; the handlers of the direct path display and store a response
  that starts with \<open><?xml\<close>. Such a document is the fallback of the next acquisition and
  does not pass its test, which asks for \<open><svg\<close>: when all five attempts fail, the
  forecast and the direct path end with their error message, \<open>runtime/widget.tsx\<close> with
  the external display, each after the delays 1000, 2000, 3000, 4000 and with the
  document still in \<open>rawSvg\<close>.
\<close>

theorem stale_document_rejected:
  "(generateForecastSvg env cfg payload = Returned doc \<longrightarrow> startsWith doc ''<?xml'')
   \<and> (forecastThen env data w = Returned w1 \<and> ready (state w1) doc html \<longrightarrow>
        startsWith doc ''<?xml'' \<and> svgCode (config w1) = Some doc)
   \<and> (svgStringOf env text = Some doc \<and> startsWith doc ''<?xml'' \<and> parseSvg env doc = Some svg \<longrightarrow>
        (\<exists>w'. directThen env text w = Some w'
           \<and> ready (state w') doc (outerHTML env (sanitizeSvg (overallBackground (config w)) svg)))
        \<and> (\<exists>w'. runtimeThen env text wr = Some w'
           \<and> ready (state w') doc (outerHTML env (sanitizeSvg (overallBackground (config wr)) svg))))
   \<and> (ready (state w1) doc html \<and> startsWith doc ''<?xml'' \<longrightarrow>
        fallbackOf (state w1) (config w1) = Some doc \<and> \<not> usableFallback (Some doc))
   \<and> (ready (state w1) doc html \<and> startsWith doc ''<?xml''
        \<and> extractCoordinates (urlPathname env) url = Some coords
        \<and> (\<forall>k. 1 \<le> k \<and> k \<le> 5 \<longrightarrow> forecastAttempt env coords k (beginLoading 1 w1) = Thrown) \<longrightarrow>
        fetchSvgFromUrl env url 1 w1
          = ([1000, 2000, 3000, 4000],
             Some (w1\<lparr> state := (state w1)\<lparr> isLoading := False,
                                              error := Some ''Unable to load forecast data.'' \<rparr> \<rparr>)))
   \<and> (ready (state w1) doc html \<and> startsWith doc ''<?xml''
        \<and> extractCoordinates (urlPathname env) url = None
        \<and> (\<forall>k. 1 \<le> k \<and> k \<le> 5 \<longrightarrow> directAttempt env url k (beginLoading 1 w1) = None) \<longrightarrow>
        fetchSvgFromUrl env url 1 w1
          = ([1000, 2000, 3000, 4000],
             Some (w1\<lparr> state := (state w1)\<lparr> isLoading := False,
                                              error := Some ''Unable to load meteogram from source.'' \<rparr> \<rparr>)))
   \<and> (ready (state wr1) doc html \<and> startsWith doc ''<?xml''
        \<and> (\<forall>k. 1 \<le> k \<and> k \<le> 5 \<longrightarrow> runtimeAttempt env url k (beginLoadingRuntime 1 wr1) = None) \<longrightarrow>
        fetchSvgFromUrlRuntime env url 1 wr1
          = ([1000, 2000, 3000, 4000],
             wr1\<lparr> state := (state wr1)\<lparr> isLoading := False, error := None, displayMode := External,
                                         externalUrl := Some (requestUrl env url) \<rparr> \<rparr>))"
proof -
  have h1: "generateForecastSvg env cfg payload = Returned doc \<longrightarrow> startsWith doc ''<?xml''"
    using generateForecastSvg_declaration [of env cfg payload doc] by blast
  have h2: "forecastThen env data w = Returned w1 \<and> ready (state w1) doc html \<longrightarrow>
        startsWith doc ''<?xml'' \<and> svgCode (config w1) = Some doc"
    using forecast_retained [of env data w w1 doc html] by blast
  have h3: "svgStringOf env text = Some doc \<and> startsWith doc ''<?xml'' \<and> parseSvg env doc = Some svg \<longrightarrow>
        (\<exists>w'. directThen env text w = Some w'
           \<and> ready (state w') doc (outerHTML env (sanitizeSvg (overallBackground (config w)) svg)))
        \<and> (\<exists>w'. runtimeThen env text wr = Some w'
           \<and> ready (state w') doc (outerHTML env (sanitizeSvg (overallBackground (config wr)) svg)))"
    using directThen_ready [of env "text" doc svg w] runtimeThen_ready [of env "text" doc svg wr]
    by blast
  have h4: "ready (state w1) doc html \<and> startsWith doc ''<?xml'' \<longrightarrow>
        fallbackOf (state w1) (config w1) = Some doc \<and> \<not> usableFallback (Some doc)"
    using ready_fallback [of "state w1" doc html "config w1"] declaration_unusable [of doc] by blast
  have h5: "ready (state w1) doc html \<and> startsWith doc ''<?xml''
        \<and> extractCoordinates (urlPathname env) url = Some coords
        \<and> (\<forall>k. 1 \<le> k \<and> k \<le> 5 \<longrightarrow> forecastAttempt env coords k (beginLoading 1 w1) = Thrown) \<longrightarrow>
        fetchSvgFromUrl env url 1 w1
          = ([1000, 2000, 3000, 4000],
             Some (w1\<lparr> state := (state w1)\<lparr> isLoading := False,
                                              error := Some ''Unable to load forecast data.'' \<rparr> \<rparr>))"
    using forecast_stale_rejected [of w1 doc html env url coords] by blast
  have h6: "ready (state w1) doc html \<and> startsWith doc ''<?xml''
        \<and> extractCoordinates (urlPathname env) url = None
        \<and> (\<forall>k. 1 \<le> k \<and> k \<le> 5 \<longrightarrow> directAttempt env url k (beginLoading 1 w1) = None) \<longrightarrow>
        fetchSvgFromUrl env url 1 w1
          = ([1000, 2000, 3000, 4000],
             Some (w1\<lparr> state := (state w1)\<lparr> isLoading := False,
                                              error := Some ''Unable to load meteogram from source.'' \<rparr> \<rparr>))"
    using direct_stale_rejected [of w1 doc html env url] by blast
  have h7: "ready (state wr1) doc html \<and> startsWith doc ''<?xml''
        \<and> (\<forall>k. 1 \<le> k \<and> k \<le> 5 \<longrightarrow> runtimeAttempt env url k (beginLoadingRuntime 1 wr1) = None) \<longrightarrow>
        fetchSvgFromUrlRuntime env url 1 wr1
          = ([1000, 2000, 3000, 4000],
             wr1\<lparr> state := (state wr1)\<lparr> isLoading := False, error := None, displayMode := External,
                                         externalUrl := Some (requestUrl env url) \<rparr> \<rparr>)"
    using runtime_stale_rejected [of wr1 doc html env url] by blast
  show ?thesis
    by (intro conjI h1 h2 h3 h4 h5 h6 h7)
qed

theorem stale_document_rejected_witness:
  "fetchSvgFromUrl (exampleEnv exampleTable never (always exampleForecast)) ''https://x/y/60.10,10.75/z''
       1 exampleWidget = ([], Some retainedForecastWidget)
   \<and> ready (state retainedForecastWidget) exampleForecastSvg
        (exampleMarkup (sanitizeSvg ''#102030'' exampleChart))
   \<and> startsWith exampleForecastSvg ''<?xml''
   \<and> svgCode (config retainedForecastWidget) = Some exampleForecastSvg
   \<and> fallbackOf (state retainedForecastWidget) (config retainedForecastWidget) = Some exampleForecastSvg
   \<and> \<not> usableFallback (Some exampleForecastSvg)
   \<and> fetchSvgFromUrl (exampleEnv exampleTable never never) ''https://x/y/60.10,10.75/z'' 1
        retainedForecastWidget
       = ([1000, 2000, 3000, 4000],
          Some \<lparr> state = \<lparr> svgHtml = Some (exampleMarkup (sanitizeSvg ''#102030'' exampleChart)),
                           isLoading = False, error = Some ''Unable to load forecast data.'',
                           rawSvg = Some exampleForecastSvg, expanded = False \<rparr>,
                 config = exampleConfig\<lparr> svgCode := Some exampleForecastSvg \<rparr> \<rparr>)
   \<and> fetchSvgFromUrl (exampleEnv exampleTable (always exampleXmlSvg) never) ''https://x/y/z'' 1
        exampleWidget = ([], Some retainedXmlWidget)
   \<and> fetchSvgFromUrl (exampleEnv exampleTable never never) ''https://x/y/z'' 1 retainedXmlWidget
       = ([1000, 2000, 3000, 4000],
          Some \<lparr> state = \<lparr> svgHtml = Some (exampleMarkup (sanitizeSvg ''#102030'' exampleChart)),
                           isLoading = False, error = Some ''Unable to load meteogram from source.'',
                           rawSvg = Some exampleXmlSvg, expanded = False \<rparr>,
                 config = exampleConfig \<rparr>)
   \<and> fetchSvgFromUrlRuntime (exampleEnv exampleTable (always exampleXmlSvg) never) ''https://x/y/z'' 1
        exampleRuntimeWidget = ([], retainedXmlRuntimeWidget)
   \<and> fetchSvgFromUrlRuntime (exampleEnv exampleTable never never) ''https://x/y/z'' 1
        retainedXmlRuntimeWidget
       = ([1000, 2000, 3000, 4000],
          \<lparr> state = \<lparr> svgHtml = Some (exampleMarkup (sanitizeSvg ''#102030'' exampleChart)),
                      isLoading = False, error = None, rawSvg = Some exampleXmlSvg,
                      expanded = False, displayMode = External,
                      externalUrl = Some ''https://x/y/z?nocache=1714543200000'' \<rparr>,
            config = exampleConfig \<rparr>)"
proof -
  let ?ok = "exampleEnv exampleTable never (always exampleForecast)"
  let ?okx = "exampleEnv exampleTable (always exampleXmlSvg) never"
  let ?ko = "exampleEnv exampleTable never never"
  let ?u = "''https://x/y/z''"
  let ?v = "''https://x/y/60.10,10.75/z''"
  let ?c = "\<lparr> lat = 60.10, lon = 10.75 \<rparr>"
  let ?html = "exampleMarkup (sanitizeSvg ''#102030'' exampleChart)"
  note rejected = stale_document_rejected
  have ne: "points examplePayload \<noteq> []"
    by (simp add: examplePayload_def)
  have then1: "forecastThen ?ok exampleForecast (beginLoading 1 exampleWidget)
      = Returned retainedForecastWidget"
    using ne
    by (simp add: forecastThen_def example_transform example_generate persistSvg_def processSvg_def
        example_fields example_parse beginLoading_def exampleWidget_def initialState_def
        exampleConfig_def retainedForecastWidget_def)
  have "forecastAttempt ?ok ?c 1 (beginLoading 1 exampleWidget) = Returned retainedForecastWidget"
    using then1 by (simp add: forecastAttempt_def example_fields always_simps)
  then have "fetchFromForecastApi ?ok ?v ?c 1 (beginLoading 1 exampleWidget)
      = ([], Some retainedForecastWidget)"
    by (rule forecast_settles)
  then have k1: "fetchSvgFromUrl ?ok ?v 1 exampleWidget = ([], Some retainedForecastWidget)"
    by (simp add: fetchSvgFromUrl_def example_coords)
  have k2: "ready (state retainedForecastWidget) exampleForecastSvg ?html"
    by (simp add: ready_def retainedForecastWidget_def)
  have k34: "startsWith exampleForecastSvg ''<?xml''
      \<and> svgCode (config retainedForecastWidget) = Some exampleForecastSvg"
    using rejected [of ?ok _ _ exampleForecastSvg exampleForecast "beginLoading 1 exampleWidget"
        retainedForecastWidget ?html, THEN pick2] then1 k2 by simp
  have k3: "startsWith exampleForecastSvg ''<?xml''"
    using k34 by simp
  have k4: "svgCode (config retainedForecastWidget) = Some exampleForecastSvg"
    using k34 by simp
  have k56: "fallbackOf (state retainedForecastWidget) (config retainedForecastWidget)
        = Some exampleForecastSvg
      \<and> \<not> usableFallback (Some exampleForecastSvg)"
    using rejected [of _ _ _ exampleForecastSvg _ _ retainedForecastWidget ?html, THEN pick4] k2 k3
    by simp
  have k5: "fallbackOf (state retainedForecastWidget) (config retainedForecastWidget)
        = Some exampleForecastSvg"
    using k56 by simp
  have k6: "\<not> usableFallback (Some exampleForecastSvg)"
    using k56 by simp
  have co: "extractCoordinates (urlPathname ?ko) ?v = Some ?c"
    by (rule example_coords)
  have nc: "extractCoordinates (urlPathname ?ko) ?u = None"
    by (rule example_coords)
  have ff: "\<forall>k. 1 \<le> k \<and> k \<le> 5 \<longrightarrow>
      forecastAttempt ?ko ?c k (beginLoading 1 retainedForecastWidget) = Thrown"
    by (simp add: forecastAttempt_def example_fields never_simps)
  have k7: "fetchSvgFromUrl ?ko ?v 1 retainedForecastWidget
      = ([1000, 2000, 3000, 4000],
         Some \<lparr> state = \<lparr> svgHtml = Some ?html, isLoading = False,
                          error = Some ''Unable to load forecast data.'',
                          rawSvg = Some exampleForecastSvg, expanded = False \<rparr>,
                config = exampleConfig\<lparr> svgCode := Some exampleForecastSvg \<rparr> \<rparr>)"
    using rejected [of ?ko _ _ exampleForecastSvg _ _ retainedForecastWidget ?html _ _ _ ?v ?c,
        THEN pick5] k2 k3 co ff
    by (simp add: retainedForecastWidget_def)
  have x2: "ready (state retainedXmlWidget) exampleXmlSvg ?html"
    by (simp add: ready_def retainedXmlWidget_def)
  have x3: "startsWith exampleXmlSvg ''<?xml''"
    by (rule example_startsWith)
  have "directThen ?okx exampleXmlSvg (beginLoading 1 exampleWidget) = Some retainedXmlWidget"
    by (simp add: directThen_def example_svgStringOf example_startsWith processSvg_def
        example_fields example_parse beginLoading_def exampleWidget_def initialState_def
        exampleConfig_def retainedXmlWidget_def)
  then have "directAttempt ?okx ?u 1 (beginLoading 1 exampleWidget) = Some retainedXmlWidget"
    by (simp add: directAttempt_def example_fields always_simps)
  then have "fetchSvgDirect ?okx ?u 1 (beginLoading 1 exampleWidget) = ([], retainedXmlWidget)"
    by (rule direct_settles)
  then have k8: "fetchSvgFromUrl ?okx ?u 1 exampleWidget = ([], Some retainedXmlWidget)"
    by (simp add: fetchSvgFromUrl_def example_coords)
  have df: "\<forall>k. 1 \<le> k \<and> k \<le> 5 \<longrightarrow> directAttempt ?ko ?u k (beginLoading 1 retainedXmlWidget) = None"
    by (simp add: directAttempt_def example_fields never_simps)
  have k9: "fetchSvgFromUrl ?ko ?u 1 retainedXmlWidget
      = ([1000, 2000, 3000, 4000],
         Some \<lparr> state = \<lparr> svgHtml = Some ?html, isLoading = False,
                          error = Some ''Unable to load meteogram from source.'',
                          rawSvg = Some exampleXmlSvg, expanded = False \<rparr>,
                config = exampleConfig \<rparr>)"
    using rejected [of ?ko _ _ exampleXmlSvg _ _ retainedXmlWidget ?html _ _ _ ?u, THEN pick6]
      x2 x3 nc df
    by (simp add: retainedXmlWidget_def)
  have y2: "ready (state retainedXmlRuntimeWidget) exampleXmlSvg ?html"
    by (simp add: ready_def retainedXmlRuntimeWidget_def)
  have "runtimeThen ?okx exampleXmlSvg (beginLoadingRuntime 1 exampleRuntimeWidget)
      = Some retainedXmlRuntimeWidget"
    by (simp add: runtimeThen_def example_svgStringOf example_startsWith processSvgRuntime_def
        example_fields example_parse beginLoadingRuntime_def exampleRuntimeWidget_def
        initialRuntimeState_def exampleConfig_def retainedXmlRuntimeWidget_def)
  then have "runtimeAttempt ?okx ?u 1 (beginLoadingRuntime 1 exampleRuntimeWidget)
      = Some retainedXmlRuntimeWidget"
    by (simp add: runtimeAttempt_def example_fields always_simps)
  then have k10: "fetchSvgFromUrlRuntime ?okx ?u 1 exampleRuntimeWidget = ([], retainedXmlRuntimeWidget)"
    by (rule runtime_settles)
  have rf: "\<forall>k. 1 \<le> k \<and> k \<le> 5 \<longrightarrow>
      runtimeAttempt ?ko ?u k (beginLoadingRuntime 1 retainedXmlRuntimeWidget) = None"
    by (simp add: runtimeAttempt_def example_fields never_simps)
  have k11: "fetchSvgFromUrlRuntime ?ko ?u 1 retainedXmlRuntimeWidget
      = ([1000, 2000, 3000, 4000],
         \<lparr> state = \<lparr> svgHtml = Some ?html, isLoading = False, error = None,
                     rawSvg = Some exampleXmlSvg, expanded = False, displayMode = External,
                     externalUrl = Some ''https://x/y/z?nocache=1714543200000'' \<rparr>,
           config = exampleConfig \<rparr>)"
    using rejected [of ?ko _ _ exampleXmlSvg _ _ _ ?html _ _ _ ?u _ retainedXmlRuntimeWidget,
        THEN pick_last7] y2 x3 rf
    by (simp add: retainedXmlRuntimeWidget_def example_fields)
  show ?thesis
    by (intro conjI k1 k2 k3 k4 k5 k6 k7 k8 k9 k10 k11)
qed

section \<open>processSvg on a document without an svg element\<close>

text \<open>
  Claim C10. When no \<open>svg\<close> element is found in the parsed input, \<open>processSvg\<close> sets the
  error message \<open>Invalid SVG content\<close>, clears the loading flag and leaves the rest of
  the state as it was: the retained \<open>rawSvg\<close> and the displayed \<open>svgHtml\<close> stay, in both
  versions of the component.
\<close>

theorem processSvg_invalid_keeps_state:
  "(parseSvg env code = None \<longrightarrow>
      processSvg env cfg code st = st\<lparr> error := Some ''Invalid SVG content'', isLoading := False \<rparr>
      \<and> rawSvg (processSvg env cfg code st) = rawSvg st
      \<and> svgHtml (processSvg env cfg code st) = svgHtml st
      \<and> expanded (processSvg env cfg code st) = expanded st)
   \<and> (parseSvg env code = None \<longrightarrow>
      processSvgRuntime env cfg code sr = sr\<lparr> error := Some ''Invalid SVG content'', isLoading := False \<rparr>
      \<and> rawSvg (processSvgRuntime env cfg code sr) = rawSvg sr
      \<and> svgHtml (processSvgRuntime env cfg code sr) = svgHtml sr
      \<and> expanded (processSvgRuntime env cfg code sr) = expanded sr
      \<and> displayMode (processSvgRuntime env cfg code sr) = displayMode sr
      \<and> externalUrl (processSvgRuntime env cfg code sr) = externalUrl sr)"
  by (simp add: processSvg_def processSvgRuntime_def)

theorem processSvg_invalid_keeps_state_witness:
  "parseSvg (exampleEnv exampleTable never never) ''<p>no drawing</p>'' = None
   \<and> processSvg (exampleEnv exampleTable never never) exampleConfig ''<p>no drawing</p>''
        \<lparr> svgHtml = Some ''<svg/>'', isLoading = True, error = None,
          rawSvg = Some examplePlainSvg, expanded = False \<rparr>
      = \<lparr> svgHtml = Some ''<svg/>'', isLoading = False, error = Some ''Invalid SVG content'',
          rawSvg = Some examplePlainSvg, expanded = False \<rparr>
   \<and> processSvgRuntime (exampleEnv exampleTable never never) exampleConfig ''<p>no drawing</p>''
        \<lparr> svgHtml = Some ''<svg/>'', isLoading = True, error = None,
          rawSvg = Some examplePlainSvg, expanded = False,
          displayMode = External, externalUrl = Some ''https://x/y/z'' \<rparr>
      = \<lparr> svgHtml = Some ''<svg/>'', isLoading = False, error = Some ''Invalid SVG content'',
          rawSvg = Some examplePlainSvg, expanded = False,
          displayMode = External, externalUrl = Some ''https://x/y/z'' \<rparr>"
proof -
  let ?E = "exampleEnv exampleTable never never"
  have h: "parseSvg ?E ''<p>no drawing</p>'' = None"
    by (simp add: example_fields exampleTable_def exampleForecastSvg_def exampleXmlSvg_def
        examplePlainSvg_def exampleMarkup_chart)
  show ?thesis
    using h processSvg_invalid_keeps_state [of ?E "''<p>no drawing</p>''" exampleConfig
        "\<lparr> svgHtml = Some ''<svg/>'', isLoading = True, error = None,
          rawSvg = Some examplePlainSvg, expanded = False \<rparr>"
        "\<lparr> svgHtml = Some ''<svg/>'', isLoading = True, error = None,
          rawSvg = Some examplePlainSvg, expanded = False,
          displayMode = External, externalUrl = Some ''https://x/y/z'' \<rparr>"]
    by simp
qed

section \<open>Properties of the sanitizer\<close>

subsection \<open>Attributes\<close>

lemma map_of_setAttribute:
  "map_of (setAttribute ats k v) k' = (if k' = k then Some v else map_of ats k')"
  by (induction ats k v rule: setAttribute.induct) auto

lemma map_of_removeAttribute:
  "map_of (removeAttribute ats k) k' = (if k' = k then None else map_of ats k')"
  unfolding removeAttribute_def by (induction ats) auto

lemma removeAttribute_absent: "map_of ats k = None \<Longrightarrow> removeAttribute ats k = ats"
  unfolding removeAttribute_def by (induction ats) (auto split: if_splits)

lemma fixRoot_facts:
  "map_of (fixRoot ats) ''width'' = None"
  "map_of (fixRoot ats) ''height'' = None"
  "\<exists>v. map_of (fixRoot ats) ''preserveAspectRatio'' = Some v \<and> v \<noteq> []"
  unfolding fixRoot_def Let_def getAttribute_def
  by (auto simp: map_of_setAttribute map_of_removeAttribute split: option.splits)

lemma fixRoot_idem: "fixRoot (fixRoot ats) = fixRoot ats"
proof -
  let ?R = "fixRoot ats"
  obtain v where v: "map_of ?R ''preserveAspectRatio'' = Some v" "v \<noteq> []"
    using fixRoot_facts(3) by blast
  have w: "map_of ?R ''width'' = None" and h: "map_of ?R ''height'' = None"
    by (rule fixRoot_facts)+
  show ?thesis
    by (subst (1) fixRoot_def)
      (simp add: Let_def getAttribute_def hasAttribute_def w h v removeAttribute_absent)
qed


subsection \<open>Passes over the tree\<close>

lemma named_removeNamed [simp]: "named a (removeNamed b t) = named a t"
  by (cases t) simp_all

lemma named_eachElement [simp]: "named a (eachElement f t) = named a t"
  by (cases t) simp_all

lemma isElement_removeNamed [simp]: "isElement (removeNamed b t) = isElement t"
  by (cases t) simp_all

lemma isElement_eachElement [simp]: "isElement (eachElement f t) = isElement t"
  by (cases t) simp_all

lemma removeNamed_twice: "removeNamed nm (removeNamed nm t) = removeNamed nm t"
proof (induction t)
  case (Element n ats cs)
  have "filter (\<lambda>c. \<not> named nm c) (map (removeNamed nm) (filter (\<lambda>c. \<not> named nm c) cs))
          = map (removeNamed nm) (filter (\<lambda>c. \<not> named nm c) cs)"
    by (simp add: filter_map o_def)
  then show ?case
    using Element.IH by simp
next
  case (Text x)
  show ?case by simp
qed

lemma removeNamed_swap: "removeNamed a (removeNamed b t) = removeNamed b (removeNamed a t)"
proof (induction t)
  case (Element n ats cs)
  have "map (removeNamed a) (filter (\<lambda>c. \<not> named a c) (map (removeNamed b) (filter (\<lambda>c. \<not> named b c) cs)))
      = map (\<lambda>c. removeNamed a (removeNamed b c)) (filter (\<lambda>c. \<not> named a c \<and> \<not> named b c) cs)"
    by (simp add: filter_map o_def conj_commute)
  moreover have "map (removeNamed b) (filter (\<lambda>c. \<not> named b c) (map (removeNamed a) (filter (\<lambda>c. \<not> named a c) cs)))
      = map (\<lambda>c. removeNamed b (removeNamed a c)) (filter (\<lambda>c. \<not> named a c \<and> \<not> named b c) cs)"
    by (simp add: filter_map o_def)
  moreover have "map (\<lambda>c. removeNamed a (removeNamed b c)) (filter (\<lambda>c. \<not> named a c \<and> \<not> named b c) cs)
      = map (\<lambda>c. removeNamed b (removeNamed a c)) (filter (\<lambda>c. \<not> named a c \<and> \<not> named b c) cs)"
    using Element.IH by simp
  ultimately show ?case by simp
next
  case (Text x)
  show ?case by simp
qed

lemma removeNamed_eachElement: "removeNamed a (eachElement f t) = eachElement f (removeNamed a t)"
proof (induction t)
  case (Element n ats cs)
  have "filter (\<lambda>c. \<not> named a c) (map (eachElement f) cs)
      = map (eachElement f) (filter (\<lambda>c. \<not> named a c) cs)"
    by (simp add: filter_map o_def)
  then show ?case
    using Element.IH by simp
next
  case (Text x)
  show ?case by simp
qed

lemma eachElement_compose:
  "eachElement f (eachElement g t) = eachElement (\<lambda>n ats. f n (g n ats)) t"
  by (induction t) simp_all

lemma eachElement_cong_holds:
  "eachHolds (\<lambda>n ats. f n ats = g n ats) t \<Longrightarrow> eachElement f t = eachElement g t"
  by (induction t) simp_all

lemma eachElement_id: "eachElement (\<lambda>n ats. ats) t = t"
  by (induction t) (simp_all add: map_idI)

lemma eachHolds_removeNamed: "eachHolds P t \<Longrightarrow> eachHolds P (removeNamed nm t)"
  by (induction t) simp_all

lemma eachHolds_mono: "(\<And>n ats. P n ats \<Longrightarrow> Q n ats) \<Longrightarrow> eachHolds P t \<Longrightarrow> eachHolds Q t"
  by (induction t) simp_all

lemma foreignEmpty_removeNamed: "foreignEmpty t \<Longrightarrow> foreignEmpty (removeNamed nm t)"
  by (induction t) auto

lemma foreignEmpty_eachElement: "foreignEmpty (eachElement f t) = foreignEmpty t"
  by (induction t) auto

lemma styleFirstElement_no_element:
  "\<forall>c \<in> set cs. \<not> isElement c \<Longrightarrow> styleFirstElement bg cs = cs"
  by (induction bg cs rule: styleFirstElement.induct) simp_all

lemma foreignObjects_empty: "foreignEmpty t \<Longrightarrow> foreignObjects bg t = t"
proof (induction t)
  case (Element n ats cs)
  have m: "map (foreignObjects bg) cs = cs"
    using Element by (simp add: map_idI)
  show ?case
    using Element.prems by (auto simp: m styleFirstElement_no_element)
next
  case (Text x)
  show ?case by simp
qed


lemma named_foreignObjects [simp]: "named a (foreignObjects bg t) = named a t"
  by (cases t) simp_all

lemma removeAttribute_twice: "removeAttribute (removeAttribute ats k) k = removeAttribute ats k"
  by (simp add: removeAttribute_absent map_of_removeAttribute)

lemma removeAttribute_setAttribute:
  "k \<noteq> k' \<Longrightarrow> removeAttribute (setAttribute ats k v) k' = setAttribute (removeAttribute ats k') k v"
  unfolding removeAttribute_def
  by (induction ats k v rule: setAttribute.induct) auto

lemma isWhite_none: "\<not> isWhite (Some ''none'')"
  by (simp add: isWhite_def toLowerCase_def trim_def isSpace_def lowerChar_def)

lemma dropFilter_rectFill: "dropFilter n (rectFill n ats) = rectFill n (dropFilter n ats)"
  by (simp add: dropFilter_def rectFill_def fixRect_def Let_def getAttribute_def
      map_of_removeAttribute removeAttribute_setAttribute)

lemma dropFilter_twice: "dropFilter n (dropFilter n ats) = dropFilter n ats"
  by (simp add: dropFilter_def removeAttribute_twice)

lemma rectSettles_dropFilter: "rectSettles n ats \<Longrightarrow> rectSettles n (dropFilter n ats)"
  by (simp add: rectSettles_def dropFilter_def getAttribute_def map_of_removeAttribute)

lemma rectFill_settled: "rectSettles n ats \<Longrightarrow> rectFill n (rectFill n ats) = rectFill n ats"
proof (cases "n = ''rect'' \<and> (isWhite (getAttribute ats ''fill'')
            \<or> whiteFillTest (case getAttribute ats ''style'' of None \<Rightarrow> [] | Some s \<Rightarrow> s))")
  case False
  then show ?thesis
    by (auto simp: rectFill_def fixRect_def Let_def)
next
  case True
  assume "rectSettles n ats"
  with True have quiet:
    "\<not> whiteFillTest (stripFill (case getAttribute ats ''style'' of None \<Rightarrow> [] | Some s \<Rightarrow> s))"
    by (auto simp: rectSettles_def)
  let ?S = "stripFill (case getAttribute ats ''style'' of None \<Rightarrow> [] | Some s \<Rightarrow> s)"
  let ?R = "setAttribute (setAttribute ats ''fill'' ''none'') ''style'' ?S"
  have r: "fixRect ats = ?R"
    using True by (simp add: fixRect_def Let_def)
  have f: "getAttribute ?R ''fill'' = Some ''none''" and st: "getAttribute ?R ''style'' = Some ?S"
    by (simp_all add: getAttribute_def map_of_setAttribute)
  have "fixRect ?R = ?R"
    by (subst fixRect_def) (simp only: Let_def f st isWhite_none quiet option.case simp_thms if_False)
  then show ?thesis
    using True r by (simp add: rectFill_def)
qed

text \<open>The passes on one child of the root, and which children stay.\<close>

lemma sanitizeSvg_Element:
  "sanitizeSvg bg (Element n ats cs)
     = Element n (fixRoot ats)
         (map (\<lambda>c. foreignObjects bg (eachElement rectFill (eachElement dropFilter
                     (removeNamed ''filter'' (removeNamed ''style'' c)))))
              (filter (\<lambda>c. \<not> named ''style'' c \<and> \<not> named ''filter'' c) cs))"
  by (simp add: sanitizeSvg_def filter_map o_def)

lemma child_settled:
  assumes fe: "foreignEmpty c" and rs: "eachHolds rectSettles c"
  shows "foreignEmpty (eachElement rectFill (eachElement dropFilter
                     (removeNamed ''filter'' (removeNamed ''style'' c))))"
    and "foreignObjects bg (eachElement rectFill (eachElement dropFilter
            (removeNamed ''filter'' (removeNamed ''style''
               (eachElement rectFill (eachElement dropFilter
                  (removeNamed ''filter'' (removeNamed ''style'' c))))))))
         = eachElement rectFill (eachElement dropFilter
             (removeNamed ''filter'' (removeNamed ''style'' c)))"
proof -
  let ?X = "removeNamed ''filter'' (removeNamed ''style'' c)"
  let ?K = "eachElement rectFill (eachElement dropFilter ?X)"
  show feK: "foreignEmpty ?K"
    using fe by (simp add: foreignEmpty_eachElement foreignEmpty_removeNamed)
  have s: "removeNamed ''style'' ?K = ?K"
    by (simp add: removeNamed_eachElement removeNamed_swap [of "''style''" "''filter''"] removeNamed_twice)
  have f: "removeNamed ''filter'' ?K = ?K"
    by (simp add: removeNamed_eachElement removeNamed_twice)
  have d: "eachElement dropFilter ?K = ?K"
    by (simp add: eachElement_compose dropFilter_rectFill dropFilter_twice)
  have "eachHolds rectSettles ?X"
    using rs by (simp add: eachHolds_removeNamed)
  then have "eachHolds (\<lambda>n ats. rectFill n (rectFill n (dropFilter n ats)) = rectFill n (dropFilter n ats)) ?X"
    by (rule eachHolds_mono [rotated]) (simp add: rectFill_settled rectSettles_dropFilter)
  then have r: "eachElement rectFill ?K = ?K"
    by (simp add: eachElement_compose eachElement_cong_holds)
  show "foreignObjects bg (eachElement rectFill (eachElement dropFilter
            (removeNamed ''filter'' (removeNamed ''style'' ?K)))) = ?K"
    by (simp only: s f d r foreignObjects_empty [OF feK])
qed

lemma sanitizeSvg_settled:
  assumes "settles svg"
  shows "sanitizeSvg bg (sanitizeSvg bg svg) = sanitizeSvg bg svg"
proof (cases svg)
  case (Text t)
  then show ?thesis by (simp add: sanitizeSvg_def)
next
  case (Element n ats cs)
  let ?K = "\<lambda>c. eachElement rectFill (eachElement dropFilter
                     (removeNamed ''filter'' (removeNamed ''style'' c)))"
  let ?keep = "\<lambda>c. \<not> named ''style'' c \<and> \<not> named ''filter'' c"
  have child: "foreignEmpty c \<and> eachHolds rectSettles c" if "c \<in> set cs" for c
    using assms Element that by simp
  have once: "sanitizeSvg bg svg = Element n (fixRoot ats) (map ?K (filter ?keep cs))"
    unfolding Element sanitizeSvg_Element
    using child child_settled(1) by (auto simp: foreignObjects_empty)
  have "sanitizeSvg bg (Element n (fixRoot ats) (map ?K (filter ?keep cs)))
      = Element n (fixRoot ats) (map ?K (filter ?keep cs))"
    unfolding sanitizeSvg_Element
    using child child_settled(2) [of _ bg]
    by (auto simp: fixRoot_idem filter_map o_def)
  then show ?thesis
    by (simp add: once)
qed

subsection \<open>Idempotence\<close>

lemmas style_eval = whiteFillTest_def whiteAt_def fillColon_def thenWs_def expect_def skipWs_def
  isSpace_def lowerChar_def rgbWhite_def stripFill_def fillDeclAt_def isWhite_def toLowerCase_def
  trim_def char_of_eq_iff

lemma sanitize_foreignExample: "sanitizeSvg ''#102030'' foreignExample = foreignOnce"
  by (simp add: foreignExample_def foreignOnce_def sanitizeSvg_def fixRoot_def hasAttribute_def
      getAttribute_def removeAttribute_def dropFilter_def rectFill_def Let_def)

lemma sanitize_foreignOnce: "sanitizeSvg ''#102030'' foreignOnce = foreignTwice"
  by (simp add: foreignTwice_def foreignOnce_def sanitizeSvg_def fixRoot_def hasAttribute_def
      getAttribute_def removeAttribute_def dropFilter_def rectFill_def Let_def)

lemma sanitize_settledExample: "sanitizeSvg ''#102030'' settledExample = settledOnce"
  by (simp add: settledExample_def settledOnce_def sanitizeSvg_def fixRoot_def hasAttribute_def
      getAttribute_def removeAttribute_def dropFilter_def rectFill_def fixRect_def Let_def
      startsWith_def style_eval)

lemma settles_settledExample: "settles settledExample"
  by (simp add: settledExample_def rectSettles_def getAttribute_def style_eval)

text \<open>
  The global replacement misses a declaration that directly follows a removed one: the
  style \<open>fill:red;fill:white\<close> is rewritten to \<open>fill:white\<close>, and to the empty style by
  the next run.
\<close>

lemma rect_not_settled:
  "stripFill ''fill:red;fill:white'' = ''fill:white'' \<and> whiteFillTest ''fill:red;fill:white''
   \<and> whiteFillTest ''fill:white'' \<and> stripFill ''fill:white'' = []"
  by (simp add: style_eval)


lemma sanitize_parsed:
  "parseSvg env x = Some svg \<Longrightarrow>
   sanitize env cfg x = Inr (outerHTML env (sanitizeSvg (overallBackground cfg) svg))"
  by (simp add: sanitize_def processSvg_def initialState_def)

lemma sanitize_unparsed:
  "parseSvg env x = None \<Longrightarrow> sanitize env cfg x = Inl ''Invalid SVG content''"
  by (simp add: sanitize_def processSvg_def initialState_def)

text \<open>
  Claim C2, as the code has it. Take an input that parses, in which no \<open>foreignObject\<close>
  has an element child and every \<open>rect\<close> that is rewritten keeps no white fill
  declaration in the style written, and a platform whose parser reads the markup of the
  sanitized tree back as that tree. Then the sanitized tree is a fixed point of the
  transformations, and sanitizing the output again gives the same markup.
\<close>

theorem sanitize_idempotent_when_settled:
  "(settles svg \<longrightarrow>
      sanitizeSvg (overallBackground cfg) (sanitizeSvg (overallBackground cfg) svg)
        = sanitizeSvg (overallBackground cfg) svg)
   \<and> (parseSvg env x = Some svg \<and> settles svg
        \<and> parseSvg env (outerHTML env (sanitizeSvg (overallBackground cfg) svg))
            = Some (sanitizeSvg (overallBackground cfg) svg) \<longrightarrow>
        (\<exists>y. sanitize env cfg x = Inr y \<and> sanitize env cfg y = Inr y))"
proof -
  have tree: "sanitizeSvg (overallBackground cfg) (sanitizeSvg (overallBackground cfg) svg)
        = sanitizeSvg (overallBackground cfg) svg" if "settles svg"
    using that by (rule sanitizeSvg_settled)
  have markup: "\<exists>y. sanitize env cfg x = Inr y \<and> sanitize env cfg y = Inr y"
    if p: "parseSvg env x = Some svg" and s: "settles svg"
      and reread: "parseSvg env (outerHTML env (sanitizeSvg (overallBackground cfg) svg))
            = Some (sanitizeSvg (overallBackground cfg) svg)"
  proof -
    let ?y = "outerHTML env (sanitizeSvg (overallBackground cfg) svg)"
    have one: "sanitize env cfg x = Inr ?y"
      using p by (rule sanitize_parsed)
    have "sanitize env cfg ?y
        = Inr (outerHTML env (sanitizeSvg (overallBackground cfg) (sanitizeSvg (overallBackground cfg) svg)))"
      using reread by (rule sanitize_parsed)
    then have two: "sanitize env cfg ?y = Inr ?y"
      by (simp add: tree [OF s])
    show ?thesis
      using one two by blast
  qed
  show ?thesis
    using tree markup by blast
qed

text \<open>
  With an element inside a \<open>foreignObject\<close> each run appends the background to the style
  of that element once more: the second output differs from the first.
\<close>

theorem sanitize_foreignObject_counterexample:
  "sanitize (exampleEnv sanitizerTable never never) exampleConfig (exampleMarkup foreignExample)
     = Inr (exampleMarkup foreignOnce)
   \<and> sanitize (exampleEnv sanitizerTable never never) exampleConfig (exampleMarkup foreignOnce)
     = Inr (exampleMarkup foreignTwice)
   \<and> exampleMarkup foreignTwice \<noteq> exampleMarkup foreignOnce"
proof -
  let ?E = "exampleEnv sanitizerTable never never"
  have bg: "overallBackground exampleConfig = ''#102030''"
    by (simp add: exampleConfig_def)
  have p1: "parseSvg ?E (exampleMarkup foreignExample) = Some foreignExample"
    by (simp add: example_fields sanitizerTable_def)
  have ne: "exampleMarkup foreignExample \<noteq> exampleMarkup foreignOnce"
    by (simp add: foreignExample_def foreignOnce_def)
  have p2: "parseSvg ?E (exampleMarkup foreignOnce) = Some foreignOnce"
    using ne by (simp add: example_fields sanitizerTable_def)
  have d: "exampleMarkup foreignTwice \<noteq> exampleMarkup foreignOnce"
    by (simp add: foreignTwice_def foreignOnce_def)
  show ?thesis
    using sanitize_parsed [OF p1, of exampleConfig] sanitize_parsed [OF p2, of exampleConfig] d
    by (simp add: bg example_fields sanitize_foreignExample sanitize_foreignOnce)
qed

theorem sanitize_idempotent_when_settled_witness:
  "parseSvg (exampleEnv sanitizerTable never never) (exampleMarkup settledExample) = Some settledExample
   \<and> settles settledExample
   \<and> sanitizeSvg ''#102030'' settledExample = settledOnce
   \<and> parseSvg (exampleEnv sanitizerTable never never) (exampleMarkup settledOnce) = Some settledOnce
   \<and> sanitizeSvg ''#102030'' settledOnce = settledOnce
   \<and> sanitize (exampleEnv sanitizerTable never never) exampleConfig (exampleMarkup settledExample)
       = Inr (exampleMarkup settledOnce)
   \<and> sanitize (exampleEnv sanitizerTable never never) exampleConfig (exampleMarkup settledOnce)
       = Inr (exampleMarkup settledOnce)"
proof -
  let ?E = "exampleEnv sanitizerTable never never"
  have bg: "overallBackground exampleConfig = ''#102030''"
    by (simp add: exampleConfig_def)
  have m1: "exampleMarkup foreignExample \<noteq> exampleMarkup settledExample"
    "exampleMarkup foreignOnce \<noteq> exampleMarkup settledExample"
    by (simp_all add: foreignExample_def foreignOnce_def settledExample_def)
  have m2: "exampleMarkup foreignExample \<noteq> exampleMarkup settledOnce"
    "exampleMarkup foreignOnce \<noteq> exampleMarkup settledOnce"
    "exampleMarkup settledExample \<noteq> exampleMarkup settledOnce"
    by (simp_all add: foreignExample_def foreignOnce_def settledExample_def settledOnce_def)
  have h1: "parseSvg ?E (exampleMarkup settledExample) = Some settledExample"
    using m1 by (simp add: example_fields sanitizerTable_def)
  have h2: "settles settledExample"
    by (rule settles_settledExample)
  have once: "sanitizeSvg (overallBackground exampleConfig) settledExample = settledOnce"
    by (simp add: bg sanitize_settledExample)
  have h3: "parseSvg ?E (outerHTML ?E (sanitizeSvg (overallBackground exampleConfig) settledExample))
      = Some (sanitizeSvg (overallBackground exampleConfig) settledExample)"
    unfolding once using m2 by (simp add: example_fields sanitizerTable_def)
  have tree: "sanitizeSvg (overallBackground exampleConfig)
                (sanitizeSvg (overallBackground exampleConfig) settledExample)
      = sanitizeSvg (overallBackground exampleConfig) settledExample"
    using sanitize_idempotent_when_settled [of settledExample exampleConfig] h2 by blast
  obtain y where y: "sanitize ?E exampleConfig (exampleMarkup settledExample) = Inr y"
      "sanitize ?E exampleConfig y = Inr y"
    using sanitize_idempotent_when_settled [of settledExample exampleConfig ?E
        "exampleMarkup settledExample"] h1 h2 h3 by blast
  have "y = exampleMarkup settledOnce"
    using y(1) sanitize_parsed [OF h1, of exampleConfig] by (simp add: once example_fields)
  then show ?thesis
    using h1 h2 h3 tree y by (simp add: once [unfolded bg] bg example_fields)
qed

end
